theory Spec2Isabelle
  imports Complex_Main "HOL-Library.Log_Nat"
begin

section \<open>Python values, formatted text and effects\<close>

text \<open>
  The three scripts handle values decoded from JSON bodies (\<open>response.json()\<close>); Python's
  \<open>None\<close> is \<open>JNull\<close>. A \<open>str\<close> is kept as its UTF-8 bytes.
\<close>

datatype json =
    JNull
  | JBool bool
  | JInt int
  | JFloat rat
  | JStr string
  | JArr "json list"
  | JObj "(string \<times> json) list"

datatype exn =
    KeyError
  | IndexError
  | TypeError
  | AttributeError
  | JSONDecodeError
  | RequestException string
  | OSError
  | DownloadError
  | CouldntDecodeError
  | OverflowError
  | ZeroDivisionError

text \<open>
  An f-string is kept as its parts, in order: the literal text and the interpolated values.
  \<open>Val v\<close> stands for \<open>{v}\<close>, \<open>Fix2 x\<close> for \<open>{x:.2f}\<close>, \<open>Abspath p\<close> for
  \<open>{os.path.abspath(p)}\<close> and \<open>ExcStr e\<close> for \<open>{str(e)}\<close> of a caught exception.
\<close>

datatype piece =
    Lit string
  | Val json
  | Fix2 rat
  | Abspath "piece list"
  | ExcStr exn

type_synonym fstring = "piece list"

text \<open>
  A formatted string is empty (falsy) only when every part renders empty; of the values,
  only the empty \<open>str\<close> renders empty.
\<close>

fun piece_nonempty :: "piece \<Rightarrow> bool" where
  "piece_nonempty (Lit s) = (s \<noteq> [])"
| "piece_nonempty (Val v) = (v \<noteq> JStr [])"
| "piece_nonempty (Fix2 x) = True"
| "piece_nonempty (Abspath p) = True"
| "piece_nonempty (ExcStr e) = (e \<noteq> RequestException [])"

definition fstring_truthy :: "fstring \<Rightarrow> bool" where
  "fstring_truthy ps = list_ex piece_nonempty ps"

text \<open>The non-ASCII literals of the sources, as their UTF-8 bytes.\<close>

definition cross_mark :: string where
  "cross_mark = [CHR 0xE2, CHR 0x9D, CHR 0x8C]"

definition warning_sign :: string where
  "warning_sign = [CHR 0xE2, CHR 0x9A, CHR 0xA0, CHR 0xEF, CHR 0xB8, CHR 0x8F]"

definition check_mark :: string where
  "check_mark = [CHR 0xE2, CHR 0x9C, CHR 0x85]"

definition game_die :: string where
  "game_die = [CHR 0xF0, CHR 0x9F, CHR 0x8E, CHR 0xB2]"

definition label_sign :: string where
  "label_sign = [CHR 0xF0, CHR 0x9F, CHR 0x8F, CHR 0xB7, CHR 0xEF, CHR 0xB8, CHR 0x8F]"

definition memo_sign :: string where
  "memo_sign = [CHR 0xF0, CHR 0x9F, CHR 0x93, CHR 0x9D]"

definition note_sign :: string where
  "note_sign = [CHR 0xF0, CHR 0x9F, CHR 0x8E, CHR 0xB5]"

definition clapper_sign :: string where
  "clapper_sign = [CHR 0xF0, CHR 0x9F, CHR 0x8E, CHR 0xAC]"

definition gift_sign :: string where
  "gift_sign = [CHR 0xF0, CHR 0x9F, CHR 0x8E, CHR 0x81]"

definition sparkles :: string where
  "sparkles = [CHR 0xE2, CHR 0x9C, CHR 0xA8]"

definition newline :: string where
  "newline = [CHR 0x0A]"

subsection \<open>HTTP\<close>

text \<open>
  A \<open>requests.Response\<close>: \<open>json_body\<close> is what \<open>.json()\<close> returns (\<open>None\<close> when it
  raises), \<open>http_error\<close> the text of the \<open>HTTPError\<close> that \<open>raise_for_status()\<close> builds.
\<close>

record response =
  status_code :: nat
  text_of :: string
  content :: string
  json_body :: "json option"
  http_error :: string

text \<open>
  What the network answers to one request: \<open>requests\<close> raises a \<open>RequestException\<close>
  (with its message and the response it carries, if any), or returns a response.
\<close>

datatype http_result =
    Raises string "response option"
  | Resp response

text \<open>\<open>raise_for_status()\<close> raises for the codes 400 to 599; \<open>bool(response)\<close> is \<open>response.ok\<close>.\<close>

definition raises_for_status :: "response \<Rightarrow> bool" where
  "raises_for_status r = (400 \<le> status_code r \<and> status_code r < 600)"

definition ok :: "response \<Rightarrow> bool" where
  "ok r = (\<not> raises_for_status r)"

text \<open>
  \<open>if not response\<close> on what \<open>api_request\<close> returned: \<open>truthy response\<close> is the
  response when it is there and truthy.
\<close>

definition truthy :: "response option \<Rightarrow> response option" where
  "truthy response = (case response of None \<Rightarrow> None | Some r \<Rightarrow> if ok r then Some r else None)"

datatype event =
    Print fstring
  | Request string fstring "json option" "(string \<times> fstring) list"
  | Sleep nat
  | OpenWB fstring
  | WriteB fstring string
  | YoutubeDL string fstring
  | Export fstring
  | ExportReduced fstring
  | Rename fstring string

text \<open>
  The result of running a piece of a script against the answers of the outside world:
  it returned a value, an exception left it, or it is still inside a polling loop after
  the last answer that was observed.
\<close>

datatype 'a result =
    Returned 'a
  | Raised exn
  | Polling

type_synonym 'a io = "'a result \<times> event list"

subsection \<open>Operations of Python on these values\<close>

text \<open>\<open>s.strip(c)\<close> for a one-character argument.\<close>

definition py_strip :: "char \<Rightarrow> string \<Rightarrow> string" where
  "py_strip c s = rev (dropWhile (\<lambda>x. x = c) (rev (dropWhile (\<lambda>x. x = c) s)))"

text \<open>\<open>d.get(k, default)\<close>: only a dict has the method.\<close>

fun py_get :: "json \<Rightarrow> string \<Rightarrow> json \<Rightarrow> exn + json" where
  "py_get (JObj kv) k d = Inr (case map_of kv k of None \<Rightarrow> d | Some v \<Rightarrow> v)"
| "py_get _ k d = Inl AttributeError"

text \<open>\<open>d[k]\<close> for a string key \<open>k\<close>.\<close>

fun py_item :: "json \<Rightarrow> string \<Rightarrow> exn + json" where
  "py_item (JObj kv) k = (case map_of kv k of None \<Rightarrow> Inl KeyError | Some v \<Rightarrow> Inr v)"
| "py_item _ k = Inl TypeError"

text \<open>
  The characters of a \<open>str\<close>: a UTF-8 continuation byte (\<open>0x80\<close> to \<open>0xBF\<close>) belongs to
  the character before it.
\<close>

definition continuation :: "char \<Rightarrow> bool" where
  "continuation c = (128 \<le> (of_char c :: nat) \<and> (of_char c :: nat) < 192)"

fun py_chars :: "string \<Rightarrow> string list" where
  "py_chars [] = []"
| "py_chars [c] = [[c]]"
| "py_chars (c # d # cs) =
     (if continuation d
      then (case py_chars (d # cs) of [] \<Rightarrow> [[c]] | g # gs \<Rightarrow> (c # g) # gs)
      else [c] # py_chars (d # cs))"

text \<open>\<open>x[0]\<close>.\<close>

fun py_first :: "json \<Rightarrow> exn + json" where
  "py_first (JArr []) = Inl IndexError"
| "py_first (JArr (v # vs)) = Inr v"
| "py_first (JStr s) = (case py_chars s of [] \<Rightarrow> Inl IndexError | c # cs \<Rightarrow> Inr (JStr c))"
| "py_first (JObj kv) = Inl KeyError"
| "py_first _ = Inl TypeError"

fun intersperse :: "string \<Rightarrow> string list \<Rightarrow> string" where
  "intersperse sep [] = []"
| "intersperse sep [s] = s"
| "intersperse sep (s # t # ss) = s @ sep @ intersperse sep (t # ss)"

fun the_strs :: "json list \<Rightarrow> string list option" where
  "the_strs [] = Some []"
| "the_strs (JStr s # vs) = map_option ((#) s) (the_strs vs)"
| "the_strs (_ # vs) = None"

text \<open>\<open>sep.join(x)\<close>: \<open>x\<close> must be iterable and yield only \<open>str\<close>; a dict yields its keys.\<close>

fun py_join :: "string \<Rightarrow> json \<Rightarrow> exn + string" where
  "py_join sep (JArr vs) =
     (case the_strs vs of None \<Rightarrow> Inl TypeError | Some ss \<Rightarrow> Inr (intersperse sep ss))"
| "py_join sep (JStr s) = Inr (intersperse sep (py_chars s))"
| "py_join sep (JObj kv) = Inr (intersperse sep (map fst kv))"
| "py_join sep _ = Inl TypeError"

text \<open>The files that a trace leaves behind: \<open>open(f, "wb")\<close> truncates, \<open>write\<close> appends.\<close>

fun files_after :: "event list \<Rightarrow> (fstring \<rightharpoonup> string) \<Rightarrow> (fstring \<rightharpoonup> string)" where
  "files_after [] fs = fs"
| "files_after (OpenWB f # es) fs = files_after es (fs(f \<mapsto> []))"
| "files_after (WriteB f b # es) fs =
     files_after es (fs(f \<mapsto> (case fs f of None \<Rightarrow> [] | Some old \<Rightarrow> old) @ b))"
| "files_after (_ # es) fs = files_after es fs"

definition requests_of :: "event list \<Rightarrow> event list" where
  "requests_of t = filter (\<lambda>e. case e of Request m u p h \<Rightarrow> True | _ \<Rightarrow> False) t"

definition prints_of :: "event list \<Rightarrow> fstring list" where
  "prints_of t = concat (map (\<lambda>e. case e of Print l \<Rightarrow> [l] | _ \<Rightarrow> []) t)"

definition sleeps_of :: "event list \<Rightarrow> event list" where
  "sleeps_of t = filter (\<lambda>e. case e of Sleep n \<Rightarrow> True | _ \<Rightarrow> False) t"

subsection \<open>Floating-point numbers\<close>

text \<open>
  A Python \<open>float\<close> is an IEEE 754 binary64 number. A finite one is kept as the rational it
  stands for (the two zeros are not told apart). \<open>expo a\<close> is the binary exponent of
  \<open>a > 0\<close>, with \<open>2 ^ expo a \<le> a < 2 ^ (expo a + 1)\<close>; \<open>rne q\<close> is the integer nearest to
  \<open>q\<close>, the even one of the two when \<open>q\<close> lies halfway; \<open>double x\<close> is the number nearest
  to \<open>x\<close> among those with a significand of 53 bits and an exponent of at least -1022
  (the unit in the last place is \<open>2 ^ (e - 52)\<close>), which is what every operation on floats
  returns for the exact result \<open>x\<close> as long as it stays below \<open>2 ^ 1024\<close> in magnitude.
\<close>

definition expo :: "rat \<Rightarrow> int" where
  "expo a =
     (if 1 \<le> a then bitlen \<lfloor>a\<rfloor> - 1
      else let k = bitlen \<lfloor>1 / a\<rfloor> - 1
           in if a * 2 ^ nat k = 1 then - k else - k - 1)"

definition rne :: "rat \<Rightarrow> int" where
  "rne q =
     (let f = \<lfloor>q\<rfloor>; r = q - of_int f
      in if r < 1 / 2 then f
         else if 1 / 2 < r then f + 1
         else if even f then f else f + 1)"

definition double :: "rat \<Rightarrow> rat" where
  "double x =
     (if x = 0 then 0
      else let u = 2 powi (max (expo \<bar>x\<bar>) (- 1022) - 52)
           in sgn x * of_int (rne (\<bar>x\<bar> / u)) * u)"

definition out_of_range :: "rat \<Rightarrow> bool" where
  "out_of_range y = (2 ^ 1024 \<le> \<bar>y\<bar>)"

text \<open>
  A number as the scripts meet it: an \<open>int\<close>, a finite \<open>float\<close>, an infinity or a NaN.
  An operation on floats whose rounded result is out of range returns an infinity.
\<close>

datatype number = PyInt int | PyFloat rat | PyInf | PyNegInf | PyNaN

definition float_result :: "rat \<Rightarrow> number" where
  "float_result x =
     (let y = double x
      in if out_of_range y then (if 0 < y then PyInf else PyNegInf) else PyFloat y)"

text \<open>
  The conversion of an \<open>int\<close> to a \<open>float\<close>, and \<open>a / b\<close> on two \<open>int\<close>s: both round the
  exact value once and raise \<open>OverflowError\<close> when it is out of range.
\<close>

definition float_of_int :: "int \<Rightarrow> exn + rat" where
  "float_of_int i =
     (let y = double (of_int i) in if out_of_range y then Inl OverflowError else Inr y)"

definition true_div :: "int \<Rightarrow> int \<Rightarrow> exn + rat" where
  "true_div a b =
     (if b = 0 then Inl ZeroDivisionError
      else let y = double (of_int a / of_int b)
           in if out_of_range y then Inl OverflowError else Inr y)"

text \<open>\<open>x * 1000\<close>: an \<open>int\<close> stays an \<open>int\<close>; a \<open>float\<close> is multiplied by \<open>1000.0\<close>.\<close>

definition times_1000 :: "number \<Rightarrow> number" where
  "times_1000 x =
     (case x of
        PyInt i \<Rightarrow> PyInt (i * 1000)
      | PyFloat v \<Rightarrow> float_result (v * 1000)
      | PyInf \<Rightarrow> PyInf
      | PyNegInf \<Rightarrow> PyNegInf
      | PyNaN \<Rightarrow> PyNaN)"

text \<open>\<open>i - x\<close> for an \<open>int\<close> \<open>i\<close>: when \<open>x\<close> is a \<open>float\<close>, \<open>i\<close> is converted first.\<close>

definition int_minus :: "int \<Rightarrow> number \<Rightarrow> exn + number" where
  "int_minus i x =
     (case x of
        PyInt j \<Rightarrow> Inr (PyInt (i - j))
      | _ \<Rightarrow>
          (case float_of_int i of
             Inl e \<Rightarrow> Inl e
           | Inr f \<Rightarrow>
               Inr (case x of
                      PyFloat v \<Rightarrow> float_result (f - v)
                    | PyInf \<Rightarrow> PyNegInf
                    | PyNegInf \<Rightarrow> PyInf
                    | _ \<Rightarrow> PyNaN)))"

subsection \<open>Sequencing\<close>

text \<open>
  Statements run in order; the trace grows, and an exception (or a loop that is still
  polling) ends the run of the enclosing block.
\<close>

definition and_then :: "'a io \<Rightarrow> ('a \<Rightarrow> 'b io) \<Rightarrow> 'b io" where
  "and_then m f =
     (case m of
        (Returned a, t) \<Rightarrow> (case f a of (r, t') \<Rightarrow> (r, t @ t'))
      | (Raised e, t) \<Rightarrow> (Raised e, t)
      | (Polling, t) \<Rightarrow> (Polling, t))"

text \<open>
  A call of a function that returns whatever happens, as \<open>api_request\<close> does by catching
  its exceptions: the value and the trace of the call.
\<close>

definition called :: "'a \<times> event list \<Rightarrow> 'a io" where
  "called x = (Returned (fst x), snd x)"

definition ret :: "'a \<Rightarrow> 'a io" where
  "ret a = (Returned a, [])"

definition emit :: "event \<Rightarrow> unit io" where
  "emit e = (Returned (), [e])"

definition lift :: "exn + 'a \<Rightarrow> 'a io" where
  "lift x = (case x of Inl e \<Rightarrow> (Raised e, []) | Inr a \<Rightarrow> (Returned a, []))"

text \<open>\<open>try: m except E as e: h(e)\<close>, for the exceptions \<open>E\<close> selected by \<open>sel\<close>.\<close>

definition try_except :: "'a io \<Rightarrow> (exn \<Rightarrow> bool) \<Rightarrow> (exn \<Rightarrow> 'a io) \<Rightarrow> 'a io" where
  "try_except m sel h =
     (case m of
        (Raised e, t) \<Rightarrow> if sel e then (case h e of (r, t') \<Rightarrow> (r, t @ t')) else (Raised e, t)
      | other \<Rightarrow> other)"

fun is_request_exception :: "exn \<Rightarrow> bool" where
  "is_request_exception (RequestException msg) = True"
| "is_request_exception JSONDecodeError = True"
| "is_request_exception _ = False"

text \<open>\<open>response.json()\<close>, \<open>requests.get(url)\<close> against an answer, \<open>raise_for_status()\<close>.\<close>

definition resp_json :: "response \<Rightarrow> json io" where
  "resp_json r = (case json_body r of None \<Rightarrow> (Raised JSONDecodeError, []) | Some j \<Rightarrow> ret j)"

definition http ::
  "string \<Rightarrow> fstring \<Rightarrow> json option \<Rightarrow> (string \<times> fstring) list \<Rightarrow> http_result \<Rightarrow> response io"
where
  "http method url payload headers answer =
     (case answer of
        Raises msg r \<Rightarrow> (Raised (RequestException msg), [Request method url payload headers])
      | Resp response \<Rightarrow> (Returned response, [Request method url payload headers]))"

definition raise_for_status :: "response \<Rightarrow> unit io" where
  "raise_for_status r =
     (if raises_for_status r then (Raised (RequestException (http_error r)), []) else ret ())"

text \<open>\<open>with open(name, "wb") as f: f.write(data)\<close>; opening fails where the world forbids it.\<close>

definition open_wb :: "(fstring \<Rightarrow> bool) \<Rightarrow> fstring \<Rightarrow> unit io" where
  "open_wb can_open name = (if can_open name then emit (OpenWB name) else (Raised OSError, []))"

section \<open>rock_song_generator.py\<close>

text \<open>
  The outside world of one run: the environment after \<open>load_dotenv()\<close>, and the answer to
  each request the scripts make. The answers to the successive status queries are a list;
  a polling loop that has used them all is still polling.
\<close>

record world =
  getenv :: "string \<Rightarrow> string option"
  submit_answer :: http_result
  status_answers :: "http_result list"
  result_answer :: http_result
  cdn :: "json \<Rightarrow> http_result"
  lemon_submit_answer :: http_result
  lemon_status_answers :: "http_result list"
  can_open :: "fstring \<Rightarrow> bool"

definition sonauto_placeholder :: string where
  "sonauto_placeholder = ''your_sonauto_api_key''"

definition rock_API_KEY :: "world \<Rightarrow> string" where
  "rock_API_KEY w =
     (case getenv w ''SONAUTO_API_KEY'' of None \<Rightarrow> sonauto_placeholder | Some k \<Rightarrow> k)"

definition base_url :: string where
  "base_url = ''https://api.sonauto.ai/v1''"

definition api_headers :: "json \<Rightarrow> (string \<times> fstring) list" where
  "api_headers key =
     [(''Authorization'', [Lit ''Bearer '', Val key]),
      (''Content-Type'', [Lit ''application/json''])]"

definition rock_api_request ::
  "string \<Rightarrow> string \<Rightarrow> fstring \<Rightarrow> json option \<Rightarrow> http_result \<Rightarrow> response option \<times> event list"
where
  "rock_api_request key method endpoint payload answer =
     (let req = Request method ([Lit base_url, Lit ''/''] @ endpoint) payload
                  (api_headers (JStr key))
      in case answer of
           Raises msg r \<Rightarrow>
             (None, [req, Print [Lit (newline @ cross_mark @ '' API Error: ''), Val (JStr msg)]])
         | Resp response \<Rightarrow>
             if raises_for_status response
             then (None, [req, Print [Lit (newline @ cross_mark @ '' API Error: ''),
                                      Val (JStr (http_error response))]])
             else (Some response, [req]))"

text \<open>
  \<open>poll_status\<close> is the same text in rock_song_generator.py and transition_generator.py; the
  two differ in the \<open>api_request\<close> they call, which is the first argument here.
\<close>

fun poll_status ::
  "(string \<Rightarrow> fstring \<Rightarrow> json option \<Rightarrow> http_result \<Rightarrow> response option \<times> event list) \<Rightarrow>
   json \<Rightarrow> string option \<Rightarrow> http_result list \<Rightarrow> string io"
where
  "poll_status api task_id prev_status [] = (Polling, [])"
| "poll_status api task_id prev_status (answer # answers) =
     (case api ''GET'' [Lit ''generations/status/'', Val task_id] None answer of
        (response, t1) \<Rightarrow>
          (case truthy response of
             None \<Rightarrow> (Returned ''FAILURE'', t1)
           | Some rsp \<Rightarrow>
                 let status = py_strip (CHR 0x22) (text_of rsp);
                     changed = (Some status \<noteq> prev_status);
                     t2 = (if changed then [Print [Lit ''Status: '', Val (JStr status)]] else []);
                     prev_status' = (if changed then Some status else prev_status)
                 in if status \<in> set [''SUCCESS'', ''FAILURE'']
                    then (Returned status, t1 @ t2)
                    else (case poll_status api task_id prev_status' answers of
                            (res, t3) \<Rightarrow> (res, t1 @ t2 @ [Sleep 5] @ t3))))"

definition rock_poll_status :: "world \<Rightarrow> json \<Rightarrow> string io" where
  "rock_poll_status w task_id =
     poll_status (rock_api_request (rock_API_KEY w)) task_id None (status_answers w)"

definition display_results :: "json \<Rightarrow> unit io" where
  "display_results result =
     and_then (lift (py_get result ''lyrics'' (JStr ''No lyrics found''))) (\<lambda>lyrics.
     and_then (lift (py_get result ''seed'' (JStr ''Unknown''))) (\<lambda>seed.
     and_then (lift (py_get result ''tags'' (JArr []))) (\<lambda>tags.
     and_then (emit (Print [Lit (newline @ replicate 40 (CHR ''=''))])) (\<lambda>_.
     and_then (emit (Print [Lit (game_die @ '' SEED: ''), Val seed])) (\<lambda>_.
     and_then (lift (py_join '', '' tags)) (\<lambda>joined.
     and_then (emit (Print [Lit (label_sign @ '' TAGS: ''), Val (JStr joined)])) (\<lambda>_.
     and_then (emit (Print [Lit (newline @ memo_sign @ '' LYRICS:'' @ newline), Val lyrics])) (\<lambda>_.
     emit (Print [Lit (replicate 40 (CHR ''=''))])))))))))"

definition rock_error_placeholder :: string where
  "rock_error_placeholder = ''No detailed error message available''"

text \<open>Lines 96 to 105: the branch taken when polling returned \<open>"FAILURE"\<close>.\<close>

definition rock_report_failure :: "world \<Rightarrow> json \<Rightarrow> fstring option io" where
  "rock_report_failure w task_id =
     (and_then (called (rock_api_request (rock_API_KEY w) ''GET''
                          [Lit ''generations/'', Val task_id] None (result_answer w)))
        (\<lambda>error_response.
          case truthy error_response of
            Some rsp \<Rightarrow>
              and_then (resp_json rsp) (\<lambda>error_data.
              and_then (lift (py_get error_data ''error_message'' (JStr rock_error_placeholder)))
                (\<lambda>error_message.
              and_then (emit (Print [Lit (cross_mark @ '' Generation failed: ''),
                                     Val error_message]))
                (\<lambda>_. ret None)))
          | None \<Rightarrow>
              and_then (emit (Print [Lit (cross_mark @
                          '' Generation failed and couldn't retrieve error details'')]))
                (\<lambda>_. ret None)))"

text \<open>Lines 118 to 131: the download of the song from the CDN URL and the write to disk.\<close>

definition rock_save_song :: "world \<Rightarrow> json \<Rightarrow> json \<Rightarrow> fstring option io" where
  "rock_save_song w task_id song_url =
     (let song_filename = [Lit ''rock_song_'', Val task_id, Lit ''.ogg''] in
      try_except
        (and_then (http ''GET'' [Val song_url] None [] (cdn w song_url)) (\<lambda>download_response.
         and_then (raise_for_status download_response) (\<lambda>_.
         and_then (open_wb (can_open w) song_filename) (\<lambda>_.
         and_then (emit (WriteB song_filename (content download_response))) (\<lambda>_.
         and_then (emit (Print [Lit (newline @ check_mark @ '' Song saved to ''),
                                Abspath song_filename])) (\<lambda>_.
         ret (Some song_filename)))))))
        is_request_exception
        (\<lambda>e. and_then (emit (Print [Lit (newline @ cross_mark @ '' Download Error: ''), ExcStr e]))
               (\<lambda>_. ret None)))"

definition generate_rock_song :: "world \<Rightarrow> fstring option io" where
  "generate_rock_song w =
     (if rock_API_KEY w = sonauto_placeholder
      then and_then (emit (Print [Lit (warning_sign @
               ''  Please set your Sonauto API key in the .env file or environment variables'')]))
             (\<lambda>_. ret None)
      else
        let payload = JObj [(''prompt'',
                               JStr ''An upbeat rock song about how awesome programming is''),
                            (''num_songs'', JInt 1)]
        in and_then (called (rock_api_request (rock_API_KEY w) ''POST'' [Lit ''generations''] (Some payload)
                  (submit_answer w))) (\<lambda>response.
               case truthy response of
                 None \<Rightarrow> ret None
               | Some rsp \<Rightarrow>
                     and_then (resp_json rsp) (\<lambda>body.
                     and_then (lift (py_get body ''task_id'' JNull)) (\<lambda>task_id.
                     and_then (emit (Print [Lit ''Generation started with task ID: '',
                                            Val task_id])) (\<lambda>_.
                     and_then (rock_poll_status w task_id) (\<lambda>status.
                     if status = ''FAILURE'' then rock_report_failure w task_id
                     else
                       and_then (called (rock_api_request (rock_API_KEY w) ''GET''
                              [Lit ''generations/'', Val task_id] None (result_answer w))) (\<lambda>result.
                           case truthy result of
                             None \<Rightarrow> ret None
                           | Some res \<Rightarrow>
                                 and_then (resp_json res) (\<lambda>result_data.
                                 and_then (lift (py_item result_data ''song_paths''))
                                   (\<lambda>song_paths.
                                 and_then (lift (py_first song_paths)) (\<lambda>song_url.
                                 and_then (display_results result_data) (\<lambda>_.
                                 rock_save_song w task_id song_url)))))))))))"

text \<open>
  The process: \<open>sys.exit(1)\<close> when the function returned a falsy value; an exception that
  nothing catches ends the interpreter with status 1; otherwise the module ends and the
  status is 0. A run that is still polling has not exited.
\<close>

datatype exit_status = Exit nat | Running

definition rock_main :: "world \<Rightarrow> exit_status \<times> event list" where
  "rock_main w =
     (case generate_rock_song w of
        (Returned song_file, t) \<Rightarrow>
          (if (case song_file of None \<Rightarrow> True | Some name \<Rightarrow> \<not> fstring_truthy name)
           then (Exit 1, t) else (Exit 0, t))
      | (Raised e, t) \<Rightarrow> (Exit 1, t)
      | (Polling, t) \<Rightarrow> (Running, t))"

section \<open>singing_telegram.py\<close>

definition lemonslice_placeholder :: string where
  "lemonslice_placeholder = ''your_lemonslice_api_key''"

definition SONAUTO_API_KEY :: "world \<Rightarrow> string" where
  "SONAUTO_API_KEY w =
     (case getenv w ''SONAUTO_API_KEY'' of None \<Rightarrow> sonauto_placeholder | Some k \<Rightarrow> k)"

definition LEMON_SLICE_API_KEY :: "world \<Rightarrow> string" where
  "LEMON_SLICE_API_KEY w =
     (case getenv w ''LEMON_SLICE_API_KEY'' of None \<Rightarrow> lemonslice_placeholder | Some k \<Rightarrow> k)"

definition SONAUTO_BASE_URL :: string where
  "SONAUTO_BASE_URL = ''https://api.sonauto.ai/v1''"

definition LEMON_SLICE_BASE_URL :: string where
  "LEMON_SLICE_BASE_URL = ''https://lemonslice.com/api/v2''"

definition sophia_url :: string where
  "sophia_url = ''https://6ammc3n5zzf5ljnz.public.blob.vercel-storage.com/actor_previews/actor_preview_sophia-eBMR0dI7joEpZ542diXv7kib5AEJwz''"

definition CHARACTER_IMAGES :: "(string \<times> string) list" where
  "CHARACTER_IMAGES = [(''birthday'', sophia_url), (''default'', sophia_url)]"

definition check_api_keys :: "world \<Rightarrow> bool io" where
  "check_api_keys w =
     (if SONAUTO_API_KEY w = sonauto_placeholder
      then and_then (emit (Print [Lit (warning_sign @
               ''  Please set your Sonauto API key in the .env file or environment variables'')]))
             (\<lambda>_. ret False)
      else if LEMON_SLICE_API_KEY w = lemonslice_placeholder
      then and_then (emit (Print [Lit (warning_sign @
               ''  Please set your Lemon Slice API key in the .env file or environment variables'')]))
             (\<lambda>_. ret False)
      else ret True)"

definition telegram_error_placeholder :: string where
  "telegram_error_placeholder = ''Unknown error''"

text \<open>
  Lines 71 to 90, the polling loop of \<open>generate_custom_song\<close>: it is left by \<open>break\<close>
  on \<open>"SUCCESS"\<close> and by \<open>return None\<close> on \<open>"FAILURE"\<close>.
\<close>

datatype loop_exit = Break | Return_None

fun song_poll ::
  "(string \<times> fstring) list \<Rightarrow> http_result \<Rightarrow> json \<Rightarrow> string option \<Rightarrow> http_result list \<Rightarrow>
   loop_exit io"
where
  "song_poll headers error_answer task_id prev_status [] = (Polling, [])"
| "song_poll headers error_answer task_id prev_status (answer # answers) =
     and_then (http ''GET'' [Lit SONAUTO_BASE_URL, Lit ''/generations/status/'', Val task_id]
                 None headers answer) (\<lambda>status_resp.
     let status = py_strip (CHR 0x22) (text_of status_resp);
         changed = (Some status \<noteq> prev_status);
         prev_status' = (if changed then Some status else prev_status)
     in
     and_then (if changed then emit (Print [Lit ''Song status: '', Val (JStr status)])
               else ret ()) (\<lambda>_.
     if status = ''SUCCESS'' then ret Break
     else if status = ''FAILURE'' then
       and_then (http ''GET'' [Lit SONAUTO_BASE_URL, Lit ''/generations/'', Val task_id]
                   None headers error_answer) (\<lambda>error_resp.
       and_then (resp_json error_resp) (\<lambda>error_data.
       and_then (lift (py_get error_data ''error_message'' (JStr telegram_error_placeholder)))
         (\<lambda>error_message.
       and_then (emit (Print [Lit (cross_mark @ '' Song generation failed: ''),
                              Val error_message])) (\<lambda>_.
       ret Return_None))))
     else
       and_then (emit (Sleep 5)) (\<lambda>_.
       song_poll headers error_answer task_id prev_status' answers)))"

text \<open>The dict that \<open>generate_custom_song\<close> returns, by its keys.\<close>

record song_data =
  sd_song_url :: json
  sd_local_path :: fstring
  sd_lyrics :: json
  sd_task_id :: json

definition generate_custom_song ::
  "world \<Rightarrow> string \<Rightarrow> string \<Rightarrow> string \<Rightarrow> string \<Rightarrow> song_data option io"
where
  "generate_custom_song w recipient occasion message style =
     and_then (emit (Print [Lit (note_sign @ '' Generating custom song...'')])) (\<lambda>_.
     let prompt = ''A '' @ style @ '' song for '' @ recipient @ [CHR 0x27] @ ''s '' @ occasion
                  @ ''. The song should mention that '' @ message;
         headers = api_headers (JStr (SONAUTO_API_KEY w));
         payload = JObj [(''prompt'', JStr prompt), (''num_songs'', JInt 1)]
     in
     try_except
       (and_then (http ''POST'' [Lit SONAUTO_BASE_URL, Lit ''/generations''] (Some payload)
                    headers (submit_answer w)) (\<lambda>response.
        and_then (raise_for_status response) (\<lambda>_.
        and_then (resp_json response) (\<lambda>body.
        and_then (lift (py_get body ''task_id'' JNull)) (\<lambda>task_id.
        and_then (emit (Print [Lit ''Song generation started with task ID: '', Val task_id]))
          (\<lambda>_.
        and_then (song_poll headers (result_answer w) task_id None (status_answers w))
          (\<lambda>how.
        case how of
          Return_None \<Rightarrow> ret None
        | Break \<Rightarrow>
            and_then (http ''GET'' [Lit SONAUTO_BASE_URL, Lit ''/generations/'', Val task_id]
                        None headers (result_answer w)) (\<lambda>result_resp.
            and_then (resp_json result_resp) (\<lambda>result.
            and_then (lift (py_item result ''song_paths'')) (\<lambda>song_paths.
            and_then (lift (py_first song_paths)) (\<lambda>song_url.
            and_then (lift (py_get result ''lyrics'' (JStr ''No lyrics found''))) (\<lambda>lyrics.
            and_then (emit (Print [Lit (newline @ replicate 40 (CHR ''=''))])) (\<lambda>_.
            and_then (emit (Print [Lit (memo_sign @ '' GENERATED LYRICS:'' @ newline),
                                   Val lyrics])) (\<lambda>_.
            and_then (emit (Print [Lit (replicate 40 (CHR ''='') @ newline)])) (\<lambda>_.
            let song_filename = [Lit ''telegram_song_'', Val task_id, Lit ''.ogg''] in
            and_then (open_wb (can_open w) song_filename) (\<lambda>_.
            and_then (http ''GET'' [Val song_url] None [] (cdn w song_url)) (\<lambda>song_response.
            and_then (emit (WriteB song_filename (content song_response))) (\<lambda>_.
            and_then (emit (Print [Lit (check_mark @ '' Song saved to ''),
                                   Abspath song_filename])) (\<lambda>_.
            ret (Some \<lparr>sd_song_url = song_url, sd_local_path = song_filename,
                       sd_lyrics = lyrics, sd_task_id = task_id\<rparr>))))))))))))))))))))
       (\<lambda>e. True)
       (\<lambda>e. and_then (emit (Print [Lit (cross_mark @ '' Error during song generation: ''),
                                   ExcStr e])) (\<lambda>_. ret None)))"

text \<open>\<open>str.lower()\<close> on the ASCII letters.\<close>

definition py_lower :: "string \<Rightarrow> string" where
  "py_lower s =
     map (\<lambda>c. if 65 \<le> (of_char c :: nat) \<and> (of_char c :: nat) \<le> 90
               then char_of ((of_char c :: nat) + 32) else c) s"

text \<open>
  Lines 145 to 156, the polling loop of \<open>create_singing_video\<close>: it runs while the
  status is \<open>"pending"\<close> and hands the last body and status to the code after it.
\<close>

fun video_poll :: "string \<Rightarrow> json \<Rightarrow> http_result list \<Rightarrow> (json \<times> json) io" where
  "video_poll key job_id [] = (Polling, [])"
| "video_poll key job_id (answer # answers) =
     and_then (http ''GET'' [Lit LEMON_SLICE_BASE_URL, Lit ''/generations/'', Val job_id] None
                 [(''authorization'', [Lit ''Bearer '', Val (JStr key)])] answer)
       (\<lambda>status_resp.
     and_then (resp_json status_resp) (\<lambda>data.
     and_then (lift (py_get data ''status'' JNull)) (\<lambda>status.
     if status = JStr ''pending'' then
       and_then (emit (Print [Lit ''Waiting for video to complete...''])) (\<lambda>_.
       and_then (emit (Sleep 5)) (\<lambda>_.
       video_poll key job_id answers))
     else ret (data, status))))"

record video_data =
  vd_video_url :: json
  vd_local_path :: fstring

definition create_singing_video ::
  "world \<Rightarrow> song_data \<Rightarrow> string \<Rightarrow> string \<Rightarrow> video_data option io"
where
  "create_singing_video w song recipient occasion =
     and_then (emit (Print [Lit (newline @ clapper_sign @
                                 '' Creating singing telegram video...'')])) (\<lambda>_.
     and_then (lift (case map_of CHARACTER_IMAGES (py_lower occasion) of
                       Some u \<Rightarrow> Inr u
                     | None \<Rightarrow> (case map_of CHARACTER_IMAGES ''default'' of
                                   Some u \<Rightarrow> Inr u | None \<Rightarrow> Inl KeyError))) (\<lambda>img_url.
     let headers = [(''accept'', [Lit ''application/json'']),
                    (''authorization'', [Lit ''Bearer '', Val (JStr (LEMON_SLICE_API_KEY w))]),
                    (''content-type'', [Lit ''application/json''])];
         data = JObj [(''resolution'', JStr ''320''),
                      (''crop_head'', JBool False),
                      (''expressiveness'', JInt 1),
                      (''img_url'', JStr img_url),
                      (''audio_url'', sd_song_url song),
                      (''whole_body_mode'', JBool True)]
     in
     try_except
       (and_then (http ''POST'' [Lit LEMON_SLICE_BASE_URL, Lit ''/generate''] (Some data)
                    headers (lemon_submit_answer w)) (\<lambda>response.
        and_then (raise_for_status response) (\<lambda>_.
        and_then (resp_json response) (\<lambda>body.
        and_then (lift (py_get body ''job_id'' JNull)) (\<lambda>job_id.
        and_then (emit (Print [Lit ''Video generation started with job ID: '', Val job_id]))
          (\<lambda>_.
        and_then (video_poll (LEMON_SLICE_API_KEY w) job_id (lemon_status_answers w))
          (\<lambda>(data, status).
        if status = JStr ''completed'' then
          and_then (lift (py_get data ''video_url'' JNull)) (\<lambda>video_url.
          let video_filename = [Lit ''telegram_video_'', Val (sd_task_id song), Lit ''.mp4''] in
          and_then (open_wb (can_open w) video_filename) (\<lambda>_.
          and_then (http ''GET'' [Val video_url] None [] (cdn w video_url)) (\<lambda>video_response.
          and_then (emit (WriteB video_filename (content video_response))) (\<lambda>_.
          and_then (emit (Print [Lit (check_mark @ '' Video saved to ''),
                                 Abspath video_filename])) (\<lambda>_.
          ret (Some \<lparr>vd_video_url = video_url, vd_local_path = video_filename\<rparr>))))))
        else
          and_then (emit (Print [Lit (cross_mark @ '' Video generation failed with status: ''),
                                 Val status])) (\<lambda>_.
          ret None))))))))
       (\<lambda>e. True)
       (\<lambda>e. and_then (emit (Print [Lit (cross_mark @ '' Error during video generation: ''),
                                   ExcStr e])) (\<lambda>_. ret None))))"

definition create_singing_telegram ::
  "world \<Rightarrow> string \<Rightarrow> string \<Rightarrow> string \<Rightarrow> string \<Rightarrow> bool io"
where
  "create_singing_telegram w recipient occasion message style =
     and_then (check_api_keys w) (\<lambda>keys_ok.
     if \<not> keys_ok then ret False
     else
       and_then (emit (Print [Lit (gift_sign @ '' Creating a ''), Val (JStr style),
                              Lit '' singing telegram for '', Val (JStr recipient),
                              Lit ([CHR 0x27] @ ''s ''), Val (JStr occasion), Lit ''...'']))
         (\<lambda>_.
       and_then (generate_custom_song w recipient occasion message style) (\<lambda>song.
       case song of
         None \<Rightarrow> ret False
       | Some song \<Rightarrow>
           and_then (create_singing_video w song recipient occasion) (\<lambda>video.
           case video of
             None \<Rightarrow> ret False
           | Some video \<Rightarrow>
               and_then (emit (Print [Lit (newline @ replicate 60 (CHR ''=''))])) (\<lambda>_.
               and_then (emit (Print [Lit (sparkles @
                                  '' SINGING TELEGRAM CREATED SUCCESSFULLY! '' @ sparkles)]))
                 (\<lambda>_.
               and_then (emit (Print [Lit (note_sign @ '' Song: ''),
                                      Abspath (sd_local_path song)])) (\<lambda>_.
               and_then (emit (Print [Lit (clapper_sign @ '' Video: ''),
                                      Abspath (vd_local_path video)])) (\<lambda>_.
               and_then (emit (Print [Lit (replicate 60 (CHR ''=''))])) (\<lambda>_.
               ret True)))))))))"

text \<open>The arguments that \<open>argparse\<close> hands over after a successful parse.\<close>

record telegram_args =
  recipient :: string
  occasion :: string
  message :: string
  style :: string

definition telegram_main :: "world \<Rightarrow> telegram_args \<Rightarrow> exit_status \<times> event list" where
  "telegram_main w args =
     (case create_singing_telegram w (recipient args) (occasion args) (message args)
             (style args) of
        (Returned success, t) \<Rightarrow> (if \<not> success then (Exit 1, t) else (Exit 0, t))
      | (Raised e, t) \<Rightarrow> (Exit 1, t)
      | (Polling, t) \<Rightarrow> (Running, t))"

section \<open>transition_generator.py\<close>

text \<open>
  What the script uses besides HTTP: yt-dlp, the pydub library and the local file system.
  They are not part of the repository, so they are parameters. An audio segment is any
  type \<open>'seg\<close>; each operation of the library returns its result or raises.
\<close>

record 'seg studio =
  youtube :: "string \<Rightarrow> exn + json"
  from_file :: "fstring \<Rightarrow> exn + 'seg"
  seg_len :: "'seg \<Rightarrow> nat"
  slice :: "'seg \<Rightarrow> number \<Rightarrow> number \<Rightarrow> exn + 'seg"
  silent :: "int \<Rightarrow> exn + 'seg"
  plus :: "'seg \<Rightarrow> 'seg \<Rightarrow> exn + 'seg"
  set_channels :: "'seg \<Rightarrow> nat \<Rightarrow> exn + 'seg"
  can_export :: "fstring \<Rightarrow> bool"
  getsize :: "fstring \<Rightarrow> exn + nat"
  read_base64 :: "fstring \<Rightarrow> exn + string"
  temp_dir :: string
  now :: int
  can_rename :: "fstring \<Rightarrow> string \<Rightarrow> bool"

definition transition_API_KEY :: "world \<Rightarrow> string option" where
  "transition_API_KEY w = getenv w ''SONAUTO_API_KEY''"

definition str_or_none :: "string option \<Rightarrow> json" where
  "str_or_none v = (case v of None \<Rightarrow> JNull | Some s \<Rightarrow> JStr s)"

definition describe_response :: "response \<Rightarrow> event list" where
  "describe_response r =
     [Print [Lit ''Response status: '', Val (JInt (int (status_code r)))],
      Print [Lit ''Response content: '',
             Val (case json_body r of Some j \<Rightarrow> j | None \<Rightarrow> JStr (text_of r))]]"

definition transition_api_request ::
  "string option \<Rightarrow> string \<Rightarrow> fstring \<Rightarrow> json option \<Rightarrow> http_result \<Rightarrow>
   response option \<times> event list"
where
  "transition_api_request key method endpoint payload answer =
     (let req = Request method ([Lit base_url, Lit ''/''] @ endpoint) payload
                  (api_headers (str_or_none key))
      in case answer of
           Raises msg r \<Rightarrow>
             (None, [req, Print [Lit (newline @ cross_mark @ '' API Error: ''), Val (JStr msg)]]
                    @ (case r of None \<Rightarrow> [] | Some rsp \<Rightarrow> describe_response rsp))
         | Resp response \<Rightarrow>
             if raises_for_status response
             then (None, [req, Print [Lit (newline @ cross_mark @ '' API Error: ''),
                                      Val (JStr (http_error response))]]
                         @ describe_response response)
             else (Some response, [req]))"

definition transition_poll_status :: "world \<Rightarrow> json \<Rightarrow> string io" where
  "transition_poll_status w task_id =
     poll_status (transition_api_request (transition_API_KEY w)) task_id None (status_answers w)"

definition download_youtube_audio ::
  "'seg studio \<Rightarrow> string \<Rightarrow> fstring \<Rightarrow> (fstring \<times> json) io"
where
  "download_youtube_audio st url output_path =
     and_then (emit (Print [Lit ''Downloading audio from '', Val (JStr url), Lit ''...'']))
       (\<lambda>_.
     and_then (emit (YoutubeDL url output_path)) (\<lambda>_.
     and_then (lift (youtube st url)) (\<lambda>info.
     and_then (lift (py_get info ''title'' (JStr ''Unknown''))) (\<lambda>title.
     ret (output_path @ [Lit ''.mp3''], title)))))"

definition export_to :: "'seg studio \<Rightarrow> fstring \<Rightarrow> unit io" where
  "export_to st path = (if can_export st path then emit (Export path) else (Raised OSError, []))"

definition create_concatenated_audio ::
  "'seg studio \<Rightarrow> fstring \<Rightarrow> fstring \<Rightarrow> fstring \<Rightarrow> fstring \<Rightarrow> int \<Rightarrow> int \<Rightarrow> number \<Rightarrow>
   number \<Rightarrow> (fstring \<times> rat \<times> rat) io"
where
  "create_concatenated_audio st song1_path song2_path output_path combined_output_path
     song_duration silence_duration trim_from_end trim_to_start =
     and_then (emit (Print [Lit ''Creating concatenated audio file...''])) (\<lambda>_.
     and_then (lift (from_file st song1_path)) (\<lambda>song1.
     and_then (lift (from_file st song2_path)) (\<lambda>song2.
     let song1_duration = min (song_duration * 1000) (int (seg_len st song1));
         song2_duration = min (song_duration * 1000) (int (seg_len st song2));
         trim_from_end_ms = times_1000 trim_from_end;
         trim_to_start_ms = times_1000 trim_to_start
     in
     and_then (lift (int_minus song1_duration trim_from_end_ms)) (\<lambda>song1_end.
     and_then (lift (slice st song1 (PyInt 0) song1_end)) (\<lambda>song1.
     and_then (lift (slice st song2 trim_to_start_ms (PyInt song2_duration))) (\<lambda>song2.
     and_then (lift (silent st (silence_duration * 1000))) (\<lambda>silence.
     and_then (lift (plus st song1 silence)) (\<lambda>song1_silence.
     and_then (lift (plus st song1_silence song2)) (\<lambda>combined.
     and_then (export_to st output_path) (\<lambda>_.
     and_then (export_to st combined_output_path) (\<lambda>_.
     and_then (emit (Print [Lit ''Saved pre-inpainting version to: '',
                            Abspath combined_output_path])) (\<lambda>_.
     and_then (lift (true_div (int (seg_len st song1)) 1000)) (\<lambda>song1_seconds.
     let silence_start = double (song1_seconds - double (1 / 10)) in
     and_then (lift (true_div (int (seg_len st song1) + int (seg_len st silence)) 1000))
       (\<lambda>end_seconds.
     let silence_end = double (end_seconds + double (1 / 10))
     in ret (output_path, silence_start, silence_end)))))))))))))))"

definition encode_audio_base64 :: "'seg studio \<Rightarrow> fstring \<Rightarrow> string io" where
  "encode_audio_base64 st file_path = lift (read_base64 st file_path)"

definition transition_error_placeholder :: string where
  "transition_error_placeholder = ''No detailed error message available''"

text \<open>Lines 189 to 198: the branch taken when polling returned \<open>"FAILURE"\<close>.\<close>

definition transition_report_failure :: "world \<Rightarrow> json \<Rightarrow> fstring option io" where
  "transition_report_failure w task_id =
     (and_then (called (transition_api_request (transition_API_KEY w) ''GET''
             [Lit ''generations/'', Val task_id] None (result_answer w))) (\<lambda>error_response.
          case truthy error_response of
            Some rsp \<Rightarrow>
              and_then (resp_json rsp) (\<lambda>error_data.
              and_then (lift (py_get error_data ''error_message''
                                (JStr transition_error_placeholder))) (\<lambda>error_message.
              and_then (emit (Print [Lit (cross_mark @ '' Inpainting failed: ''),
                                     Val error_message]))
                (\<lambda>_. ret None)))
          | None \<Rightarrow>
              and_then (emit (Print [Lit (cross_mark @
                          '' Inpainting failed and couldn't retrieve error details'')]))
                (\<lambda>_. ret None)))"

text \<open>Lines 208 to 220: the download of the result and the write to disk.\<close>

definition transition_save :: "world \<Rightarrow> json \<Rightarrow> json \<Rightarrow> fstring option io" where
  "transition_save w task_id song_url =
     (let output_path = [Lit ''transition_'', Val task_id, Lit ''.ogg''] in
      try_except
        (and_then (http ''GET'' [Val song_url] None [] (cdn w song_url)) (\<lambda>download_response.
         and_then (raise_for_status download_response) (\<lambda>_.
         and_then (open_wb (can_open w) output_path) (\<lambda>_.
         and_then (emit (WriteB output_path (content download_response))) (\<lambda>_.
         and_then (emit (Print [Lit (newline @ check_mark @ '' Transition saved to ''),
                                Abspath output_path])) (\<lambda>_.
         ret (Some output_path)))))))
        is_request_exception
        (\<lambda>e. and_then (emit (Print [Lit (newline @ cross_mark @ '' Download Error: ''), ExcStr e]))
               (\<lambda>_. ret None)))"

text \<open>Lines 144 to 163: a file above 35 MB is reduced to mono at 128k, or given up.\<close>

definition reduce_if_large :: "'seg studio \<Rightarrow> fstring \<Rightarrow> fstring option io" where
  "reduce_if_large st audio_path =
     and_then (lift (getsize st audio_path)) (\<lambda>size.
     and_then (lift (true_div (int size) (1024 * 1024))) (\<lambda>file_size_mb.
     if file_size_mb > 35 then
       and_then (emit (Print [Lit (warning_sign @ '' File size (''), Fix2 file_size_mb,
                              Lit '' MB) may be too large. Attempting to reduce...''])) (\<lambda>_.
       and_then (lift (from_file st audio_path)) (\<lambda>audio.
       and_then (lift (set_channels st audio 1)) (\<lambda>audio.
       let temp_file = audio_path @ [Lit ''_reduced.mp3''] in
       and_then (if can_export st temp_file then emit (ExportReduced temp_file)
                 else (Raised OSError, [])) (\<lambda>_.
       and_then (lift (getsize st temp_file)) (\<lambda>reduced_size.
       and_then (lift (true_div (int reduced_size) (1024 * 1024))) (\<lambda>reduced_size_mb.
       and_then (emit (Print [Lit ''Reduced file size to '', Fix2 reduced_size_mb,
                              Lit '' MB''])) (\<lambda>_.
       if reduced_size_mb > 35 then
         and_then (emit (Print [Lit (cross_mark @
                     '' Even after reduction, file size is too large'')])) (\<lambda>_.
         ret None)
       else ret (Some temp_file))))))))
     else ret (Some audio_path)))"

definition create_transition ::
  "world \<Rightarrow> 'seg studio \<Rightarrow> fstring \<Rightarrow> rat \<Rightarrow> rat \<Rightarrow> fstring option io"
where
  "create_transition w st audio_path section_start section_end =
     and_then (emit (Print [Lit ''Creating transition between '', Fix2 section_start,
                            Lit ''s and '', Fix2 section_end, Lit ''s...''])) (\<lambda>_.
     and_then (reduce_if_large st audio_path) (\<lambda>reduced.
     case reduced of
       None \<Rightarrow> ret None
     | Some audio_path \<Rightarrow>
         and_then (encode_audio_base64 st audio_path) (\<lambda>audio_base64.
         let payload = JObj [(''audio_base64'', JStr audio_base64),
                             (''sections'', JArr [JArr [JFloat section_start,
                                                        JFloat section_end]]),
                             (''lyrics'', JStr []),
                             (''tags'', JArr []),
                             (''selection_crop'', JBool False)]
         in and_then (called (transition_api_request (transition_API_KEY w) ''POST''
                   [Lit ''generations/inpaint''] (Some payload) (submit_answer w))) (\<lambda>response.
                case truthy response of
                  None \<Rightarrow> ret None
                | Some rsp \<Rightarrow>
                    and_then (resp_json rsp) (\<lambda>body.
                    and_then (lift (py_get body ''task_id'' JNull)) (\<lambda>task_id.
                    and_then (emit (Print [Lit ''Inpainting started with task ID: '',
                                           Val task_id])) (\<lambda>_.
                    and_then (transition_poll_status w task_id) (\<lambda>status.
                    if status = ''FAILURE'' then transition_report_failure w task_id
                    else
                      and_then (called (transition_api_request (transition_API_KEY w) ''GET''
                             [Lit ''generations/'', Val task_id] None (result_answer w))) (\<lambda>result.
                          case truthy result of
                            None \<Rightarrow> ret None
                          | Some res \<Rightarrow>
                              and_then (resp_json res) (\<lambda>result_data.
                              and_then (lift (py_item result_data ''song_paths''))
                                (\<lambda>song_paths.
                              and_then (lift (py_first song_paths)) (\<lambda>song_url.
                              transition_save w task_id song_url))))))))))))"

text \<open>
  The arguments that \<open>argparse\<close> hands over after a successful parse. The two trims are the
  \<open>int\<close> 0 by default and a \<open>float\<close> when given on the command line.
\<close>

record transition_args =
  url1 :: string
  url2 :: string
  song_duration :: int
  silence :: int
  trim_from_end :: number
  trim_to_start :: number
  output_name :: "string option"
  pre_inpaint_output :: "string option"

text \<open>A value that is \<open>None\<close> or a \<open>str\<close>, when it is truthy.\<close>

definition truthy_str :: "string option \<Rightarrow> string option" where
  "truthy_str v = (case v of None \<Rightarrow> None | Some s \<Rightarrow> if s \<noteq> [] then Some s else None)"

definition main :: "world \<Rightarrow> 'seg studio \<Rightarrow> transition_args \<Rightarrow> unit io" where
  "main w st args =
     (if truthy_str (transition_API_KEY w) = None
      then emit (Print [Lit (warning_sign @
             ''  Please set your Sonauto API key in the .env file or environment variables'')])
      else
        and_then (download_youtube_audio st (url1 args) [Lit (temp_dir st), Lit ''/song1''])
          (\<lambda>(song1_path, song1_title).
        and_then (download_youtube_audio st (url2 args) [Lit (temp_dir st), Lit ''/song2''])
          (\<lambda>(song2_path, song2_title).
        and_then (emit (Print [Lit ''Downloaded: '', Val song1_title, Lit '' and '',
                               Val song2_title])) (\<lambda>_.
        let timestamp = now st;
            pre_inpaint = (case truthy_str (pre_inpaint_output args) of
                             Some name \<Rightarrow> [Lit name]
                           | None \<Rightarrow> [Lit ''pre_inpaint_'', Val (JInt timestamp),
                                       Lit ''.mp3'']);
            concat_path = [Lit (temp_dir st), Lit ''/concatenated.mp3'']
        in
        and_then (create_concatenated_audio st song1_path song2_path concat_path pre_inpaint
                    (song_duration args) (silence args) (trim_from_end args)
                    (trim_to_start args)) (\<lambda>(concat_path, silence_start, silence_end).
        and_then (create_transition w st concat_path silence_start silence_end)
          (\<lambda>transition_path.
        and_then
          (case transition_path of
             Some path \<Rightarrow>
               (case (if fstring_truthy path then truthy_str (output_name args) else None) of
                  Some new_name \<Rightarrow>
                    if can_rename st path new_name
                    then and_then (emit (Rename path new_name)) (\<lambda>_.
                         and_then (emit (Print [Lit ''Renamed output file to: '',
                                                Val (JStr new_name)])) (\<lambda>_.
                         ret (Some [Lit new_name])))
                    else and_then (emit (Print [Lit ''Failed to rename output file: '',
                                                ExcStr OSError])) (\<lambda>_.
                         ret transition_path)
                | None \<Rightarrow> ret transition_path)
           | None \<Rightarrow> ret transition_path) (\<lambda>transition_path.
        case transition_path of
          Some path \<Rightarrow>
            if fstring_truthy path then
              and_then (emit (Print [Lit (newline @ note_sign @ '' Transition Summary:'')]))
                (\<lambda>_.
              and_then (emit (Print [Lit (''- From: '' @ [CHR 0x27]), Val song1_title,
                                     Lit [CHR 0x27]])) (\<lambda>_.
              and_then (emit (Print [Lit (''- To: '' @ [CHR 0x27]), Val song2_title,
                                     Lit [CHR 0x27]])) (\<lambda>_.
              and_then (emit (Print [Lit ''- Pre-inpainting version: '',
                                     Abspath pre_inpaint])) (\<lambda>_.
              emit (Print [Lit ''- Final result: '', Abspath path])))))
            else ret ()
        | None \<Rightarrow> ret ())))))))"

text \<open>
  The process: \<open>main()\<close> is the last statement of the module, so the status is 0 when it
  returns and 1 when an exception leaves it.
\<close>

definition transition_main ::
  "world \<Rightarrow> 'seg studio \<Rightarrow> transition_args \<Rightarrow> exit_status \<times> event list"
where
  "transition_main w st args =
     (case main w st args of
        (Returned u, t) \<Rightarrow> (Exit 0, t)
      | (Raised e, t) \<Rightarrow> (Exit 1, t)
      | (Polling, t) \<Rightarrow> (Running, t))"

section \<open>Notions used in the statements\<close>

text \<open>
  What a polling loop reads from one answer to its status query. Through \<open>api_request\<close>
  (rock_song_generator.py, transition_generator.py) an answer is delivered when no
  exception was raised and the code is outside 400 to 599; \<open>api_status\<close> is the status
  string read from a delivered answer. The loop of singing_telegram.py calls
  \<open>requests.get\<close> itself and reads \<open>plain_status\<close> from any response. The loop of
  \<open>create_singing_video\<close> reads \<open>video_status\<close>, the \<open>status\<close> member of a JSON object.
\<close>

definition delivered :: "http_result \<Rightarrow> response option" where
  "delivered a =
     (case a of Raises msg r \<Rightarrow> None
      | Resp r \<Rightarrow> if raises_for_status r then None else Some r)"

definition api_status :: "http_result \<Rightarrow> string option" where
  "api_status a = map_option (\<lambda>r. py_strip (CHR 0x22) (text_of r)) (delivered a)"

definition plain_status :: "http_result \<Rightarrow> string option" where
  "plain_status a =
     (case a of Raises msg r \<Rightarrow> None | Resp r \<Rightarrow> Some (py_strip (CHR 0x22) (text_of r)))"

definition video_status :: "http_result \<Rightarrow> json option" where
  "video_status a =
     (case a of
        Raises msg r \<Rightarrow> None
      | Resp r \<Rightarrow>
          (case json_body r of
             Some (JObj kv) \<Rightarrow> Some (case map_of kv ''status'' of None \<Rightarrow> JNull | Some v \<Rightarrow> v)
           | _ \<Rightarrow> None))"

definition terminal :: "string \<Rightarrow> bool" where
  "terminal s = (s = ''SUCCESS'' \<or> s = ''FAILURE'')"

text \<open>An answer that carries a status which is not terminal.\<close>

definition pending_by :: "(http_result \<Rightarrow> string option) \<Rightarrow> http_result \<Rightarrow> bool" where
  "pending_by st a = (case st a of None \<Rightarrow> False | Some s \<Rightarrow> \<not> terminal s)"

text \<open>
  The sequence of status strings that a loop polls out of a list of answers: up to and
  including the first terminal one, and before the first answer that carries no status.
\<close>

fun polled_by :: "(http_result \<Rightarrow> string option) \<Rightarrow> http_result list \<Rightarrow> string list" where
  "polled_by st [] = []"
| "polled_by st (a # as) =
     (case st a of
        None \<Rightarrow> []
      | Some s \<Rightarrow> if terminal s then [s] else s # polled_by st as)"

text \<open>The status strings of the lines \<open>print(f"<label>{status}")\<close> in a trace, in order.\<close>

fun status_line :: "string \<Rightarrow> event \<Rightarrow> string list" where
  "status_line label (Print [Lit l, Val (JStr s)]) = (if l = label then [s] else [])"
| "status_line label _ = []"

definition status_lines :: "string \<Rightarrow> event list \<Rightarrow> string list" where
  "status_lines label t = concat (map (status_line label) t)"

text \<open>
  The events of a trace that touch a file opened for writing; \<open>files_after\<close> depends on
  these alone.
\<close>

definition file_events :: "event list \<Rightarrow> event list" where
  "file_events t = filter (\<lambda>e. case e of OpenWB f \<Rightarrow> True | WriteB f b \<Rightarrow> True | _ \<Rightarrow> False) t"

text \<open>
  What the statements about \<open>create_concatenated_audio\<close> suppose of pydub, which is not
  part of the repository: the first \<open>k\<close> milliseconds of a segment that is at least
  \<open>k\<close> ms long are \<open>k\<close> ms long, and \<open>AudioSegment.silent(duration=d)\<close> is \<open>d\<close> ms
  long for \<open>d \<ge> 0\<close>.
\<close>

definition slice_keeps_length :: "'seg studio \<Rightarrow> bool" where
  "slice_keeps_length st =
     (\<forall>s k x. slice st s (PyInt 0) (PyInt k) = Inr x \<longrightarrow> 0 \<le> k \<longrightarrow>
              k \<le> int (seg_len st s) \<longrightarrow> int (seg_len st x) = k)"

definition silent_keeps_length :: "'seg studio \<Rightarrow> bool" where
  "silent_keeps_length st =
     (\<forall>d x. silent st d = Inr x \<longrightarrow> 0 \<le> d \<longrightarrow> int (seg_len st x) = d)"

section \<open>Concrete runs\<close>

text \<open>Answers with code 200 that carry a text, a JSON value or bytes.\<close>

definition answer_text :: "string \<Rightarrow> http_result" where
  "answer_text s =
     Resp \<lparr>status_code = 200, text_of = s, content = [], json_body = None, http_error = []\<rparr>"

definition answer_json :: "json \<Rightarrow> http_result" where
  "answer_json j =
     Resp \<lparr>status_code = 200, text_of = [], content = [], json_body = Some j, http_error = []\<rparr>"

definition answer_bytes :: "string \<Rightarrow> http_result" where
  "answer_bytes b =
     Resp \<lparr>status_code = 200, text_of = [], content = b, json_body = None, http_error = []\<rparr>"

definition quoted :: "string \<Rightarrow> string" where
  "quoted s = [CHR 0x22] @ s @ [CHR 0x22]"

text \<open>
  A run in which both keys are set, the job is pending twice and then succeeds, and the
  result names one song.
\<close>

definition demo_world :: world where
  "demo_world =
     \<lparr>getenv = (\<lambda>k. if k = ''SONAUTO_API_KEY'' then Some ''sk-1''
                     else if k = ''LEMON_SLICE_API_KEY'' then Some ''ls-1'' else None),
      submit_answer = answer_json (JObj [(''task_id'', JStr ''t1'')]),
      status_answers = [answer_text (quoted ''PENDING''), answer_text (quoted ''PENDING''),
                        answer_text (quoted ''SUCCESS'')],
      result_answer = answer_json (JObj [(''song_paths'', JArr [JStr ''http://x/a.ogg'']),
                                         (''lyrics'', JStr ''la la''),
                                         (''seed'', JInt 42),
                                         (''tags'', JArr [JStr ''rock''])]),
      cdn = (\<lambda>u. if u = JStr ''http://x/a.ogg'' then answer_bytes ''OggS''
                   else answer_bytes ''mp4''),
      lemon_submit_answer = answer_json (JObj [(''job_id'', JStr ''j1'')]),
      lemon_status_answers =
        [answer_json (JObj [(''status'', JStr ''pending'')]),
         answer_json (JObj [(''status'', JStr ''completed''),
                            (''video_url'', JStr ''http://v/1.mp4'')])],
      can_open = (\<lambda>name. True)\<rparr>"

text \<open>The same run with a job that fails and a result body without \<open>error_message\<close>.\<close>

definition failing_world :: world where
  "failing_world =
     demo_world\<lparr>status_answers := [answer_text (quoted ''PENDING''),
                                   answer_text (quoted ''FAILURE'')],
                result_answer := answer_json (JObj [(''detail'', JStr ''x'')])\<rparr>"

text \<open>The same run with a status query that times out after one pending answer.\<close>

definition flaky_world :: world where
  "flaky_world =
     demo_world\<lparr>status_answers := [answer_text (quoted ''PENDING''),
                                   Raises ''timed out'' None,
                                   answer_text (quoted ''SUCCESS'')]\<rparr>"

text \<open>The same run with a job that stays pending for as long as it is observed.\<close>

definition pending_world :: world where
  "pending_world =
     demo_world\<lparr>status_answers := replicate 5 (answer_text (quoted ''PENDING'')),
                lemon_status_answers :=
                  replicate 3 (answer_json (JObj [(''status'', JStr ''pending'')]))\<rparr>"

text \<open>The same run with no variable set in the environment.\<close>

definition keyless_world :: world where
  "keyless_world = demo_world\<lparr>getenv := (\<lambda>k. None)\<rparr>"

text \<open>
  The same run with the Sonauto key left at the placeholder of the other two scripts; the
  service refuses the submission.
\<close>

definition placeholder_world :: world where
  "placeholder_world =
     demo_world\<lparr>getenv := (\<lambda>k. if k = ''SONAUTO_API_KEY'' then Some sonauto_placeholder
                                 else None),
                submit_answer :=
                  Resp \<lparr>status_code = 401, text_of = [], content = [], json_body = None,
                        http_error = ''401 Client Error: Unauthorized''\<rparr>\<rparr>"

text \<open>
  A studio in which an audio segment is its length in milliseconds: slicing between two
  \<open>int\<close> bounds keeps the part inside the segment, silence of a negative duration is
  empty, and nothing else raises.
\<close>

definition demo_studio :: "nat studio" where
  "demo_studio =
     \<lparr>youtube = (\<lambda>u. Inr (JObj [(''title'', JStr u)])),
      from_file = (\<lambda>p. if p = [Lit ''/tmp/d'', Lit ''/song1'', Lit ''.mp3'']
                         then Inr 60000 else Inr 50000),
      seg_len = (\<lambda>s. s),
      slice = (\<lambda>s a b. case (a, b) of
                          (PyInt i, PyInt j) \<Rightarrow> Inr (nat (min j (int s) - max i 0))
                        | _ \<Rightarrow> Inl TypeError),
      silent = (\<lambda>d. Inr (nat d)),
      plus = (\<lambda>a b. Inr (a + b)),
      set_channels = (\<lambda>s n. Inr s),
      can_export = (\<lambda>p. True),
      getsize = (\<lambda>p. Inr 1000000),
      read_base64 = (\<lambda>p. Inr ''QUJD''),
      temp_dir = ''/tmp/d'',
      now = 1700000000,
      can_rename = (\<lambda>p n. True)\<rparr>"

definition demo_args :: transition_args where
  "demo_args =
     \<lparr>url1 = ''u1'', url2 = ''u2'', song_duration = 45, silence = 5,
      trim_from_end = PyInt 0, trim_to_start = PyInt 0, output_name = None,
      pre_inpaint_output = None\<rparr>"

definition demo_telegram_args :: telegram_args where
  "demo_telegram_args =
     \<lparr>recipient = ''Sarah'', occasion = ''birthday'', message = ''she is turning 30'',
      style = ''pop''\<rparr>"

section \<open>Traces\<close>

lemma requests_of_append [simp]: "requests_of (xs @ ys) = requests_of xs @ requests_of ys"
  by (simp add: requests_of_def)

lemma sleeps_of_append [simp]: "sleeps_of (xs @ ys) = sleeps_of xs @ sleeps_of ys"
  by (simp add: sleeps_of_def)

lemma prints_of_append [simp]: "prints_of (xs @ ys) = prints_of xs @ prints_of ys"
  by (simp add: prints_of_def)

lemma status_lines_append [simp]:
  "status_lines l (xs @ ys) = status_lines l xs @ status_lines l ys"
  by (simp add: status_lines_def)

lemma status_lines_Nil [simp]: "status_lines l [] = []"
  by (simp add: status_lines_def)

lemma status_lines_Cons [simp]: "status_lines l (e # es) = status_line l e @ status_lines l es"
  by (simp add: status_lines_def)

lemma status_line_other_label:
  "l \<noteq> label \<Longrightarrow> status_line label (Print [Lit l, Val v]) = []"
  by (cases v) simp_all

lemma remdups_adj_head: "remdups_adj (x # xs) = x # tl (remdups_adj (x # xs))"
  by (cases xs) auto

lemma split_at_first:
  "\<not> list_all P rs \<Longrightarrow> \<exists>pre a rest. rs = pre @ a # rest \<and> list_all P pre \<and> \<not> P a"
proof (induction rs)
  case Nil
  then show ?case by simp
next
  case (Cons b rs)
  show ?case
  proof (cases "P b")
    case False
    then have "b # rs = [] @ b # rs \<and> list_all P [] \<and> \<not> P b" by simp
    then show ?thesis by blast
  next
    case True
    with Cons.prems have "\<not> list_all P rs" by simp
    from Cons.IH[OF this] obtain pre a rest where
      "rs = pre @ a # rest" "list_all P pre" "\<not> P a" by blast
    with True have "b # rs = (b # pre) @ a # rest \<and> list_all P (b # pre) \<and> \<not> P a"
      by simp
    then show ?thesis by blast
  qed
qed

section \<open>The two versions of api_request\<close>

lemma rock_truthy: "truthy (fst (rock_api_request key m e p a)) = delivered a"
  by (simp add: rock_api_request_def truthy_def delivered_def ok_def Let_def
      split: http_result.splits)

lemma trans_truthy: "truthy (fst (transition_api_request key m e p a)) = delivered a"
  by (simp add: transition_api_request_def truthy_def delivered_def ok_def Let_def
      split: http_result.splits)

lemma rock_one_request: "length (requests_of (snd (rock_api_request key m e p a))) = 1"
  by (simp add: rock_api_request_def requests_of_def Let_def split: http_result.splits)

lemma trans_one_request: "length (requests_of (snd (transition_api_request key m e p a))) = 1"
  by (simp add: transition_api_request_def requests_of_def Let_def describe_response_def
      split: http_result.splits option.splits)

lemma rock_no_sleep: "sleeps_of (snd (rock_api_request key m e p a)) = []"
  by (simp add: rock_api_request_def sleeps_of_def Let_def split: http_result.splits)

lemma trans_no_sleep: "sleeps_of (snd (transition_api_request key m e p a)) = []"
  by (simp add: transition_api_request_def sleeps_of_def Let_def describe_response_def
      split: http_result.splits option.splits)

lemma rock_no_status_line: "status_lines ''Status: '' (snd (rock_api_request key m e p a)) = []"
  by (simp add: rock_api_request_def Let_def newline_def cross_mark_def
      split: http_result.splits)

lemma describe_no_status_line: "status_lines ''Status: '' (describe_response r) = []"
  by (simp add: describe_response_def status_line_other_label)

lemma trans_no_status_line:
  "status_lines ''Status: '' (snd (transition_api_request key m e p a)) = []"
  by (simp add: transition_api_request_def Let_def newline_def cross_mark_def
      describe_no_status_line split: http_result.splits option.splits)

section \<open>poll_status\<close>

lemma poll_status_terminal:
  "poll_status api tid prev rs = (Returned s, t) \<Longrightarrow> s = ''SUCCESS'' \<or> s = ''FAILURE''"
proof (induction rs arbitrary: prev t)
  case Nil
  then show ?case by simp
next
  case (Cons a rs)
  then show ?case
    by (auto simp: Let_def split: prod.splits option.splits if_splits)
qed

lemma poll_status_no_raise: "poll_status api tid prev rs \<noteq> (Raised e, t)"
proof (induction rs arbitrary: prev t)
  case Nil
  then show ?case by simp
next
  case (Cons a rs)
  then show ?case
    by (auto simp: Let_def split: prod.splits option.splits if_splits)
qed

lemma poll_status_pending:
  assumes api: "\<And>m e p a. truthy (fst (api m e p a)) = delivered a"
    and one: "\<And>m e p a. length (requests_of (snd (api m e p a))) = 1"
    and nos: "\<And>m e p a. sleeps_of (snd (api m e p a)) = []"
  shows "list_all (pending_by api_status) rs \<Longrightarrow>
         \<exists>t. poll_status api tid prev rs = (Polling, t) \<and>
             length (requests_of t) = length rs \<and> length (sleeps_of t) = length rs"
proof (induction rs arbitrary: prev)
  case Nil
  then show ?case by (simp add: requests_of_def sleeps_of_def)
next
  case (Cons a rs)
  obtain response t1 where
    ap: "api ''GET'' [Lit ''generations/status/'', Val tid] None a = (response, t1)"
    by (cases "api ''GET'' [Lit ''generations/status/'', Val tid] None a")
  from Cons.prems have pa: "pending_by api_status a"
    and prs: "list_all (pending_by api_status) rs" by simp_all
  from pa obtain r where d: "delivered a = Some r"
    and nt: "\<not> terminal (py_strip (CHR 0x22) (text_of r))"
    by (auto simp: pending_by_def api_status_def split: option.splits)
  have tr: "truthy response = Some r"
    using api[of "''GET''" "[Lit ''generations/status/'', Val tid]" None a] ap d by simp
  have r1: "length (requests_of t1) = 1"
    using one[of "''GET''" "[Lit ''generations/status/'', Val tid]" None a] ap by simp
  have s1: "sleeps_of t1 = []"
    using nos[of "''GET''" "[Lit ''generations/status/'', Val tid]" None a] ap by simp
  define prev' where "prev' = (if Some (py_strip (CHR 0x22) (text_of r)) \<noteq> prev
                               then Some (py_strip (CHR 0x22) (text_of r)) else prev)"
  from Cons.IH[OF prs, of prev'] obtain t3 where
    ih: "poll_status api tid prev' rs = (Polling, t3)"
      "length (requests_of t3) = length rs" "length (sleeps_of t3) = length rs" by blast
  show ?case
    using ap tr nt ih r1 s1
    by (simp add: Let_def terminal_def prev'_def requests_of_def sleeps_of_def)
qed

lemma poll_status_exit:
  assumes api: "\<And>m e p a. truthy (fst (api m e p a)) = delivered a"
    and one: "\<And>m e p a. length (requests_of (snd (api m e p a))) = 1"
    and nos: "\<And>m e p a. sleeps_of (snd (api m e p a)) = []"
  shows "list_all (pending_by api_status) pre \<Longrightarrow> \<not> pending_by api_status a \<Longrightarrow>
         \<exists>t. poll_status api tid prev (pre @ a # rest) =
               (Returned (case api_status a of None \<Rightarrow> ''FAILURE'' | Some s \<Rightarrow> s), t) \<and>
             length (requests_of t) = Suc (length pre) \<and> length (sleeps_of t) = length pre"
proof (induction pre arbitrary: prev)
  case Nil
  obtain response t1 where
    ap: "api ''GET'' [Lit ''generations/status/'', Val tid] None a = (response, t1)"
    by (cases "api ''GET'' [Lit ''generations/status/'', Val tid] None a")
  have tr: "truthy response = delivered a"
    using api[of "''GET''" "[Lit ''generations/status/'', Val tid]" None a] ap by simp
  have r1: "length (requests_of t1) = 1"
    using one[of "''GET''" "[Lit ''generations/status/'', Val tid]" None a] ap by simp
  have s1: "sleeps_of t1 = []"
    using nos[of "''GET''" "[Lit ''generations/status/'', Val tid]" None a] ap by simp
  show ?case
  proof (cases "delivered a")
    case None
    then show ?thesis using ap tr r1 s1 by (simp add: api_status_def)
  next
    case (Some r)
    with Nil.prems have "terminal (py_strip (CHR 0x22) (text_of r))"
      by (simp add: pending_by_def api_status_def)
    then show ?thesis using ap tr r1 s1 Some
      by (simp add: api_status_def Let_def terminal_def requests_of_def sleeps_of_def)
  qed
next
  case (Cons b pre)
  obtain response t1 where
    ap: "api ''GET'' [Lit ''generations/status/'', Val tid] None b = (response, t1)"
    by (cases "api ''GET'' [Lit ''generations/status/'', Val tid] None b")
  from Cons.prems have pb: "pending_by api_status b"
    and pp: "list_all (pending_by api_status) pre" by simp_all
  from pb obtain r where d: "delivered b = Some r"
    and nt: "\<not> terminal (py_strip (CHR 0x22) (text_of r))"
    by (auto simp: pending_by_def api_status_def split: option.splits)
  have tr: "truthy response = Some r"
    using api[of "''GET''" "[Lit ''generations/status/'', Val tid]" None b] ap d by simp
  have r1: "length (requests_of t1) = 1"
    using one[of "''GET''" "[Lit ''generations/status/'', Val tid]" None b] ap by simp
  have s1: "sleeps_of t1 = []"
    using nos[of "''GET''" "[Lit ''generations/status/'', Val tid]" None b] ap by simp
  define prev' where "prev' = (if Some (py_strip (CHR 0x22) (text_of r)) \<noteq> prev
                               then Some (py_strip (CHR 0x22) (text_of r)) else prev)"
  from Cons.IH[OF pp Cons.prems(2), of prev'] obtain t3 where
    ih: "poll_status api tid prev' (pre @ a # rest) =
           (Returned (case api_status a of None \<Rightarrow> ''FAILURE'' | Some s \<Rightarrow> s), t3)"
      "length (requests_of t3) = Suc (length pre)" "length (sleeps_of t3) = length pre" by blast
  show ?case
    using ap tr nt ih r1 s1
    by (simp add: Let_def terminal_def prev'_def requests_of_def sleeps_of_def)
qed

lemma poll_status_lines:
  assumes api: "\<And>m e p a. truthy (fst (api m e p a)) = delivered a"
    and nol: "\<And>m e p a. status_lines ''Status: '' (snd (api m e p a)) = []"
  shows "status_lines ''Status: '' (snd (poll_status api tid prev rs)) =
           (case prev of None \<Rightarrow> remdups_adj (polled_by api_status rs)
            | Some p \<Rightarrow> tl (remdups_adj (p # polled_by api_status rs)))"
proof (induction rs arbitrary: prev)
  case Nil
  then show ?case by (simp split: option.splits)
next
  case (Cons a rs)
  obtain response t1 where
    ap: "api ''GET'' [Lit ''generations/status/'', Val tid] None a = (response, t1)"
    by (cases "api ''GET'' [Lit ''generations/status/'', Val tid] None a")
  have tr: "truthy response = delivered a"
    using api[of "''GET''" "[Lit ''generations/status/'', Val tid]" None a] ap by simp
  have l1: "status_lines ''Status: '' t1 = []"
    using nol[of "''GET''" "[Lit ''generations/status/'', Val tid]" None a] ap by simp
  show ?case
  proof (cases "delivered a")
    case None
    then show ?thesis using ap tr l1 by (simp add: api_status_def split: option.splits)
  next
    case (Some r)
    define s where "s = py_strip (CHR 0x22) (text_of r)"
    define prev' where "prev' = (if Some s \<noteq> prev then Some s else prev)"
    have p': "prev' = Some s" by (simp add: prev'_def)
    have st: "api_status a = Some s" using Some by (simp add: api_status_def s_def)
    show ?thesis
    proof (cases "terminal s")
      case True
      then show ?thesis using ap tr l1 Some st
        by (auto simp: Let_def terminal_def s_def[symmetric] split: option.splits)
    next
      case False
      obtain res t3 where rec: "poll_status api tid prev' rs = (res, t3)"
        by (cases "poll_status api tid prev' rs")
      have ih: "status_lines ''Status: '' t3 = tl (remdups_adj (s # polled_by api_status rs))"
        using Cons.IH[of prev'] rec p' by simp
      have unfold: "snd (poll_status api tid prev (a # rs)) =
              t1 @ (if Some s \<noteq> prev then [Print [Lit ''Status: '', Val (JStr s)]] else [])
                 @ [Sleep 5] @ t3"
        using ap tr Some False rec
        by (simp add: Let_def terminal_def s_def[symmetric] prev'_def)
      have hd: "remdups_adj (s # polled_by api_status rs) =
                  s # tl (remdups_adj (s # polled_by api_status rs))"
        by (rule remdups_adj_head)
      show ?thesis
      proof (cases prev)
        case None
        then show ?thesis unfolding unfold using l1 ih st False hd by simp
      next
        case (Some p)
        then show ?thesis unfolding unfold using l1 ih st False hd by auto
      qed
    qed
  qed
qed

section \<open>Sequencing of effects\<close>

lemma and_then_eq:
  "and_then m f =
     (case fst m of
        Returned a \<Rightarrow> (fst (f a), snd m @ snd (f a))
      | Raised e \<Rightarrow> (Raised e, snd m)
      | Polling \<Rightarrow> (Polling, snd m))"
  by (cases m; cases "fst m") (auto simp: and_then_def split: prod.splits)

lemma fst_and_then:
  "fst (and_then m f) =
     (case fst m of Returned a \<Rightarrow> fst (f a) | Raised e \<Rightarrow> Raised e | Polling \<Rightarrow> Polling)"
  by (simp add: and_then_eq split: result.splits)

lemma snd_and_then:
  "snd (and_then m f) = snd m @ (case fst m of Returned a \<Rightarrow> snd (f a) | _ \<Rightarrow> [])"
  by (simp add: and_then_eq split: result.splits)

lemma fst_try_except:
  "fst (try_except m sel h) =
     (case fst m of Raised e \<Rightarrow> if sel e then fst (h e) else Raised e | r \<Rightarrow> r)"
  by (cases m; cases "fst m") (auto simp: try_except_def split: prod.splits)

lemma snd_try_except:
  "snd (try_except m sel h) =
     snd m @ (case fst m of Raised e \<Rightarrow> if sel e then snd (h e) else [] | _ \<Rightarrow> [])"
  by (cases m; cases "fst m") (auto simp: try_except_def split: prod.splits)

lemma io_simps [simp]:
  "fst (called c) = Returned (fst c)" "snd (called c) = snd c"
  "fst (ret a) = Returned a" "snd (ret a) = []"
  "fst (emit ev) = Returned ()" "snd (emit ev) = [ev]"
  "fst (lift (Inr a)) = Returned a" "fst (lift (Inl e)) = Raised e" "snd (lift x) = []"
  by (simp_all add: called_def ret_def emit_def lift_def split: sum.splits)

lemma http_simps [simp]:
  "fst (http m u p h (Resp r)) = Returned r"
  "fst (http m u p h (Raises msg ro)) = Raised (RequestException msg)"
  "snd (http m u p h a) = [Request m u p h]"
  by (simp_all add: http_def split: http_result.splits)

lemma resp_json_simps [simp]:
  "snd (resp_json r) = []"
  "json_body r = Some j \<Longrightarrow> fst (resp_json r) = Returned j"
  "json_body r = None \<Longrightarrow> fst (resp_json r) = Raised JSONDecodeError"
  by (simp_all add: resp_json_def ret_def split: option.splits)

lemma requests_of_simps [simp]:
  "requests_of [] = []"
  "requests_of (Request m u p h # t) = Request m u p h # requests_of t"
  "requests_of (Print l # t) = requests_of t"
  "requests_of (Sleep n # t) = requests_of t"
  "requests_of (OpenWB f # t) = requests_of t"
  "requests_of (WriteB f b # t) = requests_of t"
  by (simp_all add: requests_of_def)

lemma sleeps_of_simps [simp]:
  "sleeps_of [] = []"
  "sleeps_of (Sleep n # t) = Sleep n # sleeps_of t"
  "sleeps_of (Request m u p h # t) = sleeps_of t"
  "sleeps_of (Print l # t) = sleeps_of t"
  "sleeps_of (OpenWB f # t) = sleeps_of t"
  "sleeps_of (WriteB f b # t) = sleeps_of t"
  by (simp_all add: sleeps_of_def)

section \<open>The loop of generate_custom_song\<close>

lemma song_poll_pending:
  "list_all (pending_by plain_status) rs \<Longrightarrow>
   fst (song_poll h ea tid prev rs) = Polling \<and>
   length (requests_of (snd (song_poll h ea tid prev rs))) = length rs \<and>
   length (sleeps_of (snd (song_poll h ea tid prev rs))) = length rs"
proof (induction rs arbitrary: prev)
  case Nil
  then show ?case by simp
next
  case (Cons a rs)
  from Cons.prems have pa: "pending_by plain_status a"
    and rest: "list_all (pending_by plain_status) rs" by simp_all
  from pa obtain r where a: "a = Resp r"
    and nt: "\<not> terminal (py_strip (CHR 0x22) (text_of r))"
    by (cases a) (auto simp: pending_by_def plain_status_def)
  from nt have ns: "py_strip (CHR 0x22) (text_of r) \<noteq> ''SUCCESS''"
    and nf: "py_strip (CHR 0x22) (text_of r) \<noteq> ''FAILURE''"
    by (simp_all add: terminal_def)
  show ?case
    using Cons.IH[OF rest] ns nf
    by (simp add: a fst_and_then snd_and_then Let_def)
qed

lemma song_poll_exit:
  "list_all (pending_by plain_status) pre \<Longrightarrow> plain_status a = Some s \<Longrightarrow> terminal s \<Longrightarrow>
   fst (song_poll h ea tid prev (pre @ a # rest)) \<noteq> Polling \<and>
   (s = ''SUCCESS'' \<longrightarrow> fst (song_poll h ea tid prev (pre @ a # rest)) = Returned Break) \<and>
   length (requests_of (snd (song_poll h ea tid prev (pre @ a # rest)))) =
     length pre + (if s = ''SUCCESS'' then 1 else 2) \<and>
   length (sleeps_of (snd (song_poll h ea tid prev (pre @ a # rest)))) = length pre"
proof (induction pre arbitrary: prev)
  case Nil
  from Nil.prems(2) obtain r where a: "a = Resp r" and s: "s = py_strip (CHR 0x22) (text_of r)"
    by (cases a) (auto simp: plain_status_def)
  from Nil.prems(3) have "s = ''SUCCESS'' \<or> s = ''FAILURE''" by (simp add: terminal_def)
  then show ?case
  proof
    assume "s = ''SUCCESS''"
    then show ?thesis using s by (simp add: a fst_and_then snd_and_then Let_def)
  next
    assume f: "s = ''FAILURE''"
    show ?thesis
      using s f
      by (cases ea; cases "json_body (case ea of Resp x \<Rightarrow> x)")
         (auto simp: a fst_and_then snd_and_then Let_def resp_json_def ret_def lift_def
               split: option.splits sum.splits result.splits)
  qed
next
  case (Cons b pre)
  from Cons.prems have pb: "pending_by plain_status b"
    and rest: "list_all (pending_by plain_status) pre" by simp_all
  from pb obtain r where b: "b = Resp r"
    and nt: "\<not> terminal (py_strip (CHR 0x22) (text_of r))"
    by (cases b) (auto simp: pending_by_def plain_status_def)
  from nt have ns: "py_strip (CHR 0x22) (text_of r) \<noteq> ''SUCCESS''"
    and nf: "py_strip (CHR 0x22) (text_of r) \<noteq> ''FAILURE''"
    by (simp_all add: terminal_def)
  show ?case
    using Cons.IH[OF rest Cons.prems(2) Cons.prems(3)] ns nf
    by (simp add: b fst_and_then snd_and_then Let_def)
qed

lemma song_failure_branch_no_status_line:
  "status_lines ''Song status: ''
     (snd (and_then (http m u p h ea) (\<lambda>error_resp.
           and_then (resp_json error_resp) (\<lambda>error_data.
           and_then (lift (py_get error_data ''error_message'' d)) (\<lambda>error_message.
           and_then (emit (Print [Lit (cross_mark @ '' Song generation failed: ''),
                                  Val error_message])) (\<lambda>_.
           ret Return_None)))))) = []"
proof -
  have other: "cross_mark @ '' Song generation failed: '' \<noteq> ''Song status: ''"
    by (simp add: cross_mark_def)
  show ?thesis
    by (cases ea)
       (auto simp: snd_and_then fst_and_then resp_json_def ret_def lift_def
             status_line_other_label[OF other]
             split: result.splits option.splits sum.splits)
qed

lemma song_poll_lines:
  "status_lines ''Song status: '' (snd (song_poll h ea tid prev rs)) =
     (case prev of None \<Rightarrow> remdups_adj (polled_by plain_status rs)
      | Some p \<Rightarrow> tl (remdups_adj (p # polled_by plain_status rs)))"
proof (induction rs arbitrary: prev)
  case Nil
  then show ?case by (simp split: option.splits)
next
  case (Cons a rs)
  show ?case
  proof (cases a)
    case (Raises msg ro)
    then show ?thesis
      by (simp add: snd_and_then fst_and_then plain_status_def split: option.splits)
  next
    case (Resp r)
    define s where "s = py_strip (CHR 0x22) (text_of r)"
    have st: "plain_status a = Some s" using Resp by (simp add: plain_status_def s_def)
    consider (succ) "s = ''SUCCESS''" | (fail) "s = ''FAILURE''" | (other) "\<not> terminal s"
      by (auto simp: terminal_def)
    then show ?thesis
    proof cases
      case succ
      then show ?thesis using st Resp
        by (auto simp: snd_and_then fst_and_then Let_def s_def[symmetric] terminal_def
            split: option.splits)
    next
      case fail
      then show ?thesis using st Resp song_failure_branch_no_status_line
        by (auto simp: snd_and_then fst_and_then Let_def s_def[symmetric] terminal_def
            split: option.splits)
    next
      case other
      then have ns: "s \<noteq> ''SUCCESS''" and nf: "s \<noteq> ''FAILURE''"
        by (simp_all add: terminal_def)
      have hd: "remdups_adj (s # polled_by plain_status rs) =
                  s # tl (remdups_adj (s # polled_by plain_status rs))"
        by (rule remdups_adj_head)
      have ih: "status_lines ''Song status: '' (snd (song_poll h ea tid (Some s) rs)) =
                  tl (remdups_adj (s # polled_by plain_status rs))"
        using Cons.IH[of "Some s"] by simp
      show ?thesis
      proof (cases prev)
        case None
        then show ?thesis using st Resp other ns nf ih hd
          by (simp add: snd_and_then fst_and_then Let_def s_def[symmetric])
      next
        case (Some p)
        then show ?thesis using st Resp other ns nf ih hd
          by (auto simp: snd_and_then fst_and_then Let_def s_def[symmetric])
      qed
    qed
  qed
qed

section \<open>The loop of create_singing_video\<close>

lemma video_status_cases:
  assumes "video_status a = Some v"
  obtains r kv where "a = Resp r" "json_body r = Some (JObj kv)"
    "py_get (JObj kv) ''status'' JNull = Inr v"
  using assms
  by (cases a) (auto simp: video_status_def split: option.splits json.splits)

lemma video_poll_pending:
  "list_all (\<lambda>a. video_status a = Some (JStr ''pending'')) rs \<Longrightarrow>
   fst (video_poll key job rs) = Polling \<and>
   length (requests_of (snd (video_poll key job rs))) = length rs \<and>
   length (sleeps_of (snd (video_poll key job rs))) = length rs"
proof (induction rs)
  case Nil
  then show ?case by simp
next
  case (Cons a rs)
  from Cons.prems have va: "video_status a = Some (JStr ''pending'')"
    and rest: "list_all (\<lambda>a. video_status a = Some (JStr ''pending'')) rs" by simp_all
  from va obtain r kv where a: "a = Resp r" and j: "json_body r = Some (JObj kv)"
    and g: "py_get (JObj kv) ''status'' JNull = Inr (JStr ''pending'')"
    by (rule video_status_cases)
  show ?case
    using Cons.IH[OF rest] j g
    by (simp add: a fst_and_then snd_and_then)
qed

lemma video_poll_exit:
  "list_all (\<lambda>a. video_status a = Some (JStr ''pending'')) pre \<Longrightarrow>
   video_status a = Some v \<Longrightarrow> v \<noteq> JStr ''pending'' \<Longrightarrow>
   (\<exists>data. fst (video_poll key job (pre @ a # rest)) = Returned (data, v)) \<and>
   length (requests_of (snd (video_poll key job (pre @ a # rest)))) = Suc (length pre) \<and>
   length (sleeps_of (snd (video_poll key job (pre @ a # rest)))) = length pre"
proof (induction pre)
  case Nil
  from Nil.prems(2) obtain r kv where a: "a = Resp r" and j: "json_body r = Some (JObj kv)"
    and g: "py_get (JObj kv) ''status'' JNull = Inr v"
    by (rule video_status_cases)
  show ?case using j g Nil.prems(3) by (simp add: a fst_and_then snd_and_then)
next
  case (Cons b pre)
  from Cons.prems have vb: "video_status b = Some (JStr ''pending'')"
    and rest: "list_all (\<lambda>a. video_status a = Some (JStr ''pending'')) pre" by simp_all
  from vb obtain r kv where b: "b = Resp r" and j: "json_body r = Some (JObj kv)"
    and g: "py_get (JObj kv) ''status'' JNull = Inr (JStr ''pending'')"
    by (rule video_status_cases)
  show ?case
    using Cons.IH[OF rest Cons.prems(2) Cons.prems(3)] j g
    by (simp add: b fst_and_then snd_and_then)
qed

section \<open>What poll_status returns\<close>

text \<open>
  Claim C9. For every sequence of answers to the status query, transport failures
  included, a value that \<open>poll_status\<close> returns is one of the two strings \<open>"SUCCESS"\<close>
  and \<open>"FAILURE"\<close>, and no exception leaves the function. This holds for the copy in
  rock_song_generator.py and for the copy in transition_generator.py.
\<close>

theorem poll_status_returns_terminal:
  "(rock_poll_status w tid = (Returned s, t) \<longrightarrow> s = ''SUCCESS'' \<or> s = ''FAILURE'') \<and>
   (transition_poll_status w tid = (Returned s, t) \<longrightarrow> s = ''SUCCESS'' \<or> s = ''FAILURE'') \<and>
   rock_poll_status w tid \<noteq> (Raised e, t) \<and>
   transition_poll_status w tid \<noteq> (Raised e, t)"
  unfolding rock_poll_status_def transition_poll_status_def
  using poll_status_terminal poll_status_no_raise by blast


text \<open>The run of \<open>demo_world\<close> returns \<open>"SUCCESS"\<close> after two pending answers.\<close>

theorem poll_status_returns_terminal_witness:
  "rock_poll_status demo_world (JStr ''t1'') =
     (Returned ''SUCCESS'', snd (rock_poll_status demo_world (JStr ''t1''))) \<and>
   (''SUCCESS'' = ''SUCCESS'' \<or> ''SUCCESS'' = ''FAILURE'')"
proof -
  have r: "rock_poll_status demo_world (JStr ''t1'') =
             (Returned ''SUCCESS'', snd (rock_poll_status demo_world (JStr ''t1'')))"
    by (rule prod_eqI) (code_simp, simp)
  from poll_status_returns_terminal[of demo_world "JStr ''t1''" "''SUCCESS''"
         "snd (rock_poll_status demo_world (JStr ''t1''))"] r
  show ?thesis by blast
qed

lemma api_status_None_iff: "(api_status a = None) = (delivered a = None)"
  by (simp add: api_status_def)

lemma rock_none_iff: "(fst (rock_api_request key m e p a) = None) = (delivered a = None)"
  by (simp add: rock_api_request_def delivered_def Let_def split: http_result.splits)

lemma trans_none_iff: "(fst (transition_api_request key m e p a) = None) = (delivered a = None)"
  by (simp add: transition_api_request_def delivered_def Let_def split: http_result.splits)

lemma not_pending_undelivered: "delivered a = None \<Longrightarrow> \<not> pending_by api_status a"
  by (simp add: pending_by_def api_status_def)


text \<open>
  Claim C6. When the status query of some iteration fails at the transport level, that
  is, \<open>api_request\<close> returns \<open>None\<close> for it, \<open>poll_status\<close> returns \<open>"FAILURE"\<close> in that
  iteration: after \<open>n\<close> pending answers the trace holds \<open>n + 1\<close> requests and \<open>n\<close>
  sleeps, so the query is not made again, whatever the later answers would have been.
\<close>

theorem transport_failure_ends_polling:
  assumes "status_answers w = pre @ a # rest"
    and "list_all (pending_by api_status) pre"
  shows "(fst (rock_api_request (rock_API_KEY w) ''GET''
                 [Lit ''generations/status/'', Val tid] None a) = None \<longrightarrow>
            fst (rock_poll_status w tid) = Returned ''FAILURE'' \<and>
            length (requests_of (snd (rock_poll_status w tid))) = Suc (length pre) \<and>
            length (sleeps_of (snd (rock_poll_status w tid))) = length pre) \<and>
         (fst (transition_api_request (transition_API_KEY w) ''GET''
                 [Lit ''generations/status/'', Val tid] None a) = None \<longrightarrow>
            fst (transition_poll_status w tid) = Returned ''FAILURE'' \<and>
            length (requests_of (snd (transition_poll_status w tid))) = Suc (length pre) \<and>
            length (sleeps_of (snd (transition_poll_status w tid))) = length pre)"
proof (intro conjI impI)
  assume "fst (rock_api_request (rock_API_KEY w) ''GET''
                 [Lit ''generations/status/'', Val tid] None a) = None"
  then have d: "delivered a = None" by (simp add: rock_none_iff)
  then have np: "\<not> pending_by api_status a" by (rule not_pending_undelivered)
  from poll_status_exit[of "rock_api_request (rock_API_KEY w)", OF rock_truthy rock_one_request
      rock_no_sleep assms(2) np, of tid None rest]
  obtain t where "poll_status (rock_api_request (rock_API_KEY w)) tid None (pre @ a # rest) =
      (Returned ''FAILURE'', t)" "length (requests_of t) = Suc (length pre)"
      "length (sleeps_of t) = length pre"
    using d by (auto simp: api_status_def)
  then show "fst (rock_poll_status w tid) = Returned ''FAILURE''"
    "length (requests_of (snd (rock_poll_status w tid))) = Suc (length pre)"
    "length (sleeps_of (snd (rock_poll_status w tid))) = length pre"
    by (simp_all add: rock_poll_status_def assms(1))
next
  assume "fst (transition_api_request (transition_API_KEY w) ''GET''
                 [Lit ''generations/status/'', Val tid] None a) = None"
  then have d: "delivered a = None" by (simp add: trans_none_iff)
  then have np: "\<not> pending_by api_status a" by (rule not_pending_undelivered)
  from poll_status_exit[of "transition_api_request (transition_API_KEY w)", OF trans_truthy
      trans_one_request trans_no_sleep assms(2) np, of tid None rest]
  obtain t where "poll_status (transition_api_request (transition_API_KEY w)) tid None
      (pre @ a # rest) = (Returned ''FAILURE'', t)" "length (requests_of t) = Suc (length pre)"
      "length (sleeps_of t) = length pre"
    using d by (auto simp: api_status_def)
  then show "fst (transition_poll_status w tid) = Returned ''FAILURE''"
    "length (requests_of (snd (transition_poll_status w tid))) = Suc (length pre)"
    "length (sleeps_of (snd (transition_poll_status w tid))) = length pre"
    by (simp_all add: transition_poll_status_def assms(1))
qed


text \<open>In \<open>flaky_world\<close> the second query times out; the third answer is never asked for.\<close>

theorem transport_failure_ends_polling_witness:
  "fst (rock_poll_status flaky_world (JStr ''t1'')) = Returned ''FAILURE'' \<and>
   length (requests_of (snd (rock_poll_status flaky_world (JStr ''t1'')))) = 2 \<and>
   length (sleeps_of (snd (rock_poll_status flaky_world (JStr ''t1'')))) = 1 \<and>
   fst (transition_poll_status flaky_world (JStr ''t1'')) = Returned ''FAILURE'' \<and>
   length (requests_of (snd (transition_poll_status flaky_world (JStr ''t1'')))) = 2"
proof -
  have ans: "status_answers flaky_world =
      [answer_text (quoted ''PENDING'')] @ Raises ''timed out'' None
        # [answer_text (quoted ''SUCCESS'')]"
    by (simp add: flaky_world_def demo_world_def)
  have pre: "list_all (pending_by api_status) [answer_text (quoted ''PENDING'')]"
    by (simp add: pending_by_def api_status_def delivered_def answer_text_def quoted_def
        raises_for_status_def py_strip_def terminal_def)
  have r: "fst (rock_api_request (rock_API_KEY flaky_world) ''GET''
             [Lit ''generations/status/'', Val (JStr ''t1'')] None (Raises ''timed out'' None))
           = None"
    by (simp add: rock_api_request_def Let_def)
  have t: "fst (transition_api_request (transition_API_KEY flaky_world) ''GET''
             [Lit ''generations/status/'', Val (JStr ''t1'')] None (Raises ''timed out'' None))
           = None"
    by (simp add: transition_api_request_def Let_def)
  from transport_failure_ends_polling[OF ans pre, of "JStr ''t1''"] r t
  show ?thesis by simp
qed

section \<open>What the polling loops print\<close>

lemma prints_of_simps:
  "prints_of [] = []"
  "prints_of (Print l # t) = l # prints_of t"
  "prints_of (Request m u p h # t) = prints_of t"
  "prints_of (Sleep n # t) = prints_of t"
  by (simp_all add: prints_of_def)

lemma map_remdups_adj_head:
  "map f (remdups_adj (x # xs)) = f x # map f (tl (remdups_adj (x # xs)))"
proof -
  have "map f (remdups_adj (x # xs)) = map f (x # tl (remdups_adj (x # xs)))"
    using remdups_adj_head[of x xs] by (rule arg_cong)
  then show ?thesis by (simp only: list.map)
qed

lemma rock_quiet:
  "delivered a \<noteq> None \<Longrightarrow> prints_of (snd (rock_api_request key m e p a)) = []"
  by (cases a) (auto simp: rock_api_request_def delivered_def Let_def prints_of_simps
      split: if_splits)

lemma trans_quiet:
  "delivered a \<noteq> None \<Longrightarrow> prints_of (snd (transition_api_request key m e p a)) = []"
  by (cases a) (auto simp: transition_api_request_def delivered_def Let_def prints_of_simps
      split: if_splits)

lemma poll_status_prints:
  assumes api: "\<And>m e p a. truthy (fst (api m e p a)) = delivered a"
    and quiet: "\<And>m e p a. delivered a \<noteq> None \<Longrightarrow> prints_of (snd (api m e p a)) = []"
    and del: "list_all (\<lambda>a. api_status a \<noteq> None) rs"
  shows "prints_of (snd (poll_status api tid prev rs)) =
           map (\<lambda>s. [Lit ''Status: '', Val (JStr s)])
             (case prev of None \<Rightarrow> remdups_adj (polled_by api_status rs)
              | Some p \<Rightarrow> tl (remdups_adj (p # polled_by api_status rs)))"
  using del
proof (induction rs arbitrary: prev)
  case Nil
  then show ?case by (simp add: prints_of_simps split: option.splits)
next
  case (Cons a rs)
  obtain response t1 where
    ap: "api ''GET'' [Lit ''generations/status/'', Val tid] None a = (response, t1)"
    by (cases "api ''GET'' [Lit ''generations/status/'', Val tid] None a")
  have tr: "truthy response = delivered a"
    using api[of "''GET''" "[Lit ''generations/status/'', Val tid]" None a] ap by simp
  from Cons.prems obtain r where Some: "delivered a = Some r"
    by (auto simp: api_status_def)
  from Cons.prems have rest: "list_all (\<lambda>a. api_status a \<noteq> None) rs" by simp
  have l1: "prints_of t1 = []"
    using quiet[of a "''GET''" "[Lit ''generations/status/'', Val tid]" None] ap Some by simp
  define s where "s = py_strip (CHR 0x22) (text_of r)"
  define prev' where "prev' = (if Some s \<noteq> prev then Some s else prev)"
  have p': "prev' = Some s" by (simp add: prev'_def)
  have st: "api_status a = Some s" using Some by (simp add: api_status_def s_def)
  show ?case
  proof (cases "terminal s")
    case True
    then show ?thesis using ap tr l1 Some st
      by (auto simp: Let_def terminal_def s_def[symmetric] prints_of_simps
          split: option.splits)
  next
    case False
    obtain res t3 where rec: "poll_status api tid prev' rs = (res, t3)"
      by (cases "poll_status api tid prev' rs")
    have ih: "prints_of t3 = map (\<lambda>s. [Lit ''Status: '', Val (JStr s)])
                (tl (remdups_adj (s # polled_by api_status rs)))"
      using Cons.IH[OF rest, of prev'] rec p' by simp
    have unfold: "snd (poll_status api tid prev (a # rs)) =
            t1 @ (if Some s \<noteq> prev then [Print [Lit ''Status: '', Val (JStr s)]] else [])
               @ [Sleep 5] @ t3"
      using ap tr Some False rec
      by (simp add: Let_def terminal_def s_def[symmetric] prev'_def)
    have hd: "map (\<lambda>s. [Lit ''Status: '', Val (JStr s)])
                (remdups_adj (s # polled_by api_status rs)) =
              [Lit ''Status: '', Val (JStr s)] #
                map (\<lambda>s. [Lit ''Status: '', Val (JStr s)])
                  (tl (remdups_adj (s # polled_by api_status rs)))"
      by (rule map_remdups_adj_head)
    show ?thesis
    proof (cases prev)
      case None
      then show ?thesis unfolding unfold using l1 ih st False hd
        by (simp add: prints_of_simps)
    next
      case (Some p)
      then show ?thesis unfolding unfold using l1 ih st False hd
        by (auto simp: prints_of_simps)
    qed
  qed
qed

lemma song_failure_branch_prints:
  "length (prints_of
     (snd (and_then (http m u p h ea) (\<lambda>error_resp.
           and_then (resp_json error_resp) (\<lambda>error_data.
           and_then (lift (py_get error_data ''error_message'' d)) (\<lambda>error_message.
           and_then (emit (Print [Lit (cross_mark @ '' Song generation failed: ''),
                                  Val error_message])) (\<lambda>_.
           ret Return_None))))))) \<le> 1"
  by (cases ea)
     (auto simp: snd_and_then fst_and_then resp_json_def ret_def lift_def prints_of_simps
           split: result.splits option.splits sum.splits)

lemma song_poll_prints:
  "\<exists>extra. prints_of (snd (song_poll h ea tid prev rs)) =
      map (\<lambda>s. [Lit ''Song status: '', Val (JStr s)])
        (case prev of None \<Rightarrow> remdups_adj (polled_by plain_status rs)
         | Some p \<Rightarrow> tl (remdups_adj (p # polled_by plain_status rs))) @ extra \<and>
      length extra \<le> 1 \<and>
      (''FAILURE'' \<notin> set (polled_by plain_status rs) \<longrightarrow> extra = [])"
proof (induction rs arbitrary: prev)
  case Nil
  then show ?case by (simp add: prints_of_simps split: option.splits)
next
  case (Cons a rs)
  show ?case
  proof (cases a)
    case (Raises msg ro)
    then show ?thesis
      by (simp add: snd_and_then fst_and_then plain_status_def prints_of_simps
          split: option.splits)
  next
    case (Resp r)
    define s where "s = py_strip (CHR 0x22) (text_of r)"
    have st: "plain_status a = Some s" using Resp by (simp add: plain_status_def s_def)
    consider (succ) "s = ''SUCCESS''" | (fail) "s = ''FAILURE''" | (other) "\<not> terminal s"
      by (auto simp: terminal_def)
    then show ?thesis
    proof cases
      case succ
      then show ?thesis using st Resp
        by (auto simp: snd_and_then fst_and_then Let_def s_def[symmetric] terminal_def
            prints_of_simps split: option.splits)
    next
      case fail
      define branch where "branch =
        and_then (http ''GET'' [Lit SONAUTO_BASE_URL, Lit ''/generations/'', Val tid]
                   None h ea) (\<lambda>error_resp.
        and_then (resp_json error_resp) (\<lambda>error_data.
        and_then (lift (py_get error_data ''error_message'' (JStr telegram_error_placeholder)))
          (\<lambda>error_message.
        and_then (emit (Print [Lit (cross_mark @ '' Song generation failed: ''),
                               Val error_message])) (\<lambda>_.
        ret Return_None))))"
      have len: "length (prints_of (snd branch)) \<le> 1"
        unfolding branch_def by (rule song_failure_branch_prints)
      have tr: "snd (song_poll h ea tid prev (a # rs)) =
                  [Request ''GET'' [Lit SONAUTO_BASE_URL, Lit ''/generations/status/'', Val tid]
                     None h]
                  @ (if Some s \<noteq> prev then [Print [Lit ''Song status: '', Val (JStr s)]] else [])
                  @ snd branch"
        using fail Resp
        by (simp add: snd_and_then fst_and_then Let_def s_def[symmetric] branch_def)
      have eq: "prints_of (snd (song_poll h ea tid prev (a # rs))) =
                  (if Some s \<noteq> prev then [[Lit ''Song status: '', Val (JStr s)]] else [])
                  @ prints_of (snd branch)"
        unfolding tr by (simp add: prints_of_simps)
      have polled: "polled_by plain_status (a # rs) = [s]"
        using st fail by (simp add: terminal_def)
      have "prints_of (snd (song_poll h ea tid prev (a # rs))) =
              map (\<lambda>s. [Lit ''Song status: '', Val (JStr s)])
                (case prev of None \<Rightarrow> remdups_adj (polled_by plain_status (a # rs))
                 | Some p \<Rightarrow> tl (remdups_adj (p # polled_by plain_status (a # rs))))
              @ prints_of (snd branch)"
        unfolding eq polled by (cases prev) auto
      moreover have "''FAILURE'' \<in> set (polled_by plain_status (a # rs))"
        unfolding polled using fail by simp
      ultimately show ?thesis using len by blast
    next
      case other
      then have ns: "s \<noteq> ''SUCCESS''" and nf: "s \<noteq> ''FAILURE''"
        by (simp_all add: terminal_def)
      have hd: "map (\<lambda>s. [Lit ''Song status: '', Val (JStr s)])
                  (remdups_adj (s # polled_by plain_status rs)) =
                [Lit ''Song status: '', Val (JStr s)] #
                  map (\<lambda>s. [Lit ''Song status: '', Val (JStr s)])
                    (tl (remdups_adj (s # polled_by plain_status rs)))"
        by (rule map_remdups_adj_head)
      from Cons.IH[of "Some s"] obtain extra where
        ih: "prints_of (snd (song_poll h ea tid (Some s) rs)) =
               map (\<lambda>s. [Lit ''Song status: '', Val (JStr s)])
                 (tl (remdups_adj (s # polled_by plain_status rs))) @ extra"
        and le: "length extra \<le> 1"
        and ex: "''FAILURE'' \<notin> set (polled_by plain_status rs) \<longrightarrow> extra = []"
        by auto
      have "prints_of (snd (song_poll h ea tid prev (a # rs))) =
              map (\<lambda>s. [Lit ''Song status: '', Val (JStr s)])
                (case prev of None \<Rightarrow> remdups_adj (polled_by plain_status (a # rs))
                 | Some p \<Rightarrow> tl (remdups_adj (p # polled_by plain_status (a # rs)))) @ extra"
      proof (cases prev)
        case None
        then show ?thesis using st Resp other ns nf ih hd
          by (simp add: snd_and_then fst_and_then Let_def s_def[symmetric] prints_of_simps)
      next
        case (Some p)
        then show ?thesis using st Resp other ns nf ih hd
          by (auto simp: snd_and_then fst_and_then Let_def s_def[symmetric] prints_of_simps)
      qed
      moreover have "''FAILURE'' \<notin> set (polled_by plain_status (a # rs)) \<longrightarrow> extra = []"
        using ex st other nf by simp
      ultimately show ?thesis using le by blast
    qed
  qed
qed

text \<open>
  Claim C2. For every sequence of answers to the status query, the status lines that a
  polling loop prints are the polled status strings with each run of consecutive equal
  values reduced to one (\<open>remdups_adj\<close>): one line for the first observation, one for each
  change, and none for a poll that repeats the status before it. This holds for
  \<open>poll_status\<close> (lines \<open>Status: ...\<close>) and for the loop of \<open>generate_custom_song\<close>
  (lines \<open>Song status: ...\<close>). These lines are the whole output: when every status query
  is answered, \<open>poll_status\<close> prints nothing else, so a poll that repeats a status prints
  nothing; the loop of \<open>generate_custom_song\<close> prints nothing else but, after the status
  \<open>"FAILURE"\<close>, the one line that reports the failure.
\<close>

theorem status_lines_once_per_run:
  "status_lines ''Status: '' (snd (rock_poll_status w tid)) =
     remdups_adj (polled_by api_status (status_answers w)) \<and>
   status_lines ''Status: '' (snd (transition_poll_status w tid)) =
     remdups_adj (polled_by api_status (status_answers w)) \<and>
   status_lines ''Song status: '' (snd (song_poll headers error_answer tid None answers)) =
     remdups_adj (polled_by plain_status answers) \<and>
   (list_all (\<lambda>a. api_status a \<noteq> None) (status_answers w) \<longrightarrow>
      prints_of (snd (rock_poll_status w tid)) =
        map (\<lambda>s. [Lit ''Status: '', Val (JStr s)])
          (remdups_adj (polled_by api_status (status_answers w))) \<and>
      prints_of (snd (transition_poll_status w tid)) =
        map (\<lambda>s. [Lit ''Status: '', Val (JStr s)])
          (remdups_adj (polled_by api_status (status_answers w)))) \<and>
   (\<exists>extra.
      prints_of (snd (song_poll headers error_answer tid None answers)) =
        map (\<lambda>s. [Lit ''Song status: '', Val (JStr s)])
          (remdups_adj (polled_by plain_status answers)) @ extra \<and>
      length extra \<le> 1 \<and>
      (''FAILURE'' \<notin> set (polled_by plain_status answers) \<longrightarrow> extra = []))"
proof (intro conjI impI)
  show "status_lines ''Status: '' (snd (rock_poll_status w tid)) =
          remdups_adj (polled_by api_status (status_answers w))"
    unfolding rock_poll_status_def
    using poll_status_lines[of "rock_api_request (rock_API_KEY w)" tid None "status_answers w",
        OF rock_truthy rock_no_status_line]
    by simp
  show "status_lines ''Status: '' (snd (transition_poll_status w tid)) =
          remdups_adj (polled_by api_status (status_answers w))"
    unfolding transition_poll_status_def
    using poll_status_lines[of "transition_api_request (transition_API_KEY w)" tid None
        "status_answers w", OF trans_truthy trans_no_status_line]
    by simp
  show "status_lines ''Song status: '' (snd (song_poll headers error_answer tid None answers)) =
          remdups_adj (polled_by plain_status answers)"
    using song_poll_lines[of headers error_answer tid None answers] by simp
  show "\<exists>extra.
      prints_of (snd (song_poll headers error_answer tid None answers)) =
        map (\<lambda>s. [Lit ''Song status: '', Val (JStr s)])
          (remdups_adj (polled_by plain_status answers)) @ extra \<and>
      length extra \<le> 1 \<and>
      (''FAILURE'' \<notin> set (polled_by plain_status answers) \<longrightarrow> extra = [])"
    using song_poll_prints[of headers error_answer tid None answers] by simp
next
  assume d: "list_all (\<lambda>a. api_status a \<noteq> None) (status_answers w)"
  show "prints_of (snd (rock_poll_status w tid)) =
          map (\<lambda>s. [Lit ''Status: '', Val (JStr s)])
            (remdups_adj (polled_by api_status (status_answers w)))"
    unfolding rock_poll_status_def
    using poll_status_prints[of "rock_api_request (rock_API_KEY w)" "status_answers w" tid None,
        OF rock_truthy rock_quiet d]
    by simp
  show "prints_of (snd (transition_poll_status w tid)) =
          map (\<lambda>s. [Lit ''Status: '', Val (JStr s)])
            (remdups_adj (polled_by api_status (status_answers w)))"
    unfolding transition_poll_status_def
    using poll_status_prints[of "transition_api_request (transition_API_KEY w)"
        "status_answers w" tid None, OF trans_truthy trans_quiet d]
    by simp
qed

lemma pending_polled:
  "polled_by api_status (status_answers pending_world) = replicate 5 ''PENDING''"
  by (simp add: pending_world_def demo_world_def api_status_def delivered_def answer_text_def
      quoted_def raises_for_status_def py_strip_def terminal_def numeral_eq_Suc)

lemma pending_polled_plain:
  "polled_by plain_status (status_answers pending_world) = replicate 5 ''PENDING''"
  by (simp add: pending_world_def demo_world_def plain_status_def answer_text_def
      quoted_def py_strip_def terminal_def numeral_eq_Suc)

lemma pending_delivered:
  "list_all (\<lambda>a. api_status a \<noteq> None) (status_answers pending_world)"
  by (simp add: pending_world_def demo_world_def api_status_def delivered_def answer_text_def
      raises_for_status_def numeral_eq_Suc)

lemma remdups_adj_replicate_5: "remdups_adj (replicate 5 x) = [x]"
  by (simp add: numeral_eq_Suc)

text \<open>
  Five polls that all answer \<open>PENDING\<close> print one line in all, in each of the three loops.
\<close>

theorem status_lines_once_per_run_witness:
  "status_lines ''Status: '' (snd (rock_poll_status pending_world (JStr ''t1''))) = [''PENDING''] \<and>
   length (requests_of (snd (rock_poll_status pending_world (JStr ''t1'')))) = 5 \<and>
   prints_of (snd (rock_poll_status pending_world (JStr ''t1''))) =
     [[Lit ''Status: '', Val (JStr ''PENDING'')]] \<and>
   prints_of (snd (transition_poll_status pending_world (JStr ''t1''))) =
     [[Lit ''Status: '', Val (JStr ''PENDING'')]] \<and>
   prints_of (snd (song_poll [] (result_answer pending_world) (JStr ''t1'') None
                     (status_answers pending_world))) =
     [[Lit ''Song status: '', Val (JStr ''PENDING'')]]"
proof -
  have p: "list_all (pending_by api_status) (status_answers pending_world)"
    by (simp add: pending_world_def demo_world_def pending_by_def api_status_def delivered_def
        answer_text_def quoted_def raises_for_status_def py_strip_def terminal_def numeral_eq_Suc)
  have n: "length (requests_of (snd (rock_poll_status pending_world (JStr ''t1'')))) = 5"
    using poll_status_pending[of "rock_api_request (rock_API_KEY pending_world)",
        OF rock_truthy rock_one_request rock_no_sleep p, of "JStr ''t1''" None]
    by (auto simp: rock_poll_status_def pending_world_def demo_world_def)
  have nf: "''FAILURE'' \<notin> set (replicate 5 ''PENDING'')" by simp
  from status_lines_once_per_run[of pending_world "JStr ''t1''" "[]"
      "result_answer pending_world" "status_answers pending_world"]
    pending_delivered n nf
  show ?thesis
    unfolding pending_polled pending_polled_plain remdups_adj_replicate_5 by auto
qed

section \<open>When the polling loops end\<close>

lemma poll_status_returned_status:
  assumes api: "\<And>m e p a. truthy (fst (api m e p a)) = delivered a"
    and one: "\<And>m e p a. length (requests_of (snd (api m e p a))) = 1"
    and nos: "\<And>m e p a. sleeps_of (snd (api m e p a)) = []"
    and del: "list_all (\<lambda>a. api_status a \<noteq> None) rs"
    and ret: "fst (poll_status api tid prev rs) = Returned s"
  shows "terminal s \<and> (\<exists>a \<in> set rs. api_status a = Some s)"
proof -
  have "\<not> list_all (pending_by api_status) rs"
  proof
    assume "list_all (pending_by api_status) rs"
    from poll_status_pending[of api, OF api one nos this, of tid prev] ret
    show False by auto
  qed
  from split_at_first[OF this] obtain pre a rest where
    rs: "rs = pre @ a # rest" and pre: "list_all (pending_by api_status) pre"
    and np: "\<not> pending_by api_status a" by blast
  from del rs obtain s' where s': "api_status a = Some s'" by auto
  with np have t: "terminal s'" by (simp add: pending_by_def)
  from poll_status_exit[of api, OF api one nos pre np, of tid prev rest] s' ret rs
  have "s = s'" by auto
  with t s' rs show ?thesis by auto
qed

lemma song_poll_left:
  assumes del: "list_all (\<lambda>a. plain_status a \<noteq> None) rs"
    and left: "fst (song_poll h ea tid prev rs) \<noteq> Polling"
  shows "\<exists>a \<in> set rs. \<exists>s. plain_status a = Some s \<and> terminal s"
proof (rule ccontr)
  assume no: "\<not> (\<exists>a \<in> set rs. \<exists>s. plain_status a = Some s \<and> terminal s)"
  have "list_all (pending_by plain_status) rs"
    unfolding list_all_iff
  proof
    fix a assume a: "a \<in> set rs"
    with del obtain s where s: "plain_status a = Some s" by (auto simp: list_all_iff)
    with no a have "\<not> terminal s" by blast
    with s show "pending_by plain_status a" by (simp add: pending_by_def)
  qed
  from song_poll_pending[OF this, of h ea tid prev] left show False by simp
qed

text \<open>
  Claim C1, as amended. The three Sonauto loops (\<open>poll_status\<close> in rock_song_generator.py
  and in transition_generator.py, and the loop of \<open>generate_custom_song\<close>) keep polling,
  with one sleep for each answer, as long as the status read is neither \<open>"SUCCESS"\<close> nor
  \<open>"FAILURE"\<close>; when every status query is answered, they are left only after one of the
  two strings has been read, and \<open>poll_status\<close> returns that string. The loop of
  \<open>create_singing_video\<close> is different: it keeps polling exactly while the status is
  \<open>"pending"\<close>, and the first answer with any other status ends it.
\<close>

theorem polling_loops_exit:
  "(list_all (pending_by api_status) (status_answers w) \<longrightarrow>
      fst (rock_poll_status w tid) = Polling \<and>
      length (sleeps_of (snd (rock_poll_status w tid))) = length (status_answers w) \<and>
      fst (transition_poll_status w tid) = Polling \<and>
      length (sleeps_of (snd (transition_poll_status w tid))) = length (status_answers w)) \<and>
   (list_all (\<lambda>a. api_status a \<noteq> None) (status_answers w) \<longrightarrow>
      fst (rock_poll_status w tid) = Returned s \<or>
      fst (transition_poll_status w tid) = Returned s \<longrightarrow>
      (s = ''SUCCESS'' \<or> s = ''FAILURE'') \<and>
      (\<exists>a \<in> set (status_answers w). api_status a = Some s)) \<and>
   (list_all (pending_by plain_status) answers \<longrightarrow>
      fst (song_poll headers error_answer tid prev answers) = Polling \<and>
      length (sleeps_of (snd (song_poll headers error_answer tid prev answers))) =
        length answers) \<and>
   (list_all (\<lambda>a. plain_status a \<noteq> None) answers \<longrightarrow>
      fst (song_poll headers error_answer tid prev answers) \<noteq> Polling \<longrightarrow>
      (\<exists>a \<in> set answers. plain_status a = Some ''SUCCESS'' \<or>
                          plain_status a = Some ''FAILURE'')) \<and>
   (list_all (\<lambda>a. video_status a = Some (JStr ''pending'')) video_answers \<longrightarrow>
      fst (video_poll key job_id video_answers) = Polling \<and>
      length (sleeps_of (snd (video_poll key job_id video_answers))) =
        length video_answers) \<and>
   (list_all (\<lambda>a. video_status a = Some (JStr ''pending'')) pre \<longrightarrow>
      video_status a = Some v \<longrightarrow> v \<noteq> JStr ''pending'' \<longrightarrow>
      (\<exists>data. fst (video_poll key job_id (pre @ a # rest)) = Returned (data, v)) \<and>
      length (sleeps_of (snd (video_poll key job_id (pre @ a # rest)))) = length pre)"
proof (intro conjI impI)
  assume p: "list_all (pending_by api_status) (status_answers w)"
  from poll_status_pending[of "rock_api_request (rock_API_KEY w)", OF rock_truthy
      rock_one_request rock_no_sleep p, of tid None]
  show "fst (rock_poll_status w tid) = Polling"
    "length (sleeps_of (snd (rock_poll_status w tid))) = length (status_answers w)"
    by (auto simp: rock_poll_status_def)
  from poll_status_pending[of "transition_api_request (transition_API_KEY w)", OF trans_truthy
      trans_one_request trans_no_sleep p, of tid None]
  show "fst (transition_poll_status w tid) = Polling"
    "length (sleeps_of (snd (transition_poll_status w tid))) = length (status_answers w)"
    by (auto simp: transition_poll_status_def)
next
  assume d: "list_all (\<lambda>a. api_status a \<noteq> None) (status_answers w)"
    and r: "fst (rock_poll_status w tid) = Returned s \<or>
            fst (transition_poll_status w tid) = Returned s"
  from r have "terminal s \<and> (\<exists>a \<in> set (status_answers w). api_status a = Some s)"
  proof
    assume "fst (rock_poll_status w tid) = Returned s"
    then show ?thesis
      using poll_status_returned_status[of "rock_api_request (rock_API_KEY w)", OF rock_truthy
          rock_one_request rock_no_sleep d, of tid None s]
      by (simp add: rock_poll_status_def)
  next
    assume "fst (transition_poll_status w tid) = Returned s"
    then show ?thesis
      using poll_status_returned_status[of "transition_api_request (transition_API_KEY w)",
          OF trans_truthy trans_one_request trans_no_sleep d, of tid None s]
      by (simp add: transition_poll_status_def)
  qed
  then show "s = ''SUCCESS'' \<or> s = ''FAILURE''"
    "\<exists>a \<in> set (status_answers w). api_status a = Some s"
    by (simp_all add: terminal_def)
next
  assume p: "list_all (pending_by plain_status) answers"
  from song_poll_pending[OF p, of headers error_answer tid prev]
  show "fst (song_poll headers error_answer tid prev answers) = Polling"
    "length (sleeps_of (snd (song_poll headers error_answer tid prev answers))) =
       length answers"
    by simp_all
next
  assume d: "list_all (\<lambda>a. plain_status a \<noteq> None) answers"
    and l: "fst (song_poll headers error_answer tid prev answers) \<noteq> Polling"
  from song_poll_left[OF d l]
  show "\<exists>a \<in> set answers. plain_status a = Some ''SUCCESS'' \<or>
                           plain_status a = Some ''FAILURE''"
    by (auto simp: terminal_def)
next
  assume p: "list_all (\<lambda>a. video_status a = Some (JStr ''pending'')) video_answers"
  from video_poll_pending[OF p, of key job_id]
  show "fst (video_poll key job_id video_answers) = Polling"
    "length (sleeps_of (snd (video_poll key job_id video_answers))) = length video_answers"
    by simp_all
next
  assume p: "list_all (\<lambda>a. video_status a = Some (JStr ''pending'')) pre"
    and v: "video_status a = Some v" and n: "v \<noteq> JStr ''pending''"
  from video_poll_exit[OF p v n, of key job_id rest]
  show "\<exists>data. fst (video_poll key job_id (pre @ a # rest)) = Returned (data, v)"
    "length (sleeps_of (snd (video_poll key job_id (pre @ a # rest)))) = length pre"
    by simp_all
qed

text \<open>
  A job that stays pending keeps every loop polling, with one sleep for each answer. A job
  that is pending twice and then reads \<open>"SUCCESS"\<close> ends the Sonauto loops on that answer,
  and a video job that is pending once and then \<open>"completed"\<close> ends the loop of
  \<open>create_singing_video\<close> after one sleep.
\<close>

theorem polling_loops_exit_witness:
  "fst (rock_poll_status pending_world (JStr ''t1'')) = Polling \<and>
   length (sleeps_of (snd (rock_poll_status pending_world (JStr ''t1'')))) = 5 \<and>
   fst (transition_poll_status pending_world (JStr ''t1'')) = Polling \<and>
   fst (song_poll [] (result_answer pending_world) (JStr ''t1'') None
          (status_answers pending_world)) = Polling \<and>
   fst (video_poll ''ls-1'' (JStr ''j1'') (lemon_status_answers pending_world)) = Polling \<and>
   length (sleeps_of (snd (video_poll ''ls-1'' (JStr ''j1'')
             (lemon_status_answers pending_world)))) = 3 \<and>
   fst (rock_poll_status demo_world (JStr ''t1'')) = Returned ''SUCCESS'' \<and>
   (\<exists>a \<in> set (status_answers demo_world). api_status a = Some ''SUCCESS'') \<and>
   fst (song_poll [] (result_answer demo_world) (JStr ''t1'') None
          (status_answers demo_world)) = Returned Break \<and>
   (\<exists>a \<in> set (status_answers demo_world).
       plain_status a = Some ''SUCCESS'' \<or> plain_status a = Some ''FAILURE'') \<and>
   (\<exists>data. fst (video_poll ''ls-1'' (JStr ''j1'') (lemon_status_answers demo_world)) =
             Returned (data, JStr ''completed'')) \<and>
   length (sleeps_of (snd (video_poll ''ls-1'' (JStr ''j1'')
             (lemon_status_answers demo_world)))) = 1"
proof -
  have p: "list_all (pending_by api_status) (status_answers pending_world)"
    by (simp add: pending_world_def demo_world_def pending_by_def api_status_def delivered_def
        answer_text_def quoted_def raises_for_status_def py_strip_def terminal_def numeral_eq_Suc)
  have pp: "list_all (pending_by plain_status) (status_answers pending_world)"
    by (simp add: pending_world_def demo_world_def pending_by_def plain_status_def
        answer_text_def quoted_def py_strip_def terminal_def numeral_eq_Suc)
  have v: "list_all (\<lambda>a. video_status a = Some (JStr ''pending''))
             (lemon_status_answers pending_world)"
    by (simp add: pending_world_def demo_world_def video_status_def answer_json_def
        numeral_eq_Suc)
  have l: "length (status_answers pending_world) = 5"
    "length (lemon_status_answers pending_world) = 3"
    by (simp_all add: pending_world_def demo_world_def)
  have d: "list_all (\<lambda>a. api_status a \<noteq> None) (status_answers demo_world)"
    by (simp add: demo_world_def api_status_def delivered_def answer_text_def
        raises_for_status_def)
  have dp: "list_all (\<lambda>a. plain_status a \<noteq> None) (status_answers demo_world)"
    by (simp add: demo_world_def plain_status_def answer_text_def)
  have r: "fst (rock_poll_status demo_world (JStr ''t1'')) = Returned ''SUCCESS''"
    by code_simp
  have b: "fst (song_poll [] (result_answer demo_world) (JStr ''t1'') None
                  (status_answers demo_world)) = Returned Break"
    by (simp add: demo_world_def answer_text_def quoted_def py_strip_def fst_and_then Let_def)
  have la: "lemon_status_answers demo_world =
              [answer_json (JObj [(''status'', JStr ''pending'')])] @
              answer_json (JObj [(''status'', JStr ''completed''),
                                 (''video_url'', JStr ''http://v/1.mp4'')]) # []"
    by (simp add: demo_world_def)
  have vp: "list_all (\<lambda>a. video_status a = Some (JStr ''pending''))
              [answer_json (JObj [(''status'', JStr ''pending'')])]"
    by (simp add: video_status_def answer_json_def)
  have vc: "video_status (answer_json (JObj [(''status'', JStr ''completed''),
                                              (''video_url'', JStr ''http://v/1.mp4'')])) =
              Some (JStr ''completed'')"
    by (simp add: video_status_def answer_json_def)
  have ne: "JStr ''completed'' \<noteq> JStr ''pending''" by simp
  have first: "fst (rock_poll_status pending_world (JStr ''t1'')) = Polling \<and>
     length (sleeps_of (snd (rock_poll_status pending_world (JStr ''t1'')))) = 5 \<and>
     fst (transition_poll_status pending_world (JStr ''t1'')) = Polling \<and>
     fst (song_poll [] (result_answer pending_world) (JStr ''t1'') None
            (status_answers pending_world)) = Polling \<and>
     fst (video_poll ''ls-1'' (JStr ''j1'') (lemon_status_answers pending_world)) = Polling \<and>
     length (sleeps_of (snd (video_poll ''ls-1'' (JStr ''j1'')
               (lemon_status_answers pending_world)))) = 3"
    using polling_loops_exit[of pending_world "JStr ''t1''" s "status_answers pending_world"
        "[]" "result_answer pending_world" None "lemon_status_answers pending_world"
        "''ls-1''" "JStr ''j1''" "[]" a v rest] p pp v l
    by simp
  have second: "(\<exists>a \<in> set (status_answers demo_world). api_status a = Some ''SUCCESS'') \<and>
     (\<exists>a \<in> set (status_answers demo_world).
         plain_status a = Some ''SUCCESS'' \<or> plain_status a = Some ''FAILURE'') \<and>
     (\<exists>data. fst (video_poll ''ls-1'' (JStr ''j1'') (lemon_status_answers demo_world)) =
               Returned (data, JStr ''completed'')) \<and>
     length (sleeps_of (snd (video_poll ''ls-1'' (JStr ''j1'')
               (lemon_status_answers demo_world)))) = 1"
    using polling_loops_exit[of demo_world "JStr ''t1''" "''SUCCESS''" "status_answers demo_world"
        "[]" "result_answer demo_world" None "[]"
        "''ls-1''" "JStr ''j1''" "[answer_json (JObj [(''status'', JStr ''pending'')])]"
        "answer_json (JObj [(''status'', JStr ''completed''),
                            (''video_url'', JStr ''http://v/1.mp4'')])"
        "JStr ''completed''" "[]"] d dp r b vp vc ne
    unfolding la by simp
  from first second r b show ?thesis by simp
qed

text \<open>
  Claim C1 as stated fails for the loop of \<open>create_singing_video\<close>: the status
  \<open>"processing"\<close> is neither \<open>"pending"\<close> nor the \<open>"completed"\<close> that the function tests
  for afterwards, and the loop ends on it after one request, without a sleep and without
  asking for the next answer.
\<close>

theorem video_poll_exits_on_other_status:
  "fst (video_poll ''ls-1'' (JStr ''j1'')
          [answer_json (JObj [(''status'', JStr ''processing'')]),
           answer_json (JObj [(''status'', JStr ''pending'')])]) =
     Returned (JObj [(''status'', JStr ''processing'')], JStr ''processing'') \<and>
   length (requests_of (snd (video_poll ''ls-1'' (JStr ''j1'')
          [answer_json (JObj [(''status'', JStr ''processing'')]),
           answer_json (JObj [(''status'', JStr ''pending'')])]))) = 1 \<and>
   sleeps_of (snd (video_poll ''ls-1'' (JStr ''j1'')
          [answer_json (JObj [(''status'', JStr ''processing'')]),
           answer_json (JObj [(''status'', JStr ''pending'')])])) = []"
  by (simp add: answer_json_def fst_and_then snd_and_then)

section \<open>Rounding to a float\<close>

lemma rne_error: "\<bar>of_int (rne q) - q\<bar> \<le> 1 / 2"
proof -
  have "of_int \<lfloor>q\<rfloor> \<le> q" "q < of_int \<lfloor>q\<rfloor> + 1" by linarith+
  then show ?thesis by (auto simp: rne_def Let_def)
qed

lemma expo_ge1:
  assumes "1 \<le> a"
  shows "2 powi (expo a) \<le> a \<and> a < 2 powi (expo a + 1)"
proof -
  define n where "n = \<lfloor>a\<rfloor>"
  have n1: "1 \<le> n" using assms by (simp add: n_def le_floor_iff)
  then have n0: "0 < n" by simp
  from bitlen_bounds[OF n0] have lo: "2 ^ nat (bitlen n - 1) \<le> n" and hi: "n < 2 ^ nat (bitlen n)"
    by simp_all
  have b1: "1 \<le> bitlen n" using n0 by (simp add: bitlen_alt_def)
  have e: "expo a = bitlen n - 1" using assms by (simp add: expo_def n_def)
  have en: "0 \<le> expo a" using b1 e by simp
  have "(2::rat) powi (expo a) = 2 ^ nat (bitlen n - 1)"
    using en e by (simp add: power_int_def)
  also have "\<dots> = of_int (2 ^ nat (bitlen n - 1))" by simp
  also have "\<dots> \<le> of_int n" using lo by (simp only: of_int_le_iff)
  also have "\<dots> \<le> a" unfolding n_def by linarith
  finally have L: "2 powi (expo a) \<le> a" .
  have "n + 1 \<le> 2 ^ nat (bitlen n)" using hi by simp
  then have "(of_int (n + 1) :: rat) \<le> of_int (2 ^ nat (bitlen n))" by (simp only: of_int_le_iff)
  moreover have "a < of_int (n + 1)" unfolding n_def by linarith
  ultimately have "a < of_int (2 ^ nat (bitlen n))" by linarith
  also have "\<dots> = 2 ^ nat (bitlen n)" by simp
  also have "\<dots> = 2 powi (expo a + 1)"
    using b1 e by (simp add: power_int_def)
  finally have U: "a < 2 powi (expo a + 1)" .
  from L U show ?thesis by simp
qed

lemma expo_lt1:
  assumes "0 < a" "a < 1"
  shows "2 powi (expo a) \<le> a \<and> a < 2 powi (expo a + 1)"
proof -
  define m where "m = \<lfloor>1 / a\<rfloor>"
  define k where "k = bitlen m - 1"
  have inv1: "1 \<le> 1 / a" using assms by simp
  have m1: "1 \<le> m" using inv1 by (simp add: m_def le_floor_iff)
  then have m0: "0 < m" by simp
  from bitlen_bounds[OF m0] have lo: "2 ^ nat k \<le> m" and hi: "m < 2 ^ nat (bitlen m)"
    by (simp_all add: k_def)
  have k0: "0 \<le> k" using m0 by (simp add: bitlen_alt_def k_def)
  have bk: "nat (bitlen m) = Suc (nat k)" using k0 by (simp add: k_def nat_add_distrib)
  have "(2::rat) ^ nat k = of_int (2 ^ nat k)" by simp
  also have "\<dots> \<le> of_int m" using lo by (simp only: of_int_le_iff)
  also have "\<dots> \<le> 1 / a" unfolding m_def by linarith
  finally have le: "(2::rat) ^ nat k \<le> 1 / a" .
  have "m + 1 \<le> 2 ^ Suc (nat k)" using hi bk by simp
  then have "(of_int (m + 1) :: rat) \<le> of_int (2 ^ Suc (nat k))" by (simp only: of_int_le_iff)
  moreover have "1 / a < of_int (m + 1)" unfolding m_def by linarith
  ultimately have lt: "1 / a < 2 ^ Suc (nat k)" by simp
  have p: "(0::rat) < 2 ^ nat k" by simp
  from le assms(1) have up: "a * 2 ^ nat k \<le> 1"
    by (simp add: field_simps)
  from lt assms(1) have dn: "1 < a * 2 ^ Suc (nat k)"
    by (simp add: field_simps)
  have pk: "(2::rat) powi (- k) = 1 / 2 ^ nat k"
    using k0 by (cases "k = 0") (simp_all add: power_int_def field_simps)
  have pk1: "(2::rat) powi (- k - 1) = 1 / 2 ^ Suc (nat k)"
    using k0 by (simp add: power_int_def field_simps nat_add_distrib)
  have pk2: "(2::rat) powi (- k + 1) = 2 / 2 ^ nat k"
  proof (cases "k = 0")
    case True then show ?thesis by simp
  next
    case False
    with k0 have "nat (k - 1) = nat k - 1" "0 < nat k" by simp_all
    moreover from False k0 have "- k + 1 \<le> 0" by simp
    ultimately show ?thesis using False k0
      by (cases "nat k") (simp_all add: power_int_def field_simps)
  qed
  show ?thesis
  proof (cases "a * 2 ^ nat k = 1")
    case True
    then have e: "expo a = - k" using assms by (simp add: expo_def m_def k_def Let_def)
    from True have a: "a = 1 / 2 ^ nat k" by (simp add: field_simps)
    have "(1::rat) / 2 ^ nat k < 2 / 2 ^ nat k" by (simp add: divide_strict_right_mono)
    then show ?thesis unfolding e pk pk2 using a by simp
  next
    case False
    then have e: "expo a = - k - 1" using assms by (simp add: expo_def m_def k_def Let_def)
    have e1: "expo a + 1 = - k" using e by simp
    from False up have "a * 2 ^ nat k < 1" by simp
    then have U: "a < 1 / 2 ^ nat k" by (simp add: field_simps)
    from dn have L: "1 / 2 ^ Suc (nat k) < a" by (simp add: field_simps)
    show ?thesis unfolding e1 unfolding e pk pk1 using U L by simp
  qed
qed

lemma expo_bounds:
  assumes "0 < a"
  shows "2 powi (expo a) \<le> a" "a < 2 powi (expo a + 1)"
  using expo_ge1[of a] expo_lt1[of a] assms by (cases "1 \<le> a"; simp)+

lemma pow2_mono: "e \<le> e' \<Longrightarrow> (2::rat) powi e \<le> 2 powi e'"
  by (rule power_int_increasing) simp_all

lemma expo_unique:
  assumes "0 < a" "2 powi e \<le> a" "a < 2 powi (e + 1)"
  shows "expo a = e"
proof (rule ccontr)
  assume ne: "expo a \<noteq> e"
  from expo_bounds[OF assms(1)] have b: "2 powi (expo a) \<le> a" "a < 2 powi (expo a + 1)" .
  from ne consider "expo a + 1 \<le> e" | "e + 1 \<le> expo a" by linarith
  then show False
  proof cases
    case 1
    from pow2_mono[OF 1] b(2) assms(2) show False by linarith
  next
    case 2
    from pow2_mono[OF 2] b(1) assms(3) show False by linarith
  qed
qed

lemma rne_near:
  assumes "\<bar>of_int n - q\<bar> < 1 / 2"
  shows "rne q = n"
proof -
  define f where "f = \<lfloor>q\<rfloor>"
  have fq: "of_int f \<le> q" "q < of_int f + 1" unfolding f_def by linarith+
  from assms have nq: "q - 1 / 2 < of_int n" "of_int n < q + 1 / 2" by linarith+
  show ?thesis
  proof (cases "q - of_int f < 1 / 2")
    case True
    from nq fq True have "(of_int n :: rat) < of_int (f + 1)" "(of_int (f - 1) :: rat) < of_int n"
      by simp_all
    then have "n < f + 1" "f - 1 < n" by (simp_all only: of_int_less_iff)
    then have "n = f" by simp
    with True show ?thesis by (simp add: rne_def Let_def f_def)
  next
    case False
    from nq fq False have "(of_int n :: rat) < of_int (f + 2)" "(of_int f :: rat) < of_int n"
      by simp_all
    then have "n < f + 2" "f < n" by (simp_all only: of_int_less_iff)
    then have n: "n = f + 1" by simp
    have "q - of_int f \<noteq> 1 / 2"
    proof
      assume "q - of_int f = 1 / 2"
      then have "q = of_int f + 1 / 2" by simp
      with assms n show False by simp
    qed
    with False have "1 / 2 < q - of_int f" by simp
    with n show ?thesis by (simp add: rne_def Let_def f_def)
  qed
qed

lemma double_near:
  assumes "- 1022 \<le> e" "2 powi e \<le> \<bar>x\<bar>" "\<bar>x\<bar> < 2 powi (e + 1)"
    and "\<bar>of_int n - \<bar>x\<bar> / 2 powi (e - 52)\<bar> < 1 / 2"
  shows "double x = sgn x * of_int n * 2 powi (e - 52)"
proof -
  have "(0::rat) < 2 powi e" by simp
  with assms(2) have pos: "0 < \<bar>x\<bar>" by linarith
  then have x0: "x \<noteq> 0" by simp
  from expo_unique[OF pos assms(2,3)] have e: "expo \<bar>x\<bar> = e" .
  from assms(1) have m: "max e (- 1022) = e" by simp
  show ?thesis using x0 rne_near[OF assms(4)] by (simp add: double_def Let_def e m)
qed

lemma double_error: "\<bar>double x - x\<bar> \<le> \<bar>x\<bar> / 2 ^ 53 + 1 / 2 ^ 60"
proof (cases "x = 0")
  case True
  then show ?thesis by (simp add: double_def)
next
  case False
  define a where "a = \<bar>x\<bar>"
  define u where "u = (2::rat) powi (max (expo a) (- 1022) - 52)"
  have a0: "0 < a" using False by (simp add: a_def)
  have u0: "0 < u" by (simp add: u_def)
  have d: "double x = sgn x * (of_int (rne (a / u)) * u)"
    using False by (simp add: double_def Let_def a_def u_def)
  have x: "x = sgn x * a" unfolding a_def by (rule mult_sgn_abs[symmetric])
  have "\<bar>double x - x\<bar> = \<bar>sgn x * (of_int (rne (a / u)) * u - a)\<bar>"
    by (subst (2) x) (simp add: d algebra_simps)
  also have "\<dots> = \<bar>of_int (rne (a / u)) * u - a\<bar>"
    using False by (simp add: abs_mult)
  also have "\<dots> = \<bar>of_int (rne (a / u)) - a / u\<bar> * u"
  proof -
    have "of_int (rne (a / u)) * u - a = (of_int (rne (a / u)) - a / u) * u"
      using u0 by (simp add: left_diff_distrib)
    then show ?thesis using u0 by (simp add: abs_mult)
  qed
  also have "\<dots> \<le> (1 / 2) * u"
    using rne_error[of "a / u"] u0 by (intro mult_right_mono) simp_all
  finally have half: "\<bar>double x - x\<bar> \<le> u / 2" by simp
  show ?thesis
  proof (cases "- 1022 \<le> expo a")
    case True
    then have "u / 2 = 2 powi (expo a) / 2 ^ 53"
      by (simp add: u_def power_int_diff max_def)
    also have "\<dots> \<le> a / 2 ^ 53"
      using expo_bounds(1)[OF a0] by (simp add: divide_right_mono)
    finally have "u / 2 \<le> \<bar>x\<bar> / 2 ^ 53" by (simp add: a_def)
    moreover have "(0::rat) \<le> 1 / 2 ^ 60" by simp
    ultimately show ?thesis using half by linarith
  next
    case False
    then have "u = 2 powi (- 1074)" by (simp add: u_def max_def)
    also have "\<dots> \<le> 2 powi (- 59)" by (rule pow2_mono) simp
    also have "\<dots> = 1 / 2 ^ 59" by (simp add: power_int_minus field_simps)
    finally have "u / 2 \<le> 1 / 2 ^ 60" by simp
    moreover have "0 \<le> \<bar>x\<bar> / 2 ^ 53" by simp
    ultimately show ?thesis using half by linarith
  qed
qed

lemma double_0: "double 0 = 0"
  by (simp add: double_def)


text \<open>The values that the concrete runs meet.\<close>

lemma double_5: "double 5 = 5"
  using double_near[of 2 5 5629499534213120] by (simp add: power_int_minus)

lemma double_10: "double 10 = 10"
  using double_near[of 3 10 5629499534213120] by (simp add: power_int_minus)

lemma double_15: "double 15 = 15"
  using double_near[of 3 15 8444249301319680] by (simp add: power_int_minus)

lemma double_45: "double 45 = 45"
  using double_near[of 5 45 6333186975989760] by (simp add: power_int_minus)

lemma double_50: "double 50 = 50"
  using double_near[of 5 50 7036874417766400] by (simp add: power_int_minus)

lemma double_tenth: "double (1 / 10) = 3602879701896397 / 36028797018963968"
  using double_near[of "- 4" "1 / 10" 7205759403792794] by (simp add: power_int_minus)

lemma double_fifth: "double (1 / 5) = 3602879701896397 / 18014398509481984"
  using double_near[of "- 3" "1 / 5" 7205759403792794] by (simp add: power_int_minus)

lemma double_44_9:
  "double (45 - 3602879701896397 / 36028797018963968) = 6319113227154227 / 140737488355328"
  using double_near[of 5 "45 - 3602879701896397 / 36028797018963968" 6319113227154227]
  by (simp add: power_int_minus)

lemma double_50_1:
  "double (50 + 3602879701896397 / 36028797018963968) = 7050948166601933 / 140737488355328"
  using double_near[of 5 "50 + 3602879701896397 / 36028797018963968" 7050948166601933]
  by (simp add: power_int_minus)

lemma double_45_1:
  "double (45 + 3602879701896397 / 36028797018963968) = 6347260724825293 / 140737488355328"
  using double_near[of 5 "45 + 3602879701896397 / 36028797018963968" 6347260724825293]
  by (simp add: power_int_minus)

lemma double_9_9:
  "double (10 - 3602879701896397 / 36028797018963968) = 5573204538870989 / 562949953421312"
  using double_near[of 3 "10 - 3602879701896397 / 36028797018963968" 5573204538870989]
  by (simp add: power_int_minus)

lemma double_15_1:
  "double (15 + 3602879701896397 / 36028797018963968) = 8500544296661811 / 562949953421312"
  using double_near[of 3 "15 + 3602879701896397 / 36028797018963968" 8500544296661811]
  by (simp add: power_int_minus)

lemma double_5_2:
  "double (5 + 3602879701896397 / 18014398509481984) = 5854679515581645 / 1125899906842624"
  using double_near[of 2 "5 + 3602879701896397 / 18014398509481984" 5854679515581645]
  by (simp add: power_int_minus)

lemma double_size: "double (15625 / 16384) = 15625 / 16384"
  using double_near[of "- 1" "15625 / 16384" 8589934592000000]
  by (simp add: power_int_minus)

text \<open>\<open>45 - 0.1\<close>, \<open>50 + 0.1\<close> and their like, and \<open>5 + 0.2\<close>, as Python evaluates them.\<close>

lemma boundary_values:
  "double (45 - double (1 / 10)) = 6319113227154227 / 140737488355328"
  "double (50 + double (1 / 10)) = 7050948166601933 / 140737488355328"
  "double (45 + double (1 / 10)) = 6347260724825293 / 140737488355328"
  "double (10 - double (1 / 10)) = 5573204538870989 / 562949953421312"
  "double (15 + double (1 / 10)) = 8500544296661811 / 562949953421312"
  "double (5 + double (1 / 5)) = 5854679515581645 / 1125899906842624"
  by (simp_all only: double_tenth double_fifth double_44_9 double_50_1 double_45_1 double_9_9
      double_15_1 double_5_2)


lemma window_error:
  fixes a s :: rat
  assumes "0 \<le> a" "0 \<le> s"
  defines "A \<equiv> double a" and "B \<equiv> double (a + s)" and "c \<equiv> double (1 / 10)"
  defines "ss \<equiv> double (A - c)" and "se \<equiv> double (B + c)"
  shows "\<bar>se - ss - (s + 2 / 10)\<bar> \<le> (se + 1) / 2 ^ 50"
proof -
  define u :: rat where "u = 1 / 2 ^ 53"
  define d :: rat where "d = 1 / 2 ^ 60"
  define b where "b = a + s"
  define au where "au = a * u"
  define bu where "bu = b * u"
  have c: "c = 3602879701896397 / 36028797018963968" unfolding c_def by (rule double_tenth)
  have c1: "1 / 10 \<le> c" "c \<le> 1 / 10 + u / 10" by (simp_all add: c u_def)
  have u0: "0 \<le> u" "u \<le> 1 / 1024" and d0: "0 \<le> d" "d \<le> u / 100" by (simp_all add: u_def d_def)
  have b0: "0 \<le> b" "a \<le> b" "b = a + s" using assms(1,2) by (simp_all add: b_def)
  have eA: "\<bar>A - a\<bar> \<le> au + d"
    using double_error[of a] assms(1) by (simp add: A_def u_def d_def au_def)
  have eB: "\<bar>B - b\<bar> \<le> bu + d"
    using double_error[of b] b0(1) by (simp add: B_def u_def d_def bu_def b_def)
  have es: "\<bar>ss - (A - c)\<bar> \<le> \<bar>A - c\<bar> * u + d"
    using double_error[of "A - c"] by (simp add: ss_def u_def d_def)
  have ee: "\<bar>se - (B + c)\<bar> \<le> \<bar>B + c\<bar> * u + d"
    using double_error[of "B + c"] by (simp add: se_def u_def d_def)
  have au0: "0 \<le> au" "0 \<le> bu" using assms(1) b0(1) u0(1) by (simp_all add: au_def bu_def)
  have au8: "au \<le> a / 1024" "bu \<le> b / 1024"
    using mult_left_mono[OF u0(2) assms(1)] mult_left_mono[OF u0(2) b0(1)]
    by (simp_all add: au_def bu_def)
  have aub: "au \<le> bu" unfolding au_def bu_def using b0(2) u0(1) by (rule mult_right_mono)
  have mA: "\<bar>A - c\<bar> \<le> 2 * a + 1" using eA c1 d0 u0 au0 au8 assms(1) by linarith
  have mB: "\<bar>B + c\<bar> \<le> 2 * b + 1" using eB c1 d0 u0 au0 au8 b0(1) by linarith
  have "\<bar>A - c\<bar> * u \<le> (2 * a + 1) * u" using mA u0(1) by (rule mult_right_mono)
  with es have es': "\<bar>ss - (A - c)\<bar> \<le> 2 * au + u + d" by (simp add: algebra_simps au_def)
  have "\<bar>B + c\<bar> * u \<le> (2 * b + 1) * u" using mB u0(1) by (rule mult_right_mono)
  with ee have ee': "\<bar>se - (B + c)\<bar> \<le> 2 * bu + u + d" by (simp add: algebra_simps bu_def)
  have E: "\<bar>se - ss - (s + 2 / 10)\<bar> \<le> 6 * bu + 3 * u"
    using eA eB es' ee' c1 d0 u0 aub b0(3) by linarith
  have se1: "b - 3 * bu - 2 * u \<le> se" using eB ee' c1 d0 u0 by linarith
  have "(b - 3 * bu - 2 * u) * u \<le> se * u" using se1 u0(1) by (rule mult_right_mono)
  moreover have "bu * u \<le> bu * (1 / 1024)" using u0(2) au0(2) by (rule mult_left_mono)
  moreover have "u * u \<le> u * (1 / 1024)" using u0(2) u0(1) by (rule mult_left_mono)
  ultimately have "bu - 3 * (bu / 1024) - 2 * (u / 1024) \<le> se * u"
    by (simp add: algebra_simps bu_def)
  then have "6 * bu + 3 * u \<le> 8 * (se * u) + 8 * u" using au0 u0 by linarith
  also have "\<dots> = (se + 1) / 2 ^ 50" by (simp add: u_def field_simps)
  finally show ?thesis using E by linarith
qed

section \<open>The inpainting window of create_concatenated_audio\<close>

lemma fst_lift: "fst (lift x) = (case x of Inl e \<Rightarrow> Raised e | Inr a \<Rightarrow> Returned a)"
  by (simp add: lift_def split: sum.splits)

lemma fst_export_to:
  "fst (export_to st path) = (if can_export st path then Returned () else Raised OSError)"
  by (simp add: export_to_def)

lemma true_div_Inr: "true_div a b = Inr y \<Longrightarrow> y = double (of_int a / of_int b)"
  by (simp add: true_div_def Let_def split: if_splits)

lemma create_concatenated_audio_returned:
  assumes "fst (create_concatenated_audio st p1 p2 out comb sd sil tfe tts) =
             Returned (p, ss, se)"
  obtains s1 e1 a z where
    "from_file st p1 = Inr s1"
    "int_minus (min (sd * 1000) (int (seg_len st s1))) (times_1000 tfe) = Inr e1"
    "slice st s1 (PyInt 0) e1 = Inr a"
    "silent st (sil * 1000) = Inr z"
    "ss = double (double (of_nat (seg_len st a) / 1000) - double (1 / 10))"
    "se = double (double ((of_nat (seg_len st a) + of_nat (seg_len st z)) / 1000) +
                  double (1 / 10))"
    "p = out"
proof -
  from assms obtain s1 e1 a z y1 y2 where
    "from_file st p1 = Inr s1"
    "int_minus (min (sd * 1000) (int (seg_len st s1))) (times_1000 tfe) = Inr e1"
    "slice st s1 (PyInt 0) e1 = Inr a"
    "silent st (sil * 1000) = Inr z"
    "true_div (int (seg_len st a)) 1000 = Inr y1"
    "true_div (int (seg_len st a) + int (seg_len st z)) 1000 = Inr y2"
    "ss = double (y1 - double (1 / 10))"
    "se = double (y2 + double (1 / 10))"
    "p = out"
    by (auto simp: create_concatenated_audio_def fst_and_then fst_lift fst_export_to Let_def
        split: sum.splits if_splits)
  moreover from this(5) have "y1 = double (of_nat (seg_len st a) / 1000)"
    by (auto dest: true_div_Inr)
  moreover from calculation(6)
  have "y2 = double ((of_nat (seg_len st a) + of_nat (seg_len st z)) / 1000)"
    by (auto dest: true_div_Inr)
  ultimately show ?thesis using that by blast
qed

text \<open>
  Claim C4. For two input segments of 60 s and 50 s and the parameters
  \<open>song_duration = 45\<close>, \<open>silence_duration = 5\<close>, \<open>trim_from_end = 0\<close> and
  \<open>trim_to_start = 0\<close>, the boundaries that \<open>create_concatenated_audio\<close> returns are
  \<open>(45 - 0.1, 50 + 0.1)\<close> seconds: the two floats that Python computes for these two
  expressions, \<open>0.1\<close> being the float nearest to one tenth and each difference and sum
  being rounded. The library is supposed to keep the lengths of a slice and of a silence
  as stated above.
\<close>

theorem inpaint_window_scenario:
  assumes "slice_keeps_length st" and "silent_keeps_length st"
    and "from_file st song1_path = Inr song1" and "seg_len st song1 = 60000"
    and "from_file st song2_path = Inr song2" and "seg_len st song2 = 50000"
    and "fst (create_concatenated_audio st song1_path song2_path output_path
                combined_output_path 45 5 (PyInt 0) (PyInt 0)) =
           Returned (path, silence_start, silence_end)"
  shows "silence_start = double (45 - double (1 / 10)) \<and>
         silence_end = double (50 + double (1 / 10))"
proof -
  from assms(7) obtain s1 e1 a z where
    f: "from_file st song1_path = Inr s1"
    and e1: "int_minus (min (45 * 1000) (int (seg_len st s1))) (times_1000 (PyInt 0)) = Inr e1"
    and sl: "slice st s1 (PyInt 0) e1 = Inr a"
    and si: "silent st (5 * 1000) = Inr z"
    and ss: "silence_start = double (double (of_nat (seg_len st a) / 1000) - double (1 / 10))"
    and se: "silence_end =
               double (double ((of_nat (seg_len st a) + of_nat (seg_len st z)) / 1000) +
                       double (1 / 10))"
    by (rule create_concatenated_audio_returned)
  from f assms(3) have s1: "s1 = song1" by simp
  from e1 assms(4) have "e1 = PyInt 45000"
    by (simp add: s1 int_minus_def times_1000_def)
  with sl s1 have sl': "slice st song1 (PyInt 0) (PyInt 45000) = Inr a" by simp
  have la: "int (seg_len st a) = 45000"
    using assms(1)[unfolded slice_keeps_length_def, rule_format, of song1 45000 a] sl' assms(4)
    by simp
  have lz: "int (seg_len st z) = 5000"
    using assms(2)[unfolded silent_keeps_length_def, rule_format, of 5000 z] si by simp
  from la have a: "seg_len st a = 45000" by linarith
  from lz have z: "seg_len st z = 5000" by linarith
  show ?thesis by (simp add: ss se a z double_45 double_50)
qed

lemma demo_slice: "slice_keeps_length demo_studio"
  by (simp add: slice_keeps_length_def demo_studio_def)

lemma demo_silent: "silent_keeps_length demo_studio"
  by (simp add: silent_keeps_length_def demo_studio_def)

lemma demo_concatenated:
  "fst (create_concatenated_audio demo_studio [Lit ''/tmp/d'', Lit ''/song1'', Lit ''.mp3'']
          [Lit ''/tmp/d'', Lit ''/song2'', Lit ''.mp3''] out comb 45 5 (PyInt 0) (PyInt 0)) =
     Returned (out, 6319113227154227 / 140737488355328, 7050948166601933 / 140737488355328)"
  by (simp add: create_concatenated_audio_def fst_and_then fst_lift fst_export_to Let_def
      demo_studio_def times_1000_def int_minus_def true_div_def out_of_range_def
      double_45 double_50 boundary_values)

lemma demo_concatenated_short:
  "fst (create_concatenated_audio demo_studio [Lit ''/tmp/d'', Lit ''/song1'', Lit ''.mp3'']
          [Lit ''/tmp/d'', Lit ''/song2'', Lit ''.mp3''] out comb 10 5 (PyInt 0) (PyInt 0)) =
     Returned (out, 5573204538870989 / 562949953421312, 8500544296661811 / 562949953421312)"
  by (simp add: create_concatenated_audio_def fst_and_then fst_lift fst_export_to Let_def
      demo_studio_def times_1000_def int_minus_def true_div_def out_of_range_def
      double_10 double_15 boundary_values)

lemma demo_concatenated_negative:
  "fst (create_concatenated_audio demo_studio [Lit ''/tmp/d'', Lit ''/song1'', Lit ''.mp3'']
          [Lit ''/tmp/d'', Lit ''/song2'', Lit ''.mp3''] out comb 45 (- 5) (PyInt 0) (PyInt 0)) =
     Returned (out, 6319113227154227 / 140737488355328, 6347260724825293 / 140737488355328)"
  by (simp add: create_concatenated_audio_def fst_and_then fst_lift fst_export_to Let_def
      demo_studio_def times_1000_def int_minus_def true_div_def out_of_range_def
      double_45 boundary_values)

text \<open>
  In \<open>demo_studio\<close> the two files are 60 s and 50 s long and the function returns the
  floats 44.9 and 50.1.
\<close>

theorem inpaint_window_scenario_witness:
  "fst (create_concatenated_audio demo_studio [Lit ''/tmp/d'', Lit ''/song1'', Lit ''.mp3'']
          [Lit ''/tmp/d'', Lit ''/song2'', Lit ''.mp3''] [Lit ''out.mp3''] [Lit ''pre.mp3'']
          45 5 (PyInt 0) (PyInt 0)) =
     Returned ([Lit ''out.mp3''], 6319113227154227 / 140737488355328,
               7050948166601933 / 140737488355328) \<and>
   (6319113227154227 / 140737488355328 :: rat) = double (45 - double (1 / 10)) \<and>
   (7050948166601933 / 140737488355328 :: rat) = double (50 + double (1 / 10))"
proof -
  have f1: "from_file demo_studio [Lit ''/tmp/d'', Lit ''/song1'', Lit ''.mp3''] = Inr 60000"
    and f2: "from_file demo_studio [Lit ''/tmp/d'', Lit ''/song2'', Lit ''.mp3''] = Inr 50000"
    and l1: "seg_len demo_studio 60000 = 60000" and l2: "seg_len demo_studio 50000 = 50000"
    by (simp_all add: demo_studio_def)
  from inpaint_window_scenario[OF demo_slice demo_silent f1 l1 f2 l2 demo_concatenated]
    demo_concatenated
  show ?thesis by blast
qed

text \<open>
  Claim C10, as amended. For all input segments, all trim amounts, every
  \<open>song_duration\<close> and every \<open>silence_duration \<ge> 0\<close>, where the library gives a silence of
  the length asked for, the window that \<open>create_concatenated_audio\<close> returns is
  \<open>silence_duration + 0.2\<close> seconds wide up to the rounding of its floating-point
  operations: \<open>silence_end - silence_start\<close> differs from \<open>silence_duration + 0.2\<close> by at
  most \<open>(silence_end + 1) / 2 ^ 50\<close> seconds.
\<close>

theorem inpaint_window_length:
  assumes "silent_keeps_length st" and "0 \<le> silence_duration"
    and "fst (create_concatenated_audio st song1_path song2_path output_path
                combined_output_path duration silence_duration trim_end trim_start) =
           Returned (path, silence_start, silence_end)"
  shows "\<bar>silence_end - silence_start - (of_int silence_duration + 2 / 10)\<bar> \<le>
           (silence_end + 1) / 2 ^ 50"
proof -
  from assms(3) obtain s1 e1 a z where
    si: "silent st (silence_duration * 1000) = Inr z"
    and ss: "silence_start = double (double (of_nat (seg_len st a) / 1000) - double (1 / 10))"
    and se: "silence_end =
               double (double ((of_nat (seg_len st a) + of_nat (seg_len st z)) / 1000) +
                       double (1 / 10))"
    by (rule create_concatenated_audio_returned)
  have "int (seg_len st z) = silence_duration * 1000"
    using assms(1)[unfolded silent_keeps_length_def, rule_format, of "silence_duration * 1000" z]
      si assms(2) by simp
  then have "(of_int (int (seg_len st z)) :: rat) = of_int (silence_duration * 1000)"
    by (rule arg_cong)
  then have "(of_nat (seg_len st z) :: rat) = of_int (silence_duration * 1000)"
    by simp
  then have z: "(of_nat (seg_len st z) :: rat) / 1000 = of_int silence_duration" by simp
  have sum: "((of_nat (seg_len st a) + of_nat (seg_len st z)) / 1000 :: rat) =
               of_nat (seg_len st a) / 1000 + of_int silence_duration"
    using z by (simp add: add_divide_distrib)
  have a0: "(0::rat) \<le> of_nat (seg_len st a) / 1000" by simp
  have s0: "(0::rat) \<le> of_int silence_duration" using assms(2) by simp
  from window_error[OF a0 s0] show ?thesis unfolding ss se sum .
qed

text \<open>With a silence of 5 s after 45 s the width is within \<open>2 ^ -44\<close> s of 5.2 s.\<close>

theorem inpaint_window_length_witness:
  "fst (create_concatenated_audio demo_studio [Lit ''/tmp/d'', Lit ''/song1'', Lit ''.mp3'']
          [Lit ''/tmp/d'', Lit ''/song2'', Lit ''.mp3''] [Lit ''out.mp3''] [Lit ''pre.mp3'']
          45 5 (PyInt 0) (PyInt 0)) =
     Returned ([Lit ''out.mp3''], 6319113227154227 / 140737488355328,
               7050948166601933 / 140737488355328) \<and>
   \<bar>7050948166601933 / 140737488355328 - 6319113227154227 / 140737488355328 -
      (of_int 5 + 2 / 10)\<bar> \<le> (7050948166601933 / 140737488355328 + 1) / (2 ^ 50 :: rat)"
proof -
  have nn: "(0::int) \<le> 5" by simp
  from inpaint_window_length[OF demo_silent nn demo_concatenated] demo_concatenated
  show ?thesis by blast
qed

text \<open>
  Claim C10 as stated fails in two ways. A negative \<open>silence_duration\<close>, which \<open>--silence\<close>
  accepts, gives a silence of length 0, so the window is about 0.2 s wide and not -4.8 s.
  And for the default parameters the equation does not hold exactly: the function
  returns the floats 44.9 and 50.1, whose difference is 5.200000000000003, neither the
  real number 5.2 nor the float \<open>5 + 0.2\<close>; with \<open>song_duration = 10\<close> it returns 9.9 and
  15.1, whose difference is 5.199999999999999, so the width also depends on the length of
  the first clip.
\<close>

theorem inpaint_window_not_exact:
  "fst (create_concatenated_audio demo_studio [Lit ''/tmp/d'', Lit ''/song1'', Lit ''.mp3'']
          [Lit ''/tmp/d'', Lit ''/song2'', Lit ''.mp3''] [Lit ''out.mp3''] [Lit ''pre.mp3'']
          45 (- 5) (PyInt 0) (PyInt 0)) =
     Returned ([Lit ''out.mp3''], 6319113227154227 / 140737488355328,
               6347260724825293 / 140737488355328) \<and>
   (6347260724825293 / 140737488355328 :: rat) - 6319113227154227 / 140737488355328 \<noteq>
     of_int (- 5) + 2 / 10 \<and>
   fst (create_concatenated_audio demo_studio [Lit ''/tmp/d'', Lit ''/song1'', Lit ''.mp3'']
          [Lit ''/tmp/d'', Lit ''/song2'', Lit ''.mp3''] [Lit ''out.mp3''] [Lit ''pre.mp3'']
          45 5 (PyInt 0) (PyInt 0)) =
     Returned ([Lit ''out.mp3''], 6319113227154227 / 140737488355328,
               7050948166601933 / 140737488355328) \<and>
   (7050948166601933 / 140737488355328 :: rat) - 6319113227154227 / 140737488355328 =
     365917469723853 / 70368744177664 \<and>
   (365917469723853 / 70368744177664 :: rat) \<noteq> of_int 5 + 2 / 10 \<and>
   (365917469723853 / 70368744177664 :: rat) \<noteq> double (5 + double (1 / 5)) \<and>
   fst (create_concatenated_audio demo_studio [Lit ''/tmp/d'', Lit ''/song1'', Lit ''.mp3'']
          [Lit ''/tmp/d'', Lit ''/song2'', Lit ''.mp3''] [Lit ''out.mp3''] [Lit ''pre.mp3'']
          10 5 (PyInt 0) (PyInt 0)) =
     Returned ([Lit ''out.mp3''], 5573204538870989 / 562949953421312,
               8500544296661811 / 562949953421312) \<and>
   (8500544296661811 / 562949953421312 :: rat) - 5573204538870989 / 562949953421312 =
     1463669878895411 / 281474976710656"
  by (simp add: demo_concatenated demo_concatenated_short demo_concatenated_negative
      boundary_values)

section \<open>Runs that stop at the key check\<close>

lemma rock_blocked:
  "rock_API_KEY w = sonauto_placeholder \<Longrightarrow>
   generate_rock_song w =
     (Returned None,
      [Print [Lit (warning_sign @
         ''  Please set your Sonauto API key in the .env file or environment variables'')]])"
  by (simp add: generate_rock_song_def and_then_def emit_def ret_def)

lemma telegram_blocked_sonauto:
  "SONAUTO_API_KEY w = sonauto_placeholder \<Longrightarrow>
   create_singing_telegram w r o' m s =
     (Returned False,
      [Print [Lit (warning_sign @
         ''  Please set your Sonauto API key in the .env file or environment variables'')]])"
  by (simp add: create_singing_telegram_def check_api_keys_def and_then_def emit_def ret_def)

lemma telegram_blocked_lemon:
  "SONAUTO_API_KEY w \<noteq> sonauto_placeholder \<Longrightarrow>
   LEMON_SLICE_API_KEY w = lemonslice_placeholder \<Longrightarrow>
   create_singing_telegram w r o' m s =
     (Returned False,
      [Print [Lit (warning_sign @
         ''  Please set your Lemon Slice API key in the .env file or environment variables'')]])"
  by (simp add: create_singing_telegram_def check_api_keys_def and_then_def emit_def ret_def)

lemma main_blocked:
  "truthy_str (transition_API_KEY w) = None \<Longrightarrow>
   main w st args =
     (Returned (),
      [Print [Lit (warning_sign @
         ''  Please set your Sonauto API key in the .env file or environment variables'')]])"
  by (simp add: main_def emit_def)

section \<open>Evaluation of the concrete runs\<close>

lemma answer_simps:
  "delivered (answer_json j) =
     Some \<lparr>status_code = 200, text_of = [], content = [], json_body = Some j, http_error = []\<rparr>"
  "delivered (answer_text s) =
     Some \<lparr>status_code = 200, text_of = s, content = [], json_body = None, http_error = []\<rparr>"
  "delivered (answer_bytes b) =
     Some \<lparr>status_code = 200, text_of = [], content = b, json_body = None, http_error = []\<rparr>"
  "py_strip (CHR 0x22) (quoted ''PENDING'') = ''PENDING''"
  "py_strip (CHR 0x22) (quoted ''FAILURE'') = ''FAILURE''"
  "py_strip (CHR 0x22) (quoted ''SUCCESS'') = ''SUCCESS''"
  by (simp_all add: delivered_def answer_json_def answer_text_def answer_bytes_def
      raises_for_status_def py_strip_def quoted_def)

lemma failing_world_simps:
  "getenv failing_world ''SONAUTO_API_KEY'' = Some ''sk-1''"
  "getenv failing_world ''LEMON_SLICE_API_KEY'' = Some ''ls-1''"
  "submit_answer failing_world = answer_json (JObj [(''task_id'', JStr ''t1'')])"
  "status_answers failing_world =
     [answer_text (quoted ''PENDING''), answer_text (quoted ''FAILURE'')]"
  "result_answer failing_world = answer_json (JObj [(''detail'', JStr ''x'')])"
  by (simp_all add: failing_world_def demo_world_def)

lemma failing_poll:
  "fst (poll_status api (JStr ''t1'') None (status_answers failing_world)) = Returned ''FAILURE''"
  if "\<And>m e p a. truthy (fst (api m e p a)) = delivered a"
    and "\<And>m e p a. length (requests_of (snd (api m e p a))) = 1"
    and "\<And>m e p a. sleeps_of (snd (api m e p a)) = []"
proof -
  have np: "\<not> pending_by api_status (answer_text (quoted ''FAILURE''))"
    by (simp add: pending_by_def api_status_def answer_simps terminal_def)
  have p: "list_all (pending_by api_status) [answer_text (quoted ''PENDING'')]"
    by (simp add: pending_by_def api_status_def answer_simps terminal_def)
  from poll_status_exit[of api, OF that p np, of "JStr ''t1''" None "[]"]
  show ?thesis
    by (auto simp: failing_world_simps api_status_def answer_simps)
qed

lemma rock_failing: "fst (generate_rock_song failing_world) = Returned None"
  using failing_poll[of "rock_api_request (rock_API_KEY failing_world)", OF rock_truthy
      rock_one_request rock_no_sleep]
  by (simp add: generate_rock_song_def rock_report_failure_def rock_poll_status_def fst_and_then
      failing_world_simps rock_API_KEY_def sonauto_placeholder_def rock_truthy answer_simps
      fst_lift)

lemma demo_studio_simps:
  "youtube demo_studio u = Inr (JObj [(''title'', JStr u)])"
  "from_file demo_studio p =
     (if p = [Lit ''/tmp/d'', Lit ''/song1'', Lit ''.mp3''] then Inr 60000 else Inr 50000)"
  "seg_len demo_studio n = n"
  "slice demo_studio n (PyInt i) (PyInt j) = Inr (nat (min j (int n) - max i 0))"
  "silent demo_studio d = Inr (nat d)"
  "plus demo_studio x y = Inr (x + y)"
  "can_export demo_studio p = True"
  "getsize demo_studio p = Inr 1000000"
  "read_base64 demo_studio p = Inr ''QUJD''"
  "temp_dir demo_studio = ''/tmp/d''"
  "now demo_studio = 1700000000"
  by (simp_all add: demo_studio_def)

lemma demo_args_simps:
  "url1 demo_args = ''u1''" "url2 demo_args = ''u2''" "song_duration demo_args = 45"
  "silence demo_args = 5" "trim_from_end demo_args = PyInt 0"
  "trim_to_start demo_args = PyInt 0"
  "output_name demo_args = None" "pre_inpaint_output demo_args = None"
  by (simp_all add: demo_args_def)

lemma demo_downloads:
  "fst (download_youtube_audio demo_studio u p) = Returned (p @ [Lit ''.mp3''], JStr u)"
  by (simp add: download_youtube_audio_def fst_and_then demo_studio_simps)

lemma demo_reduce: "fst (reduce_if_large demo_studio p) = Returned (Some p)"
  by (simp add: reduce_if_large_def fst_and_then fst_lift demo_studio_simps true_div_def
      out_of_range_def double_size)

lemma transition_failing: "fst (create_transition failing_world demo_studio p s e) = Returned None"
  using failing_poll[of "transition_api_request (transition_API_KEY failing_world)",
      OF trans_truthy trans_one_request trans_no_sleep]
  by (simp add: create_transition_def transition_report_failure_def transition_poll_status_def
      fst_and_then failing_world_simps trans_truthy answer_simps fst_lift demo_reduce
      encode_audio_base64_def demo_studio_simps)

lemma main_failing: "fst (main failing_world demo_studio demo_args) = Returned ()"
  by (simp add: main_def fst_and_then demo_downloads demo_concatenated transition_failing
      demo_studio_simps demo_args_simps transition_API_KEY_def failing_world_simps
      truthy_str_def Let_def)

lemma telegram_failing:
  "fst (create_singing_telegram failing_world r o' m s) = Returned False"
proof -
  have p: "list_all (pending_by plain_status) [answer_text (quoted ''PENDING'')]"
    by (simp add: pending_by_def plain_status_def answer_text_def quoted_def py_strip_def
        terminal_def)
  have f: "plain_status (answer_text (quoted ''FAILURE'')) = Some ''FAILURE''"
    by (simp add: plain_status_def answer_text_def quoted_def py_strip_def)
  have poll: "fst (song_poll h (result_answer failing_world) (JStr ''t1'') None
                     (status_answers failing_world)) = Returned Return_None" for h
    by (simp add: failing_world_simps answer_text_def answer_json_def quoted_def py_strip_def
        fst_and_then Let_def)
  have song: "fst (generate_custom_song failing_world r o' m s) = Returned None"
    using poll
    by (simp add: generate_custom_song_def fst_and_then fst_try_except Let_def
        failing_world_simps answer_json_def raise_for_status_def raises_for_status_def)
  show ?thesis
    using song
    by (simp add: create_singing_telegram_def check_api_keys_def fst_and_then
        SONAUTO_API_KEY_def LEMON_SLICE_API_KEY_def failing_world_simps
        sonauto_placeholder_def lemonslice_placeholder_def)
qed

lemma requests_of_more [simp]:
  "requests_of (YoutubeDL u p # t) = requests_of t"
  "requests_of (Export p # t) = requests_of t"
  "requests_of (ExportReduced p # t) = requests_of t"
  "requests_of (Rename p n # t) = requests_of t"
  by (simp_all add: requests_of_def)

lemma snd_export_to [simp]: "snd (export_to st p) = (if can_export st p then [Export p] else [])"
  by (simp add: export_to_def emit_def)

lemma placeholder_world_simps:
  "getenv placeholder_world ''SONAUTO_API_KEY'' = Some ''your_sonauto_api_key''"
  "submit_answer placeholder_world =
     Resp \<lparr>status_code = 401, text_of = [], content = [], json_body = None,
           http_error = ''401 Client Error: Unauthorized''\<rparr>"
  by (simp_all add: placeholder_world_def demo_world_def sonauto_placeholder_def)

lemma demo_downloads_requests:
  "requests_of (snd (download_youtube_audio demo_studio u p)) = []"
  by (simp add: download_youtube_audio_def fst_and_then snd_and_then demo_studio_simps)

lemma demo_concat_requests:
  "requests_of (snd (create_concatenated_audio demo_studio
          [Lit ''/tmp/d'', Lit ''/song1'', Lit ''.mp3'']
          [Lit ''/tmp/d'', Lit ''/song2'', Lit ''.mp3''] out comb 45 5 (PyInt 0) (PyInt 0))) = []"
  by (simp add: create_concatenated_audio_def fst_and_then snd_and_then fst_lift fst_export_to
      Let_def demo_studio_simps times_1000_def int_minus_def true_div_def out_of_range_def
      double_45 double_50)

lemma demo_reduce_trace: "snd (reduce_if_large demo_studio p) = []"
  by (simp add: reduce_if_large_def fst_and_then snd_and_then fst_lift demo_studio_simps
      true_div_def out_of_range_def double_size)

lemma placeholder_transition_requests:
  "requests_of (snd (create_transition placeholder_world demo_studio p (6319113227154227 / 140737488355328)
                 (7050948166601933 / 140737488355328))) =
     [Request ''POST''
        [Lit ''https://api.sonauto.ai/v1'', Lit ''/'', Lit ''generations/inpaint'']
        (Some (JObj [(''audio_base64'', JStr ''QUJD''),
                     (''sections'', JArr [JArr [JFloat (6319113227154227 / 140737488355328),
                                               JFloat (7050948166601933 / 140737488355328)]]),
                     (''lyrics'', JStr []),
                     (''tags'', JArr []),
                     (''selection_crop'', JBool False)]))
        [(''Authorization'', [Lit ''Bearer '', Val (JStr ''your_sonauto_api_key'')]),
         (''Content-Type'', [Lit ''application/json''])]]"
  by (simp add: create_transition_def fst_and_then snd_and_then demo_reduce demo_reduce_trace
      encode_audio_base64_def demo_studio_simps fst_lift transition_api_request_def
      placeholder_world_simps transition_API_KEY_def raises_for_status_def Let_def
      describe_response_def truthy_def base_url_def api_headers_def str_or_none_def)

lemma placeholder_transition_fst:
  "fst (create_transition placeholder_world demo_studio p s e) = Returned None"
  by (simp add: create_transition_def fst_and_then demo_reduce
      encode_audio_base64_def demo_studio_simps fst_lift transition_api_request_def
      placeholder_world_simps transition_API_KEY_def raises_for_status_def Let_def truthy_def)

section \<open>The key check\<close>

lemma rock_key_cases:
  "getenv w ''SONAUTO_API_KEY'' = None \<or> getenv w ''SONAUTO_API_KEY'' = Some sonauto_placeholder
   \<Longrightarrow> rock_API_KEY w = sonauto_placeholder"
  by (auto simp: rock_API_KEY_def)

lemma telegram_key_cases:
  "getenv w ''SONAUTO_API_KEY'' = None \<or> getenv w ''SONAUTO_API_KEY'' = Some sonauto_placeholder
   \<Longrightarrow> SONAUTO_API_KEY w = sonauto_placeholder"
  "getenv w ''LEMON_SLICE_API_KEY'' = None \<or>
   getenv w ''LEMON_SLICE_API_KEY'' = Some lemonslice_placeholder
   \<Longrightarrow> LEMON_SLICE_API_KEY w = lemonslice_placeholder"
  by (auto simp: SONAUTO_API_KEY_def LEMON_SLICE_API_KEY_def)

text \<open>
  Claim C7, as amended. rock_song_generator.py and singing_telegram.py print a diagnostic
  and stop, before any HTTP request, when a key they read is absent from the environment
  or equals its placeholder (\<open>your_sonauto_api_key\<close>, \<open>your_lemonslice_api_key\<close>): the
  trace of the run is the one printed line. transition_generator.py prints the diagnostic
  and stops, before any download or request, when \<open>SONAUTO_API_KEY\<close> is absent or empty;
  it compares the key with no placeholder.
\<close>

theorem missing_key_blocks_requests:
  "(getenv w ''SONAUTO_API_KEY'' = None \<or>
    getenv w ''SONAUTO_API_KEY'' = Some sonauto_placeholder \<longrightarrow>
      generate_rock_song w =
        (Returned None,
         [Print [Lit (warning_sign @
            ''  Please set your Sonauto API key in the .env file or environment variables'')]]) \<and>
      create_singing_telegram w recipient_name occasion_name message_text style_name =
        (Returned False,
         [Print [Lit (warning_sign @
            ''  Please set your Sonauto API key in the .env file or environment variables'')]])) \<and>
   (SONAUTO_API_KEY w \<noteq> sonauto_placeholder \<longrightarrow>
    getenv w ''LEMON_SLICE_API_KEY'' = None \<or>
    getenv w ''LEMON_SLICE_API_KEY'' = Some lemonslice_placeholder \<longrightarrow>
      create_singing_telegram w recipient_name occasion_name message_text style_name =
        (Returned False,
         [Print [Lit (warning_sign @
            ''  Please set your Lemon Slice API key in the .env file or environment variables'')]])) \<and>
   (getenv w ''SONAUTO_API_KEY'' = None \<or> getenv w ''SONAUTO_API_KEY'' = Some [] \<longrightarrow>
      main w st args =
        (Returned (),
         [Print [Lit (warning_sign @
            ''  Please set your Sonauto API key in the .env file or environment variables'')]]))"
proof (intro conjI impI)
  assume k: "getenv w ''SONAUTO_API_KEY'' = None \<or>
             getenv w ''SONAUTO_API_KEY'' = Some sonauto_placeholder"
  show "generate_rock_song w =
        (Returned None,
         [Print [Lit (warning_sign @
            ''  Please set your Sonauto API key in the .env file or environment variables'')]])"
    using rock_key_cases[OF k]
    by (simp add: generate_rock_song_def and_then_def emit_def ret_def)
  show "create_singing_telegram w recipient_name occasion_name message_text style_name =
        (Returned False,
         [Print [Lit (warning_sign @
            ''  Please set your Sonauto API key in the .env file or environment variables'')]])"
    using telegram_key_cases(1)[OF k]
    by (simp add: create_singing_telegram_def check_api_keys_def and_then_def emit_def ret_def)
next
  assume s: "SONAUTO_API_KEY w \<noteq> sonauto_placeholder"
    and l: "getenv w ''LEMON_SLICE_API_KEY'' = None \<or>
            getenv w ''LEMON_SLICE_API_KEY'' = Some lemonslice_placeholder"
  show "create_singing_telegram w recipient_name occasion_name message_text style_name =
        (Returned False,
         [Print [Lit (warning_sign @
            ''  Please set your Lemon Slice API key in the .env file or environment variables'')]])"
    using telegram_key_cases(2)[OF l] s
    by (simp add: create_singing_telegram_def check_api_keys_def and_then_def emit_def ret_def)
next
  assume "getenv w ''SONAUTO_API_KEY'' = None \<or> getenv w ''SONAUTO_API_KEY'' = Some []"
  then have "truthy_str (transition_API_KEY w) = None"
    by (auto simp: truthy_str_def transition_API_KEY_def)
  then show "main w st args =
        (Returned (),
         [Print [Lit (warning_sign @
            ''  Please set your Sonauto API key in the .env file or environment variables'')]])"
    by (simp add: main_def emit_def)
qed

text \<open>With nothing in the environment, the runs end after the diagnostic.\<close>

theorem missing_key_blocks_requests_witness:
  "generate_rock_song keyless_world =
     (Returned None,
      [Print [Lit (warning_sign @
         ''  Please set your Sonauto API key in the .env file or environment variables'')]]) \<and>
   main keyless_world demo_studio demo_args =
     (Returned (),
      [Print [Lit (warning_sign @
         ''  Please set your Sonauto API key in the .env file or environment variables'')]]) \<and>
   requests_of (snd (main keyless_world demo_studio demo_args)) = []"
proof -
  have k: "getenv keyless_world ''SONAUTO_API_KEY'' = None"
    by (simp add: keyless_world_def)
  from missing_key_blocks_requests[of keyless_world r o' m s demo_studio demo_args] k
  show ?thesis by simp
qed

text \<open>
  Claim C7 as stated fails for transition_generator.py when \<open>SONAUTO_API_KEY\<close> holds the
  placeholder \<open>your_sonauto_api_key\<close> that the two other scripts reject: \<open>not API_KEY\<close> is
  false, the script goes on and sends the inpainting request with that key.
\<close>

theorem transition_runs_with_placeholder_key:
  "getenv placeholder_world ''SONAUTO_API_KEY'' = Some sonauto_placeholder \<and>
   requests_of (snd (main placeholder_world demo_studio demo_args)) =
     [Request ''POST''
        [Lit ''https://api.sonauto.ai/v1'', Lit ''/'', Lit ''generations/inpaint'']
        (Some (JObj [(''audio_base64'', JStr ''QUJD''),
                     (''sections'', JArr [JArr [JFloat (6319113227154227 / 140737488355328),
                                               JFloat (7050948166601933 / 140737488355328)]]),
                     (''lyrics'', JStr []),
                     (''tags'', JArr []),
                     (''selection_crop'', JBool False)]))
        [(''Authorization'', [Lit ''Bearer '', Val (JStr ''your_sonauto_api_key'')]),
         (''Content-Type'', [Lit ''application/json''])]]"
  by (simp add: main_def fst_and_then snd_and_then demo_downloads demo_concatenated
      demo_downloads_requests demo_concat_requests placeholder_transition_requests
      placeholder_transition_fst demo_studio_simps demo_args_simps transition_API_KEY_def
      placeholder_world_simps truthy_str_def Let_def sonauto_placeholder_def)

section \<open>The exit status\<close>

text \<open>
  Claim C8 at the inputs where transition_generator.py breaks it. With no key in the
  environment (a configuration error) and with a job that ends in \<open>"FAILURE"\<close> (a remote
  failure), \<open>main\<close> prints its diagnostic and returns, so the process ends with status 0;
  on the same inputs rock_song_generator.py and singing_telegram.py call \<open>sys.exit(1)\<close>.
\<close>

theorem transition_exit_status_on_failure:
  "transition_main keyless_world demo_studio demo_args =
     (Exit 0,
      [Print [Lit (warning_sign @
         ''  Please set your Sonauto API key in the .env file or environment variables'')]]) \<and>
   rock_main keyless_world =
     (Exit 1,
      [Print [Lit (warning_sign @
         ''  Please set your Sonauto API key in the .env file or environment variables'')]]) \<and>
   fst (telegram_main keyless_world demo_telegram_args) = Exit 1 \<and>
   fst (transition_main failing_world demo_studio demo_args) = Exit 0 \<and>
   fst (rock_main failing_world) = Exit 1 \<and>
   fst (telegram_main failing_world demo_telegram_args) = Exit 1"
proof (intro conjI)
  have k: "truthy_str (transition_API_KEY keyless_world) = None"
    by (simp add: truthy_str_def transition_API_KEY_def keyless_world_def)
  show "transition_main keyless_world demo_studio demo_args =
     (Exit 0,
      [Print [Lit (warning_sign @
         ''  Please set your Sonauto API key in the .env file or environment variables'')]])"
    by (simp add: transition_main_def main_blocked[OF k])
  have r: "rock_API_KEY keyless_world = sonauto_placeholder"
    by (simp add: rock_API_KEY_def keyless_world_def)
  show "rock_main keyless_world =
     (Exit 1,
      [Print [Lit (warning_sign @
         ''  Please set your Sonauto API key in the .env file or environment variables'')]])"
    by (simp add: rock_main_def rock_blocked[OF r])
  have t: "SONAUTO_API_KEY keyless_world = sonauto_placeholder"
    by (simp add: SONAUTO_API_KEY_def keyless_world_def)
  show "fst (telegram_main keyless_world demo_telegram_args) = Exit 1"
    by (simp add: telegram_main_def telegram_blocked_sonauto[OF t])
  show "fst (transition_main failing_world demo_studio demo_args) = Exit 0"
    using main_failing
    by (cases "main failing_world demo_studio demo_args") (simp add: transition_main_def)
  show "fst (rock_main failing_world) = Exit 1"
    using rock_failing
    by (cases "generate_rock_song failing_world") (simp add: rock_main_def)
  show "fst (telegram_main failing_world demo_telegram_args) = Exit 1"
    using telegram_failing[of "recipient demo_telegram_args" "occasion demo_telegram_args"
        "message demo_telegram_args" "style demo_telegram_args"]
    by (cases "create_singing_telegram failing_world (recipient demo_telegram_args)
                 (occasion demo_telegram_args) (message demo_telegram_args)
                 (style demo_telegram_args)")
       (simp add: telegram_main_def)
qed

section \<open>The failure diagnostic\<close>

lemma ends_with_append: "ys = t @ [e] \<Longrightarrow> \<exists>t'. xs @ ys = t' @ [e]"
  by (rule exI[of _ "xs @ t"]) simp

lemma delivered_Resp: "\<not> raises_for_status r \<Longrightarrow> delivered (Resp r) = Some r"
  by (simp add: delivered_def)

lemma rock_report_failure_placeholder:
  assumes "result_answer w = Resp r" and "\<not> raises_for_status r"
    and "json_body r = Some (JObj kv)" and "map_of kv ''error_message'' = None"
  shows "rock_report_failure w tid =
           (Returned None,
            snd (rock_api_request (rock_API_KEY w) ''GET'' [Lit ''generations/'', Val tid] None
                   (result_answer w)) @
            [Print [Lit (cross_mark @ '' Generation failed: ''),
                    Val (JStr rock_error_placeholder)]])"
  using assms
  by (intro prod_eqI)
     (simp_all add: rock_report_failure_def fst_and_then snd_and_then rock_truthy delivered_Resp)

lemma song_poll_failure:
  assumes "json_body r = Some (JObj kv)" and "map_of kv ''error_message'' = None"
    and "list_all (pending_by plain_status) pre" and "plain_status a = Some ''FAILURE''"
  shows "fst (song_poll h (Resp r) tid prev (pre @ a # rest)) = Returned Return_None \<and>
         (\<exists>t. snd (song_poll h (Resp r) tid prev (pre @ a # rest)) =
                t @ [Print [Lit (cross_mark @ '' Song generation failed: ''),
                            Val (JStr telegram_error_placeholder)]])"
  using assms(3)
proof (induction pre arbitrary: prev)
  case Nil
  from assms(4) obtain ra where a: "a = Resp ra"
    and s: "py_strip (CHR 0x22) (text_of ra) = ''FAILURE''"
    by (cases a) (auto simp: plain_status_def)
  show ?case using assms(1,2) s
    by (simp add: a fst_and_then snd_and_then Let_def)
next
  case (Cons b pre)
  from Cons.prems have pb: "pending_by plain_status b"
    and rest: "list_all (pending_by plain_status) pre" by simp_all
  from pb obtain rb where b: "b = Resp rb"
    and nt: "\<not> terminal (py_strip (CHR 0x22) (text_of rb))"
    by (cases b) (auto simp: pending_by_def plain_status_def)
  from nt have ns: "py_strip (CHR 0x22) (text_of rb) \<noteq> ''SUCCESS''"
    and nf: "py_strip (CHR 0x22) (text_of rb) \<noteq> ''FAILURE''"
    by (simp_all add: terminal_def)
  define prev' where "prev' = (if Some (py_strip (CHR 0x22) (text_of rb)) \<noteq> prev
                               then Some (py_strip (CHR 0x22) (text_of rb)) else prev)"
  from Cons.IH[OF rest, of prev'] obtain t where
    f: "fst (song_poll h (Resp r) tid prev' (pre @ a # rest)) = Returned Return_None"
    and t: "snd (song_poll h (Resp r) tid prev' (pre @ a # rest)) =
              t @ [Print [Lit (cross_mark @ '' Song generation failed: ''),
                          Val (JStr telegram_error_placeholder)]]"
    by blast
  have u: "snd (song_poll h (Resp r) tid prev ((b # pre) @ a # rest)) =
             ([Request ''GET'' [Lit SONAUTO_BASE_URL, Lit ''/generations/status/'', Val tid]
                 None h] @
              (if Some (py_strip (CHR 0x22) (text_of rb)) \<noteq> prev
               then [Print [Lit ''Song status: '', Val (JStr (py_strip (CHR 0x22) (text_of rb)))]]
               else []) @ [Sleep 5]) @
             snd (song_poll h (Resp r) tid prev' (pre @ a # rest))"
    using ns nf by (simp add: b fst_and_then snd_and_then Let_def prev'_def)
  have "fst (song_poll h (Resp r) tid prev ((b # pre) @ a # rest)) = Returned Return_None"
    using ns nf f by (auto simp: b fst_and_then Let_def prev'_def split: if_splits)
  moreover have "\<exists>t. snd (song_poll h (Resp r) tid prev ((b # pre) @ a # rest)) =
                t @ [Print [Lit (cross_mark @ '' Song generation failed: ''),
                            Val (JStr telegram_error_placeholder)]]"
    unfolding u using t by (rule ends_with_append)
  ultimately show ?case by blast
qed

text \<open>
  Claim C5. When the job has ended in \<open>"FAILURE"\<close> and the result that the script then
  fetches is a JSON object without the key \<open>error_message\<close>, the run ends with the failure
  diagnostic that carries the placeholder of the script: \<open>generate_rock_song\<close> returns
  \<open>None\<close> after printing \<open>Generation failed: No detailed error message available\<close>, and
  \<open>generate_custom_song\<close> returns \<open>None\<close> after printing
  \<open>Song generation failed: Unknown error\<close>. The functions return, so no exception is
  raised, and the value printed is the placeholder, not \<open>None\<close>. In rock_song_generator.py
  the result is fetched through \<open>api_request\<close>, which hands over a response only if its
  code is outside 400 to 599.
\<close>

theorem failure_diagnostic_placeholder:
  assumes "submit_answer w = Resp r0" and "\<not> raises_for_status r0"
    and "json_body r0 = Some body" and "py_get body ''task_id'' JNull = Inr tid"
    and "result_answer w = Resp r" and "json_body r = Some (JObj kv)"
    and "map_of kv ''error_message'' = None"
  shows "(rock_API_KEY w \<noteq> sonauto_placeholder \<longrightarrow> \<not> raises_for_status r \<longrightarrow>
          fst (rock_poll_status w tid) = Returned ''FAILURE'' \<longrightarrow>
            fst (generate_rock_song w) = Returned None \<and>
            (\<exists>t. snd (generate_rock_song w) =
                   t @ [Print [Lit (cross_mark @ '' Generation failed: ''),
                               Val (JStr rock_error_placeholder)]])) \<and>
         (status_answers w = pre @ a # rest \<longrightarrow> list_all (pending_by plain_status) pre \<longrightarrow>
          plain_status a = Some ''FAILURE'' \<longrightarrow>
            fst (generate_custom_song w recipient_name occ msg sty) = Returned None \<and>
            (\<exists>t. snd (generate_custom_song w recipient_name occ msg sty) =
                   t @ [Print [Lit (cross_mark @ '' Song generation failed: ''),
                               Val (JStr telegram_error_placeholder)]]))"
proof (intro conjI impI)
  assume k: "rock_API_KEY w \<noteq> sonauto_placeholder" and nr: "\<not> raises_for_status r"
    and p: "fst (rock_poll_status w tid) = Returned ''FAILURE''"
  have d0: "delivered (submit_answer w) = Some r0" using assms(1,2) by (simp add: delivered_Resp)
  note rf = rock_report_failure_placeholder[OF assms(5) nr assms(6,7), of tid]
  show "fst (generate_rock_song w) = Returned None"
    using k d0 assms(3,4) p
    by (simp add: generate_rock_song_def fst_and_then rock_truthy rf)
  have "snd (generate_rock_song w) =
          (snd (rock_api_request (rock_API_KEY w) ''POST'' [Lit ''generations'']
                  (Some (JObj [(''prompt'',
                                 JStr ''An upbeat rock song about how awesome programming is''),
                               (''num_songs'', JInt 1)])) (submit_answer w)) @
           [Print [Lit ''Generation started with task ID: '', Val tid]] @
           snd (rock_poll_status w tid) @
           snd (rock_api_request (rock_API_KEY w) ''GET'' [Lit ''generations/'', Val tid] None
                  (result_answer w))) @
          [Print [Lit (cross_mark @ '' Generation failed: ''),
                  Val (JStr rock_error_placeholder)]]"
    using k d0 assms(3,4) p
    by (simp add: generate_rock_song_def fst_and_then snd_and_then rock_truthy rf)
  then show "\<exists>t. snd (generate_rock_song w) =
                t @ [Print [Lit (cross_mark @ '' Generation failed: ''),
                            Val (JStr rock_error_placeholder)]]"
    by blast
next
  assume sa: "status_answers w = pre @ a # rest"
    and pp: "list_all (pending_by plain_status) pre"
    and f: "plain_status a = Some ''FAILURE''"
  from song_poll_failure[OF assms(6,7) pp f, of "api_headers (JStr (SONAUTO_API_KEY w))" tid
      None rest]
  obtain t where
    pf: "fst (song_poll (api_headers (JStr (SONAUTO_API_KEY w))) (Resp r) tid None
                (pre @ a # rest)) = Returned Return_None"
    and pt: "snd (song_poll (api_headers (JStr (SONAUTO_API_KEY w))) (Resp r) tid None
                (pre @ a # rest)) =
               t @ [Print [Lit (cross_mark @ '' Song generation failed: ''),
                           Val (JStr telegram_error_placeholder)]]"
    by blast
  show "fst (generate_custom_song w recipient_name occ msg sty) = Returned None"
    using assms(1-5) sa pf
    by (simp add: generate_custom_song_def fst_and_then fst_try_except Let_def
        raise_for_status_def)
  have "snd (generate_custom_song w recipient_name occ msg sty) =
          ([Print [Lit (note_sign @ '' Generating custom song...'')],
            Request ''POST'' [Lit SONAUTO_BASE_URL, Lit ''/generations'']
              (Some (JObj [(''prompt'', JStr (''A '' @ sty @ '' song for '' @ recipient_name @
                              [CHR 0x27] @ ''s '' @ occ @ ''. The song should mention that '' @
                              msg)),
                           (''num_songs'', JInt 1)]))
              (api_headers (JStr (SONAUTO_API_KEY w))),
            Print [Lit ''Song generation started with task ID: '', Val tid]] @ t) @
          [Print [Lit (cross_mark @ '' Song generation failed: ''),
                  Val (JStr telegram_error_placeholder)]]"
    using assms(1-5) sa pf pt
    by (simp add: generate_custom_song_def fst_and_then snd_and_then fst_try_except
        snd_try_except Let_def raise_for_status_def)
  then show "\<exists>t. snd (generate_custom_song w recipient_name occ msg sty) =
                t @ [Print [Lit (cross_mark @ '' Song generation failed: ''),
                            Val (JStr telegram_error_placeholder)]]"
    by blast
qed


text \<open>
  In \<open>failing_world\<close> the job is pending once and then reads \<open>"FAILURE"\<close>, and the result
  body is \<open>{"detail": "x"}\<close>.
\<close>

theorem failure_diagnostic_placeholder_witness:
  "fst (generate_rock_song failing_world) = Returned None \<and>
   (\<exists>t. snd (generate_rock_song failing_world) =
          t @ [Print [Lit (cross_mark @ '' Generation failed: ''),
                      Val (JStr ''No detailed error message available'')]]) \<and>
   fst (generate_custom_song failing_world ''Sarah'' ''birthday'' ''she is turning 30'' ''pop'') =
     Returned None \<and>
   (\<exists>t. snd (generate_custom_song failing_world ''Sarah'' ''birthday'' ''she is turning 30''
                 ''pop'') =
          t @ [Print [Lit (cross_mark @ '' Song generation failed: ''),
                      Val (JStr ''Unknown error'')]])"
proof -
  define r0 where "r0 = \<lparr>status_code = 200, text_of = [], content = [],
                          json_body = Some (JObj [(''task_id'', JStr ''t1'')]),
                          http_error = []\<rparr>"
  define r where "r = \<lparr>status_code = 200, text_of = [], content = [],
                         json_body = Some (JObj [(''detail'', JStr ''x'')]),
                         http_error = []\<rparr>"
  have s: "submit_answer failing_world = Resp r0"
    by (simp add: failing_world_simps answer_json_def r0_def)
  have nr0: "\<not> raises_for_status r0" by (simp add: raises_for_status_def r0_def)
  have j0: "json_body r0 = Some (JObj [(''task_id'', JStr ''t1'')])" by (simp add: r0_def)
  have g: "py_get (JObj [(''task_id'', JStr ''t1'')]) ''task_id'' JNull = Inr (JStr ''t1'')"
    by simp
  have ra: "result_answer failing_world = Resp r"
    by (simp add: failing_world_simps answer_json_def r_def)
  have j: "json_body r = Some (JObj [(''detail'', JStr ''x'')])" by (simp add: r_def)
  have m: "map_of [(''detail'', JStr ''x'')] ''error_message'' = None" by simp
  have k: "rock_API_KEY failing_world \<noteq> sonauto_placeholder"
    by (simp add: rock_API_KEY_def failing_world_simps sonauto_placeholder_def)
  have nr: "\<not> raises_for_status r" by (simp add: raises_for_status_def r_def)
  have p: "fst (rock_poll_status failing_world (JStr ''t1'')) = Returned ''FAILURE''"
    using failing_poll[of "rock_api_request (rock_API_KEY failing_world)", OF rock_truthy
        rock_one_request rock_no_sleep]
    by (simp add: rock_poll_status_def)
  have sa: "status_answers failing_world =
              [answer_text (quoted ''PENDING'')] @ answer_text (quoted ''FAILURE'') # []"
    by (simp add: failing_world_simps)
  have pp: "list_all (pending_by plain_status) [answer_text (quoted ''PENDING'')]"
    by (simp add: pending_by_def plain_status_def answer_text_def quoted_def py_strip_def
        terminal_def)
  have f: "plain_status (answer_text (quoted ''FAILURE'')) = Some ''FAILURE''"
    by (simp add: plain_status_def answer_text_def quoted_def py_strip_def)
  from failure_diagnostic_placeholder[OF s nr0 j0 g ra j m,
      where pre = "[answer_text (quoted ''PENDING'')]" and a = "answer_text (quoted ''FAILURE'')"
        and rest = "[]" and recipient_name = "''Sarah''" and occ = "''birthday''"
        and msg = "''she is turning 30''" and sty = "''pop''"]
    k nr p sa pp f
  show ?thesis
    by (simp add: rock_error_placeholder_def telegram_error_placeholder_def)
qed

section \<open>The file that is saved\<close>

lemma file_events_append [simp]: "file_events (xs @ ys) = file_events xs @ file_events ys"
  by (simp add: file_events_def)

lemma file_events_simps [simp]:
  "file_events [] = []"
  "file_events (OpenWB f # t) = OpenWB f # file_events t"
  "file_events (WriteB f b # t) = WriteB f b # file_events t"
  "file_events (Print l # t) = file_events t"
  "file_events (Request m u p h # t) = file_events t"
  "file_events (Sleep n # t) = file_events t"
  "file_events (YoutubeDL y o' # t) = file_events t"
  "file_events (Export f # t) = file_events t"
  "file_events (ExportReduced f # t) = file_events t"
  "file_events (Rename f g # t) = file_events t"
  by (simp_all add: file_events_def)

lemma files_after_file_events: "files_after t fs = files_after (file_events t) fs"
  by (induction t fs rule: files_after.induct) (simp_all add: fun_upd_def)

lemma rock_no_files: "file_events (snd (rock_api_request key m e p a)) = []"
  by (simp add: rock_api_request_def Let_def split: http_result.splits)

lemma describe_no_files: "file_events (describe_response r) = []"
  by (simp add: describe_response_def)

lemma trans_no_files: "file_events (snd (transition_api_request key m e p a)) = []"
  by (simp add: transition_api_request_def Let_def describe_no_files
      split: http_result.splits option.splits)

lemma poll_status_no_files:
  assumes "\<And>m e p a. file_events (snd (api m e p a)) = []"
  shows "file_events (snd (poll_status api tid prev rs)) = []"
proof (induction rs arbitrary: prev)
  case Nil
  then show ?case by simp
next
  case (Cons a rs)
  obtain response t1 where
    ap: "api ''GET'' [Lit ''generations/status/'', Val tid] None a = (response, t1)"
    by (cases "api ''GET'' [Lit ''generations/status/'', Val tid] None a")
  have l1: "file_events t1 = []"
    using assms[of "''GET''" "[Lit ''generations/status/'', Val tid]" None a] ap by simp
  show ?case
  proof (cases "truthy response")
    case None
    then show ?thesis using ap l1 by simp
  next
    case (Some rsp)
    define s where "s = py_strip (CHR 0x22) (text_of rsp)"
    define prev' where "prev' = (if Some s \<noteq> prev then Some s else prev)"
    obtain res t3 where rec: "poll_status api tid prev' rs = (res, t3)"
      by (cases "poll_status api tid prev' rs")
    have l3: "file_events t3 = []" using Cons.IH[of prev'] rec by simp
    show ?thesis
      using ap l1 Some rec l3
      by (simp add: Let_def s_def[symmetric] prev'_def[symmetric])
  qed
qed

lemma song_failure_branch_no_files:
  "file_events
     (snd (and_then (http m u p h ea) (\<lambda>error_resp.
           and_then (resp_json error_resp) (\<lambda>error_data.
           and_then (lift (py_get error_data ''error_message'' d)) (\<lambda>error_message.
           and_then (emit (Print [Lit (cross_mark @ '' Song generation failed: ''),
                                  Val error_message])) (\<lambda>_.
           ret Return_None)))))) = []"
  by (cases ea)
     (auto simp: snd_and_then fst_and_then resp_json_def ret_def lift_def
           split: result.splits option.splits sum.splits)

lemma song_poll_no_files: "file_events (snd (song_poll h ea tid prev rs)) = []"
proof (induction rs arbitrary: prev)
  case Nil
  then show ?case by simp
next
  case (Cons a rs)
  show ?case
  proof (cases a)
    case (Raises msg ro)
    then show ?thesis by (simp add: snd_and_then fst_and_then)
  next
    case (Resp r)
    then show ?thesis
      using Cons.IH song_failure_branch_no_files
      by (auto simp: snd_and_then fst_and_then Let_def)
  qed
qed

lemma display_results_no_files: "file_events (snd (display_results j)) = []"
  by (auto simp: display_results_def snd_and_then fst_and_then lift_def
      split: result.splits sum.splits)

lemma reduce_no_files: "file_events (snd (reduce_if_large st p)) = []"
  by (auto simp: reduce_if_large_def snd_and_then fst_and_then lift_def Let_def
      split: result.splits sum.splits if_splits)

lemma rock_save_song_files:
  assumes "cdn w url = Resp d"
  shows "file_events (snd (rock_save_song w tid url)) =
           (if \<not> raises_for_status d \<and> can_open w [Lit ''rock_song_'', Val tid, Lit ''.ogg'']
            then [OpenWB [Lit ''rock_song_'', Val tid, Lit ''.ogg''],
                  WriteB [Lit ''rock_song_'', Val tid, Lit ''.ogg''] (content d)]
            else [])"
  using assms
  by (simp add: rock_save_song_def Let_def snd_try_except fst_try_except snd_and_then
      fst_and_then raise_for_status_def open_wb_def)

lemma transition_save_files:
  assumes "cdn w url = Resp d"
  shows "file_events (snd (transition_save w tid url)) =
           (if \<not> raises_for_status d \<and> can_open w [Lit ''transition_'', Val tid, Lit ''.ogg'']
            then [OpenWB [Lit ''transition_'', Val tid, Lit ''.ogg''],
                  WriteB [Lit ''transition_'', Val tid, Lit ''.ogg''] (content d)]
            else [])"
  using assms
  by (simp add: transition_save_def Let_def snd_try_except fst_try_except snd_and_then
      fst_and_then raise_for_status_def open_wb_def)

text \<open>
  Claim C3. Take a run in which the submission was accepted with a task id, the result
  that is fetched is a JSON object whose \<open>song_paths\<close> begins with the URL \<open>url\<close>, and the
  CDN answers the request for \<open>url\<close> with the response \<open>d\<close>. When polling has ended in
  \<open>"SUCCESS"\<close>, the only change that the run makes to the files is that the output file of
  the script holds exactly \<open>content d\<close>, the bytes fetched from the first URL:
  \<open>rock_song_<task_id>.ogg\<close>, \<open>telegram_song_<task_id>.ogg\<close> or
  \<open>transition_<task_id>.ogg\<close>. The file is written when it can be opened and, in
  rock_song_generator.py and transition_generator.py, when the download has no error
  status (and \<open>display_results\<close> has returned); otherwise no file is touched.
\<close>

theorem saved_bytes_are_fetched_bytes:
  assumes "submit_answer w = Resp r0" and "\<not> raises_for_status r0"
    and "json_body r0 = Some body" and "py_get body ''task_id'' JNull = Inr tid"
    and "result_answer w = Resp r" and "\<not> raises_for_status r"
    and "json_body r = Some (JObj kv)"
    and "map_of kv ''song_paths'' = Some (JArr (url # urls))"
    and "cdn w url = Resp d"
  shows "(rock_API_KEY w \<noteq> sonauto_placeholder \<longrightarrow>
          fst (rock_poll_status w tid) = Returned ''SUCCESS'' \<longrightarrow>
            files_after (snd (generate_rock_song w)) fs =
              (if fst (display_results (JObj kv)) = Returned () \<and> \<not> raises_for_status d \<and>
                  can_open w [Lit ''rock_song_'', Val tid, Lit ''.ogg'']
               then fs([Lit ''rock_song_'', Val tid, Lit ''.ogg''] \<mapsto> content d)
               else fs)) \<and>
         (fst (song_poll (api_headers (JStr (SONAUTO_API_KEY w))) (result_answer w) tid None
                 (status_answers w)) = Returned Break \<longrightarrow>
            files_after (snd (generate_custom_song w recipient_name occ msg sty)) fs =
              (if can_open w [Lit ''telegram_song_'', Val tid, Lit ''.ogg'']
               then fs([Lit ''telegram_song_'', Val tid, Lit ''.ogg''] \<mapsto> content d)
               else fs)) \<and>
         (fst (reduce_if_large st audio_path) = Returned (Some reduced) \<longrightarrow>
          read_base64 st reduced = Inr b64 \<longrightarrow>
          fst (transition_poll_status w tid) = Returned ''SUCCESS'' \<longrightarrow>
            files_after (snd (create_transition w st audio_path section_start section_end)) fs =
              (if \<not> raises_for_status d \<and>
                  can_open w [Lit ''transition_'', Val tid, Lit ''.ogg'']
               then fs([Lit ''transition_'', Val tid, Lit ''.ogg''] \<mapsto> content d)
               else fs))"
proof (intro conjI impI)
  have d0: "delivered (submit_answer w) = Some r0" using assms(1,2) by (simp add: delivered_Resp)
  have d1: "delivered (result_answer w) = Some r" using assms(5,6) by (simp add: delivered_Resp)
  have it: "py_item (JObj kv) ''song_paths'' = Inr (JArr (url # urls))"
    using assms(8) by simp
  {
    assume k: "rock_API_KEY w \<noteq> sonauto_placeholder"
      and p: "fst (rock_poll_status w tid) = Returned ''SUCCESS''"
    have pf: "file_events (snd (rock_poll_status w tid)) = []"
      unfolding rock_poll_status_def by (rule poll_status_no_files) (rule rock_no_files)
    have "file_events (snd (generate_rock_song w)) =
            (if fst (display_results (JObj kv)) = Returned () \<and> \<not> raises_for_status d \<and>
                can_open w [Lit ''rock_song_'', Val tid, Lit ''.ogg'']
             then [OpenWB [Lit ''rock_song_'', Val tid, Lit ''.ogg''],
                   WriteB [Lit ''rock_song_'', Val tid, Lit ''.ogg''] (content d)]
             else [])"
      using k d0 d1 assms(3,4,7) it p pf
      by (auto simp: generate_rock_song_def fst_and_then snd_and_then rock_truthy rock_no_files
          display_results_no_files rock_save_song_files[OF assms(9)]
          split: result.splits)
    then show "files_after (snd (generate_rock_song w)) fs =
              (if fst (display_results (JObj kv)) = Returned () \<and> \<not> raises_for_status d \<and>
                  can_open w [Lit ''rock_song_'', Val tid, Lit ''.ogg'']
               then fs([Lit ''rock_song_'', Val tid, Lit ''.ogg''] \<mapsto> content d)
               else fs)"
      by (subst files_after_file_events) simp
  }
  {
    assume b: "fst (song_poll (api_headers (JStr (SONAUTO_API_KEY w))) (result_answer w) tid None
                 (status_answers w)) = Returned Break"
    have "file_events (snd (generate_custom_song w recipient_name occ msg sty)) =
            (if can_open w [Lit ''telegram_song_'', Val tid, Lit ''.ogg'']
             then [OpenWB [Lit ''telegram_song_'', Val tid, Lit ''.ogg''],
                   WriteB [Lit ''telegram_song_'', Val tid, Lit ''.ogg''] (content d)]
             else [])"
      using assms(1-5,7,9) it b
      by (simp add: generate_custom_song_def fst_and_then snd_and_then fst_try_except
          snd_try_except Let_def raise_for_status_def song_poll_no_files open_wb_def)
    then show "files_after (snd (generate_custom_song w recipient_name occ msg sty)) fs =
              (if can_open w [Lit ''telegram_song_'', Val tid, Lit ''.ogg'']
               then fs([Lit ''telegram_song_'', Val tid, Lit ''.ogg''] \<mapsto> content d)
               else fs)"
      by (subst files_after_file_events) simp
  }
  {
    assume rd: "fst (reduce_if_large st audio_path) = Returned (Some reduced)"
      and b64: "read_base64 st reduced = Inr b64"
      and p: "fst (transition_poll_status w tid) = Returned ''SUCCESS''"
    have pf: "file_events (snd (transition_poll_status w tid)) = []"
      unfolding transition_poll_status_def by (rule poll_status_no_files) (rule trans_no_files)
    have "file_events (snd (create_transition w st audio_path section_start section_end)) =
            (if \<not> raises_for_status d \<and> can_open w [Lit ''transition_'', Val tid, Lit ''.ogg'']
             then [OpenWB [Lit ''transition_'', Val tid, Lit ''.ogg''],
                   WriteB [Lit ''transition_'', Val tid, Lit ''.ogg''] (content d)]
             else [])"
      using d0 d1 assms(3,4,7) it p pf rd b64
      by (simp add: create_transition_def fst_and_then snd_and_then trans_truthy trans_no_files
          reduce_no_files encode_audio_base64_def transition_save_files[OF assms(9)] Let_def)
    then show "files_after (snd (create_transition w st audio_path section_start section_end)) fs =
              (if \<not> raises_for_status d \<and>
                  can_open w [Lit ''transition_'', Val tid, Lit ''.ogg'']
               then fs([Lit ''transition_'', Val tid, Lit ''.ogg''] \<mapsto> content d)
               else fs)"
      by (subst files_after_file_events) simp
  }
qed


text \<open>
  In \<open>demo_world\<close> the job succeeds, the result names the one song \<open>http://x/a.ogg\<close> and
  the CDN answers with the bytes \<open>OggS\<close>: each script leaves exactly these bytes in its
  output file.
\<close>

theorem saved_bytes_are_fetched_bytes_witness:
  "files_after (snd (generate_rock_song demo_world)) Map.empty =
     [[Lit ''rock_song_'', Val (JStr ''t1''), Lit ''.ogg''] \<mapsto> ''OggS''] \<and>
   files_after (snd (generate_custom_song demo_world ''Sarah'' ''birthday''
                       ''she is turning 30'' ''pop'')) Map.empty =
     [[Lit ''telegram_song_'', Val (JStr ''t1''), Lit ''.ogg''] \<mapsto> ''OggS''] \<and>
   files_after (snd (create_transition demo_world demo_studio [Lit ''/tmp/d/concatenated.mp3'']
                       (6319113227154227 / 140737488355328)
                       (7050948166601933 / 140737488355328))) Map.empty =
     [[Lit ''transition_'', Val (JStr ''t1''), Lit ''.ogg''] \<mapsto> ''OggS'']"
proof -
  define r0 where "r0 = \<lparr>status_code = 200, text_of = [], content = [],
                          json_body = Some (JObj [(''task_id'', JStr ''t1'')]),
                          http_error = []\<rparr>"
  define kv where "kv = [(''song_paths'', JArr [JStr ''http://x/a.ogg'']),
                         (''lyrics'', JStr ''la la''),
                         (''seed'', JInt 42),
                         (''tags'', JArr [JStr ''rock''])]"
  define r where "r = \<lparr>status_code = 200, text_of = [], content = [],
                         json_body = Some (JObj kv), http_error = []\<rparr>"
  define d where "d = \<lparr>status_code = 200, text_of = [], content = ''OggS'',
                         json_body = None, http_error = []\<rparr>"
  have s: "submit_answer demo_world = Resp r0"
    by (simp add: demo_world_def answer_json_def r0_def)
  have nr0: "\<not> raises_for_status r0" by (simp add: raises_for_status_def r0_def)
  have j0: "json_body r0 = Some (JObj [(''task_id'', JStr ''t1'')])" by (simp add: r0_def)
  have g: "py_get (JObj [(''task_id'', JStr ''t1'')]) ''task_id'' JNull = Inr (JStr ''t1'')"
    by simp
  have ra: "result_answer demo_world = Resp r"
    by (simp add: demo_world_def answer_json_def r_def kv_def)
  have nr: "\<not> raises_for_status r" by (simp add: raises_for_status_def r_def)
  have j: "json_body r = Some (JObj kv)" by (simp add: r_def)
  have m: "map_of kv ''song_paths'' = Some (JArr (JStr ''http://x/a.ogg'' # []))"
    by (simp add: kv_def)
  have c: "cdn demo_world (JStr ''http://x/a.ogg'') = Resp d"
    by (simp add: demo_world_def answer_bytes_def d_def)
  have k: "rock_API_KEY demo_world \<noteq> sonauto_placeholder"
    by (simp add: rock_API_KEY_def demo_world_def sonauto_placeholder_def)
  have p: "fst (rock_poll_status demo_world (JStr ''t1'')) = Returned ''SUCCESS''"
    by code_simp
  have pt: "fst (transition_poll_status demo_world (JStr ''t1'')) = Returned ''SUCCESS''"
    by code_simp
  have b: "fst (song_poll (api_headers (JStr (SONAUTO_API_KEY demo_world)))
                  (result_answer demo_world) (JStr ''t1'') None (status_answers demo_world)) =
             Returned Break"
    by (simp add: demo_world_def answer_text_def quoted_def py_strip_def fst_and_then Let_def)
  have dr: "fst (display_results (JObj kv)) = Returned ()"
    by (simp add: display_results_def fst_and_then kv_def)
  have nd: "\<not> raises_for_status d" by (simp add: raises_for_status_def d_def)
  have co: "can_open demo_world f" for f by (simp add: demo_world_def)
  have cd: "content d = ''OggS''" by (simp add: d_def)
  have rd: "fst (reduce_if_large demo_studio [Lit ''/tmp/d/concatenated.mp3'']) =
              Returned (Some [Lit ''/tmp/d/concatenated.mp3''])"
    by (rule demo_reduce)
  have rb: "read_base64 demo_studio [Lit ''/tmp/d/concatenated.mp3''] = Inr ''QUJD''"
    by (simp add: demo_studio_simps)
  from saved_bytes_are_fetched_bytes[OF s nr0 j0 g ra nr j m c,
      where fs = Map.empty and recipient_name = "''Sarah''" and occ = "''birthday''"
        and msg = "''she is turning 30''" and sty = "''pop''" and st = demo_studio
        and audio_path = "[Lit ''/tmp/d/concatenated.mp3'']"
        and reduced = "[Lit ''/tmp/d/concatenated.mp3'']" and ?b64.0 = "''QUJD''"
        and section_start = "6319113227154227 / 140737488355328"
        and section_end = "7050948166601933 / 140737488355328"]
    k p pt b dr nd co cd rd rb
  show ?thesis by simp
qed

end
